theory Spec2Isabelle
  imports Main "HOL-Library.Word"
begin

unbundle bit_operations_syntax

section \<open>Register masks\<close>

text \<open>
  A register mask is a 64-bit set of register numbers, as \<open>regMaskTP\<close> and
  \<open>SingleTypeRegSet\<close> are in the JIT.  The conversions \<open>GetIntRegSet\<close>,
  \<open>GetFloatRegSet\<close> and \<open>GetRegSetForType\<close> select the part of a mask that
  belongs to one register file; with one 64-bit word for the whole mask they
  are the identity.
\<close>

type_synonym regMaskTP = "64 word"
type_synonym SingleTypeRegSet = "64 word"
type_synonym regNumber = nat

definition RBM_NONE :: regMaskTP where
  "RBM_NONE = 0"

definition genSingleTypeRegMask :: "regNumber \<Rightarrow> SingleTypeRegSet" where
  "genSingleTypeRegMask reg = push_bit reg 1"

definition GetIntRegSet :: "regMaskTP \<Rightarrow> SingleTypeRegSet" where
  "GetIntRegSet m = m"

definition GetFloatRegSet :: "regMaskTP \<Rightarrow> SingleTypeRegSet" where
  "GetFloatRegSet m = m"

section \<open>The IR node model\<close>

text \<open>
  The opcodes named by a case label of \<open>LinearScan::BuildNode\<close> or tested by
  \<open>OperIs\<close> in the file, and three opcodes (\<open>GT_MEMORYBARRIER\<close>,
  \<open>GT_PHYSREG\<close>, \<open>GT_BSWAP\<close>) that stand for the ones the switch leaves
  to its \<open>default\<close> label.
\<close>

datatype (plugins only:) genTreeOps =
    GT_LCL_VAR | GT_LCL_FLD | GT_LCL_ADDR | GT_STORE_LCL_VAR | GT_STORE_LCL_FLD
  | GT_FIELD_LIST | GT_NO_OP | GT_START_NONGC | GT_PROF_HOOK | GT_START_PREEMPTGC
  | GT_CNS_DBL | GT_CNS_INT | GT_BOX | GT_COMMA | GT_QMARK | GT_COLON
  | GT_RETURN | GT_RETFILT | GT_NOP | GT_KEEPALIVE | GT_JTRUE | GT_JMP
  | GT_SWITCH | GT_JMPTABLE | GT_SWITCH_TABLE
  | GT_ADD | GT_SUB | GT_AND | GT_AND_NOT | GT_OR | GT_XOR
  | GT_LSH | GT_RSH | GT_RSZ | GT_ROR
  | GT_RETURNTRAP | GT_MUL | GT_MOD | GT_UMOD | GT_DIV | GT_MULHI | GT_UDIV
  | GT_INTRINSIC | GT_HWINTRINSIC | GT_CAST | GT_NEG | GT_NOT
  | GT_EQ | GT_NE | GT_LT | GT_LE | GT_GE | GT_GT | GT_JCMP
  | GT_CKFINITE | GT_CMPXCHG | GT_LOCKADD | GT_XORR | GT_XAND | GT_XADD | GT_XCHG
  | GT_PUTARG_STK | GT_PUTARG_REG | GT_CALL | GT_BLK | GT_STORE_BLK | GT_INIT_VAL
  | GT_LCLHEAP | GT_BOUNDS_CHECK | GT_ARR_ELEM | GT_LEA | GT_STOREIND
  | GT_NULLCHECK | GT_IND | GT_CATCH_ARG | GT_ASYNC_CONTINUATION | GT_INDEX_ADDR
  | GT_MEMORYBARRIER | GT_PHYSREG | GT_BSWAP

datatype var_types =
    TYP_UNDEF | TYP_VOID | TYP_INT | TYP_LONG | TYP_FLOAT | TYP_DOUBLE
  | TYP_REF | TYP_BYREF | TYP_STRUCT | TYP_SIMD12 | TYP_SIMD16

datatype NamedIntrinsic =
    NI_Illegal | NI_System_Math_Abs | NI_System_Math_Ceiling
  | NI_System_Math_Floor | NI_System_Math_Round | NI_System_Math_Sqrt

datatype gtCallTypes = CT_USER_FUNC | CT_HELPER | CT_INDIRECT

datatype BlkOpKind =
    BlkOpKindInvalid | BlkOpKindCpObjUnroll | BlkOpKindLoop | BlkOpKindUnroll

text \<open>
  The scalar members of a node that the file reads, whatever the node's
  class: the flags behind \<open>IsValue()\<close>, \<open>IsUnusedValue()\<close>,
  \<open>isContained()\<close>, \<open>gtOverflow()\<close>, \<open>IsMultiRegLclVar()\<close> and
  \<open>IsMultiRegNode()\<close>; the value of an integer constant (\<open>gtIconVal\<close>, read
  as a \<open>size_t\<close>); an address mode's \<open>Offset()\<close> (a 32-bit \<open>int\<close>); a local
  address's offset; an intrinsic's name; a call's type, flags and return type
  descriptor (the ABI return register of each return slot, so
  \<open>GetReturnRegCount()\<close> is its length); a block's \<open>Size()\<close>, \<open>gtBlkOpKind\<close>
  and \<open>OperIsInitBlkOp()\<close>.
\<close>

record GenTreeData =
  gtOper :: genTreeOps
  gtType :: var_types
  gtIsValue :: bool
  gtIsUnusedValue :: bool
  gtIsContained :: bool
  gtOverflowFlag :: bool
  gtIsMultiRegLclVar :: bool
  gtIsMultiRegNode :: bool
  gtIconVal :: "64 word"
  gtOffset :: "32 word"
  gtLclOffs :: nat
  gtIntrinsicName :: NamedIntrinsic
  gtCallType :: gtCallTypes
  gtIsFastTailCall :: bool
  gtIsR2ROrVirtualStubRelativeIndir :: bool
  gtHasMultiRegRetVal :: bool
  gtReturnTypeDesc :: "regNumber list"
  gtIsAsync :: bool
  gtBlkSize :: "32 word"
  gtBlkOpKind :: BlkOpKind
  gtOperIsInitBlkOp :: bool

text \<open>
  A node with its operand pointers: \<open>gtOp1\<close> and \<open>gtOp2\<close> may be null
  (\<open>None\<close>); \<open>gtUses\<close> is the operand list of a field list.  The accessors of
  the node classes read these: \<open>Base()\<close>, \<open>Addr()\<close>, \<open>CastOp()\<close>,
  \<open>GetIndex()\<close> and a call's \<open>gtControlExpr\<close> are the first operand,
  \<open>Index()\<close>, \<open>Data()\<close>, \<open>GetArrayLength()\<close> and a call's \<open>gtCallAddr\<close>
  the second.
\<close>

datatype GenTree =
  GenTree (gt: GenTreeData) (gtOp1: "GenTree option") (gtOp2: "GenTree option")
    (gtUses: "GenTree list")

abbreviation OperGet :: "GenTree \<Rightarrow> genTreeOps" where
  "OperGet t \<equiv> gtOper (gt t)"

abbreviation TypeGet :: "GenTree \<Rightarrow> var_types" where
  "TypeGet t \<equiv> gtType (gt t)"

abbreviation OperIs :: "GenTree \<Rightarrow> genTreeOps \<Rightarrow> bool" where
  "OperIs t oper \<equiv> gtOper (gt t) = oper"

abbreviation TypeIs :: "GenTree \<Rightarrow> var_types \<Rightarrow> bool" where
  "TypeIs t ty \<equiv> gtType (gt t) = ty"

abbreviation IsValue :: "GenTree \<Rightarrow> bool" where
  "IsValue t \<equiv> gtIsValue (gt t)"

abbreviation IsUnusedValue :: "GenTree \<Rightarrow> bool" where
  "IsUnusedValue t \<equiv> gtIsUnusedValue (gt t)"

abbreviation isContained :: "GenTree \<Rightarrow> bool" where
  "isContained t \<equiv> gtIsContained (gt t)"

abbreviation gtOverflow :: "GenTree \<Rightarrow> bool" where
  "gtOverflow t \<equiv> gtOverflowFlag (gt t)"

abbreviation IsMultiRegLclVar :: "GenTree \<Rightarrow> bool" where
  "IsMultiRegLclVar t \<equiv> gtIsMultiRegLclVar (gt t)"

abbreviation IsMultiRegNode :: "GenTree \<Rightarrow> bool" where
  "IsMultiRegNode t \<equiv> gtIsMultiRegNode (gt t)"

abbreviation IsCnsIntOrI :: "GenTree \<Rightarrow> bool" where
  "IsCnsIntOrI t \<equiv> gtOper (gt t) = GT_CNS_INT"

abbreviation OperIsAddrMode :: "GenTree \<Rightarrow> bool" where
  "OperIsAddrMode t \<equiv> gtOper (gt t) = GT_LEA"

abbreviation IsLclVarAddr :: "GenTree \<Rightarrow> bool" where
  "IsLclVarAddr t \<equiv> gtOper (gt t) = GT_LCL_ADDR \<and> gtLclOffs (gt t) = 0"

abbreviation IsFastTailCall :: "GenTree \<Rightarrow> bool" where
  "IsFastTailCall t \<equiv> gtIsFastTailCall (gt t)"

abbreviation IsR2ROrVirtualStubRelativeIndir :: "GenTree \<Rightarrow> bool" where
  "IsR2ROrVirtualStubRelativeIndir t \<equiv> gtIsR2ROrVirtualStubRelativeIndir (gt t)"

abbreviation HasMultiRegRetVal :: "GenTree \<Rightarrow> bool" where
  "HasMultiRegRetVal t \<equiv> gtHasMultiRegRetVal (gt t)"

abbreviation IsAsync :: "GenTree \<Rightarrow> bool" where
  "IsAsync t \<equiv> gtIsAsync (gt t)"

abbreviation OperIsInitBlkOp :: "GenTree \<Rightarrow> bool" where
  "OperIsInitBlkOp t \<equiv> gtOperIsInitBlkOp (gt t)"

definition varTypeIsFloating :: "var_types \<Rightarrow> bool" where
  "varTypeIsFloating ty = (ty = TYP_FLOAT \<or> ty = TYP_DOUBLE)"

definition varTypeUsesFloatArgReg :: "var_types \<Rightarrow> bool" where
  "varTypeUsesFloatArgReg ty = varTypeIsFloating ty"

text \<open>
  The return type descriptor of a call: \<open>GetReturnRegCount()\<close>,
  \<open>GetABIReturnReg(i)\<close> and \<open>GetABIReturnRegs()\<close>, the mask of all of the
  descriptor's return registers.
\<close>

definition GetReturnRegCount :: "GenTree \<Rightarrow> int" where
  "GetReturnRegCount call = int (length (gtReturnTypeDesc (gt call)))"

definition GetABIReturnRegs :: "GenTree \<Rightarrow> regMaskTP" where
  "GetABIReturnRegs call =
     fold (\<lambda>reg m. m OR genSingleTypeRegMask reg) (gtReturnTypeDesc (gt call)) RBM_NONE"

section \<open>Target and compiler parameters\<close>

text \<open>
  The constants of the target header and the queries on the compiler that
  the file uses but does not define are parameters of the model: the register
  sets, the temporaries of the stack-cookie check, the kill sets, the page
  size, the method's flags, the two feature macros, and the decisions that
  other phases make about a node (\<open>checkContainedOrCandidateLclVar\<close>,
  \<open>isCandidateMultiRegLclVar\<close>, \<open>lvFieldCnt\<close>, \<open>gcIsWriteBarrierStoreIndNode\<close>,
  \<open>GetRegisterDstCount\<close>).
\<close>

record Target =
  RBM_INT_CALLEE_TRASH :: regMaskTP
  REG_GSCOOKIE_TMP_0 :: regNumber
  REG_GSCOOKIE_TMP_1 :: regNumber
  RBM_WRITE_BARRIER_DST_BYREF :: regMaskTP
  RBM_WRITE_BARRIER_SRC_BYREF :: regMaskTP
  RBM_INTRET :: regMaskTP
  RBM_LNGRET :: regMaskTP
  RBM_FLOATRET :: regMaskTP
  RBM_EXCEPTION_OBJECT :: regMaskTP
  RBM_ASYNC_CONTINUATION_RET :: regMaskTP
  FP_REGSIZE_BYTES :: nat

record Compiler =
  target :: Target
  availableIntRegs :: SingleTypeRegSet
  FEATURE_SIMD :: bool
  FEATURE_HW_INTRINSICS :: bool
  compInitMem :: bool
  eeGetPageSize :: "64 word"
  getNeedsGSSecurityCookie :: bool
  compIsAsync :: bool
  checkContainedOrCandidateLclVar :: "GenTree \<Rightarrow> bool"
  isCandidateMultiRegLclVar :: "GenTree \<Rightarrow> bool"
  lvFieldCnt :: "GenTree \<Rightarrow> int"
  gcIsWriteBarrierStoreIndNode :: "GenTree \<Rightarrow> bool"
  GetRegisterDstCount :: "GenTree \<Rightarrow> int"
  getKillSetForProfilerHook :: regMaskTP
  getKillSetForReturn :: "GenTree \<Rightarrow> regMaskTP"
  getKillSetForCall :: "GenTree \<Rightarrow> regMaskTP"
  getKillSetForBlockStore :: "GenTree \<Rightarrow> regMaskTP"
  compHelperCallKillSet_STOP_FOR_GC :: regMaskTP

definition allRegs_TYP_INT :: "Compiler \<Rightarrow> SingleTypeRegSet" where
  "allRegs_TYP_INT compiler = availableIntRegs compiler"

text \<open>
  The stack alignment and the register width of the target, in bytes: the
  file's comment on \<open>GT_LCLHEAP\<close> gives 16 to 64 bytes for the allocations
  of up to \<open>REGSIZE_BYTES * 2 * 4\<close> bytes, which are aligned first.
  \<open>AlignUp\<close> rounds a \<open>size_t\<close> up to a multiple of a power of two.
\<close>

definition STACK_ALIGN :: "64 word" where
  "STACK_ALIGN = 16"

definition REGSIZE_BYTES :: nat where
  "REGSIZE_BYTES = 8"

definition AlignUp :: "64 word \<Rightarrow> 64 word \<Rightarrow> 64 word" where
  "AlignUp val alignment = (val + (alignment - 1)) AND NOT (alignment - 1)"

text \<open>
  Modelled from the spec: \<open>emitter::isValidSimm12\<close> is not in the file; the
  spec calls it the signed 12-bit immediate encoding.
\<close>

definition isValidSimm12 :: "32 word \<Rightarrow> bool" where
  "isValidSimm12 v = (- 2048 \<le> sint v \<and> sint v \<le> 2047)"

section \<open>Demand records and the allocator's build state\<close>

text \<open>
  Modelled from the spec: the positioned register references.  A reference is
  a use of an operand's value, the def of a node's result (with the index of
  the result register and the interval's constant flag), a kill set, or the
  def or the use of an internal (scratch) register; each carries its candidate
  mask, and an internal use carries the delay-free marker.
\<close>

datatype RefPosition =
    RefInternalDef GenTree SingleTypeRegSet
  | RefUse GenTree SingleTypeRegSet
  | RefInternalUse GenTree SingleTypeRegSet bool
  | RefDef GenTree SingleTypeRegSet nat bool
  | RefKill GenTree regMaskTP

record LinearScan =
  refPositions :: "RefPosition list"
  internalDefs :: "(GenTree \<times> SingleTypeRegSet) list"
  setInternalRegsDelayFree :: bool
  asyncContinuationBusy :: "GenTree list"
  placedArgRegs :: regMaskTP
  numPlacedArgLocals :: nat

datatype error =
    AssertionFailed | NowayAssertFailed | Unreached | NotYetImplemented | NullDereference

text \<open>
  A builder either returns its source count with the state it leaves, or ends
  the compilation of the method; the state at that point is kept.  An
  \<open>assert\<close> is modelled as in a checked build: when it fails, the build ends.
\<close>

datatype 'a outcome = Fatal error LinearScan | Done 'a LinearScan

text \<open>
  Modelled from the spec: the primitives of the allocator's builder, which
  the file calls and does not define.  Each appends its demand record to the
  stream; an internal register request is also remembered until
  \<open>buildInternalRegisterUses\<close> consumes the requests, in request order.
\<close>

definition newRefPosition :: "RefPosition \<Rightarrow> LinearScan \<Rightarrow> LinearScan" where
  "newRefPosition r ls = ls\<lparr>refPositions := refPositions ls @ [r]\<rparr>"

definition clearBuildState :: "LinearScan \<Rightarrow> LinearScan" where
  "clearBuildState ls = ls\<lparr>internalDefs := [], setInternalRegsDelayFree := False\<rparr>"

definition BuildUse :: "GenTree \<Rightarrow> SingleTypeRegSet \<Rightarrow> LinearScan \<Rightarrow> LinearScan" where
  "BuildUse operand candidates ls = newRefPosition (RefUse operand candidates) ls"

definition BuildDef :: "GenTree \<Rightarrow> SingleTypeRegSet \<Rightarrow> LinearScan \<Rightarrow> LinearScan" where
  "BuildDef tree dstCandidates ls = newRefPosition (RefDef tree dstCandidates 0 False) ls"

definition setIsConstant :: "LinearScan \<Rightarrow> LinearScan" where
  "setIsConstant ls =
     (case rev (refPositions ls) of
        RefDef tree cands idx c # rest \<Rightarrow>
          ls\<lparr>refPositions := rev rest @ [RefDef tree cands idx True]\<rparr>
      | _ \<Rightarrow> ls)"

definition BuildKills :: "GenTree \<Rightarrow> regMaskTP \<Rightarrow> LinearScan \<Rightarrow> LinearScan" where
  "BuildKills tree killMask ls = newRefPosition (RefKill tree killMask) ls"

definition buildInternalIntRegisterDefForNode ::
  "GenTree \<Rightarrow> SingleTypeRegSet \<Rightarrow> LinearScan \<Rightarrow> LinearScan" where
  "buildInternalIntRegisterDefForNode tree internalCands ls =
     (newRefPosition (RefInternalDef tree internalCands) ls)
       \<lparr>internalDefs := internalDefs ls @ [(tree, internalCands)]\<rparr>"

definition buildInternalRegisterUses :: "LinearScan \<Rightarrow> LinearScan" where
  "buildInternalRegisterUses ls =
     ls\<lparr>refPositions := refPositions ls @
           map (\<lambda>(tree, cands). RefInternalUse tree cands (setInternalRegsDelayFree ls))
             (internalDefs ls),
        internalDefs := []\<rparr>"

text \<open>
  Modelled from the spec: \<open>BuildDefWithKills\<close> and \<open>BuildCallDefsWithKills\<close>
  are not in the file.  The spec attaches the kill set combined with the
  destination def; a multi-register return of N slots builds N defs, each
  with the ABI return register of its slot as its candidate, and the kill set
  excludes those registers.
\<close>

definition BuildDefWithKills ::
  "GenTree \<Rightarrow> SingleTypeRegSet \<Rightarrow> regMaskTP \<Rightarrow> LinearScan \<Rightarrow> LinearScan" where
  "BuildDefWithKills tree dstCandidates killMask ls =
     BuildKills tree killMask (BuildDef tree dstCandidates ls)"

definition BuildCallDefs :: "GenTree \<Rightarrow> nat \<Rightarrow> RefPosition list" where
  "BuildCallDefs call dstCount =
     map (\<lambda>i. RefDef call (genSingleTypeRegMask (gtReturnTypeDesc (gt call) ! i)) i False)
       [0..<min dstCount (length (gtReturnTypeDesc (gt call)))]"

definition BuildCallDefsWithKills ::
  "GenTree \<Rightarrow> int \<Rightarrow> regMaskTP \<Rightarrow> regMaskTP \<Rightarrow> LinearScan \<Rightarrow> LinearScan" where
  "BuildCallDefsWithKills call dstCount dstCandidates killMask ls =
     BuildKills call (killMask AND NOT dstCandidates)
       (ls\<lparr>refPositions := refPositions ls @ BuildCallDefs call (nat dstCount)\<rparr>)"

section \<open>Operand uses\<close>

text \<open>
  Modelled from the spec: the helpers that build the uses of a node's
  operands are not in the file.  A non-contained operand is one use; a
  contained node is no source of demand itself, and the demand of its operands
  is attributed to the consuming parent.  Each helper returns the number of
  uses it builds.
\<close>

fun operandUses :: "GenTree \<Rightarrow> GenTree list" where
  "operandUses (GenTree d op1 op2 uses) =
     (if gtIsContained d
      then (case op1 of None \<Rightarrow> [] | Some t \<Rightarrow> operandUses t) @
           (case op2 of None \<Rightarrow> [] | Some t \<Rightarrow> operandUses t) @
           concat (map operandUses uses)
      else [GenTree d op1 op2 uses])"

definition BuildUses ::
  "GenTree list \<Rightarrow> SingleTypeRegSet \<Rightarrow> LinearScan \<Rightarrow> int \<times> LinearScan" where
  "BuildUses operands candidates ls =
     (int (length operands),
      ls\<lparr>refPositions := refPositions ls @ map (\<lambda>t. RefUse t candidates) operands\<rparr>)"

definition BuildOperandUses :: "GenTree \<Rightarrow> LinearScan \<Rightarrow> int \<times> LinearScan" where
  "BuildOperandUses node ls = BuildUses (operandUses node) RBM_NONE ls"

definition BuildAddrUses :: "GenTree \<Rightarrow> LinearScan \<Rightarrow> int \<times> LinearScan" where
  "BuildAddrUses addr ls = BuildOperandUses addr ls"

definition BuildIndirUses :: "GenTree \<Rightarrow> LinearScan \<Rightarrow> int \<times> LinearScan" where
  "BuildIndirUses indirTree ls =
     (case gtOp1 indirTree of
        None \<Rightarrow> (0, ls)
      | Some addr \<Rightarrow> BuildAddrUses addr ls)"

definition BuildBinaryUses :: "GenTree \<Rightarrow> LinearScan \<Rightarrow> int \<times> LinearScan" where
  "BuildBinaryUses node ls =
     (let (n1, ls1) = (case gtOp1 node of
                         None \<Rightarrow> (0, ls)
                       | Some op1 \<Rightarrow> BuildOperandUses op1 ls);
          (n2, ls2) = (case gtOp2 node of
                         None \<Rightarrow> (0, ls1)
                       | Some op2 \<Rightarrow> BuildOperandUses op2 ls1)
      in (n1 + n2, ls2))"

text \<open>
  Modelled from the spec: \<open>BuildSimple\<close>, the default of the dispatcher, is
  not in the file.  A node consumes one use per non-contained operand and,
  when it is a value, produces one def.
\<close>

definition BuildSimple :: "GenTree \<Rightarrow> LinearScan \<Rightarrow> int \<times> LinearScan" where
  "BuildSimple tree ls =
     (let (srcCount, ls1) = BuildBinaryUses tree ls
      in (srcCount, if IsValue tree then BuildDef tree RBM_NONE ls1 else ls1))"

text \<open>
  Modelled from the spec: \<open>BuildCmp\<close> is not in the file.  Comparison and
  conditional-jump nodes consume their comparands and produce no value.
\<close>

definition BuildCmp :: "GenTree \<Rightarrow> LinearScan \<Rightarrow> int \<times> LinearScan" where
  "BuildCmp tree ls = BuildBinaryUses tree ls"

text \<open>
  The builders of local stores, returns, register arguments, write-barrier
  stores and call arguments are not in the file, and the spec does not detail
  them: they are parameters.  Each gives the source count it returns and the
  demand records it appends for a node; the call-argument builder appends uses
  only, given by operand and candidate mask.
\<close>

record Builders =
  BuildStoreLoc :: "GenTree \<Rightarrow> int \<times> RefPosition list"
  BuildReturn :: "GenTree \<Rightarrow> int \<times> RefPosition list"
  BuildPutArgReg :: "GenTree \<Rightarrow> int \<times> RefPosition list"
  BuildGCWriteBarrier :: "GenTree \<Rightarrow> int \<times> RefPosition list"
  BuildCallArgUses :: "GenTree \<Rightarrow> int \<times> (GenTree \<times> SingleTypeRegSet) list"

definition runBuilder :: "int \<times> RefPosition list \<Rightarrow> LinearScan \<Rightarrow> int outcome" where
  "runBuilder r ls = Done (fst r) (ls\<lparr>refPositions := refPositions ls @ snd r\<rparr>)"

definition runUseBuilder ::
  "int \<times> (GenTree \<times> SingleTypeRegSet) list \<Rightarrow> LinearScan \<Rightarrow> int \<times> LinearScan" where
  "runUseBuilder r ls =
     (fst r, ls\<lparr>refPositions := refPositions ls @ map (\<lambda>(t, cands). RefUse t cands) (snd r)\<rparr>)"

text \<open>
  \<open>MarkAsyncContinuationBusyForCall\<close> is not in the file either.  It keeps the
  register of the async continuation busy across the call; this is none of the
  demand records above and is noted in a member of its own.
\<close>

definition MarkAsyncContinuationBusyForCall :: "GenTree \<Rightarrow> LinearScan \<Rightarrow> LinearScan" where
  "MarkAsyncContinuationBusyForCall call ls =
     ls\<lparr>asyncContinuationBusy := asyncContinuationBusy ls @ [call]\<rparr>"

text \<open>
  Modelled from the spec: \<open>NYI_LOONGARCH64\<close> is not in the file.  It is the
  fatal "not implemented for this target" condition, which ends the
  compilation of the method.
\<close>

definition NYI_LOONGARCH64 :: "LinearScan \<Rightarrow> int outcome" where
  "NYI_LOONGARCH64 ls = Fatal NotYetImplemented ls"

definition returns :: "int \<times> LinearScan \<Rightarrow> int outcome" where
  "returns r = Done (fst r) (snd r)"

section \<open>The specialized builders of the file\<close>

subsection \<open>BuildHWIntrinsic\<close>

definition BuildHWIntrinsic :: "GenTree \<Rightarrow> LinearScan \<Rightarrow> int outcome" where
  "BuildHWIntrinsic intrinsicTree ls = NYI_LOONGARCH64 ls"

subsection \<open>BuildIndir\<close>

definition BuildIndir :: "Compiler \<Rightarrow> GenTree \<Rightarrow> LinearScan \<Rightarrow> int outcome" where
  "BuildIndir compiler indirTree ls =
     (if TypeIs indirTree TYP_STRUCT then Fatal AssertionFailed ls
      else case gtOp1 indirTree of
        None \<Rightarrow> Fatal NullDereference ls
      | Some addr \<Rightarrow>
          let ls1 =
                (if isContained addr \<and> OperIs addr GT_LEA
                 then (let index = gtOp2 addr; cns = gtOffset (gt addr)
                       in if index \<noteq> None \<and> cns \<noteq> 0
                          then buildInternalIntRegisterDefForNode indirTree RBM_NONE ls
                          else if \<not> isValidSimm12 cns
                          then buildInternalIntRegisterDefForNode indirTree RBM_NONE ls
                          else ls)
                 else ls)
          in if FEATURE_SIMD compiler \<and> TypeIs indirTree TYP_SIMD12 \<and> isContained addr
             then Fatal AssertionFailed ls1
             else
               let ls2 = (if FEATURE_SIMD compiler \<and> TypeIs indirTree TYP_SIMD12
                          then buildInternalIntRegisterDefForNode indirTree RBM_NONE ls1
                          else ls1);
                   (srcCount, ls3) = BuildIndirUses indirTree ls2;
                   ls4 = buildInternalRegisterUses ls3;
                   ls5 = (if \<not> (OperIs indirTree GT_STOREIND \<or> OperIs indirTree GT_NULLCHECK)
                          then BuildDef indirTree RBM_NONE ls4
                          else ls4)
               in Done srcCount ls5)"

subsection \<open>BuildCall\<close>

text \<open>
  The first part of \<open>BuildCall\<close> fixes the candidates of the call target:
  \<open>ctrlExprCandidates\<close> for the use of the control expression, and
  \<open>candidates\<close> for the internal register that receives the address of an
  indirect R2R or virtual-stub call.  It is kept apart so that the two masks
  can be read off; \<open>BuildCall\<close> continues from its result.
\<close>

definition gsCookieTmpRegs :: "Compiler \<Rightarrow> SingleTypeRegSet" where
  "gsCookieTmpRegs compiler =
     genSingleTypeRegMask (REG_GSCOOKIE_TMP_0 (target compiler)) OR
     genSingleTypeRegMask (REG_GSCOOKIE_TMP_1 (target compiler))"

definition BuildCall_target ::
  "Compiler \<Rightarrow> GenTree \<Rightarrow> LinearScan \<Rightarrow> (GenTree option \<times> SingleTypeRegSet) outcome" where
  "BuildCall_target compiler call ls =
     (if gtCallType (gt call) = CT_INDIRECT \<and> gtOp1 call \<noteq> None
      then Fatal AssertionFailed ls
      else if gtCallType (gt call) = CT_INDIRECT \<and> gtOp2 call = None
      then Fatal AssertionFailed ls
      else
        let ctrlExpr = (if gtCallType (gt call) = CT_INDIRECT then gtOp2 call else gtOp1 call)
        in case ctrlExpr of
             Some ce \<Rightarrow>
               if TypeIs ce TYP_VOID then Fatal AssertionFailed ls
               else if IsFastTailCall call
               then
                 let ctrlExprCandidates0 =
                       allRegs_TYP_INT compiler AND
                       GetIntRegSet (RBM_INT_CALLEE_TRASH (target compiler));
                     ctrlExprCandidates =
                       (if getNeedsGSSecurityCookie compiler
                        then ctrlExprCandidates0 AND NOT (gsCookieTmpRegs compiler)
                        else ctrlExprCandidates0)
                 in if ctrlExprCandidates = RBM_NONE then Fatal AssertionFailed ls
                    else Done (ctrlExpr, ctrlExprCandidates) ls
               else Done (ctrlExpr, RBM_NONE) ls
           | None \<Rightarrow>
               if IsR2ROrVirtualStubRelativeIndir call
               then
                 if IsFastTailCall call
                 then
                   let candidates =
                         allRegs_TYP_INT compiler AND
                         GetIntRegSet (RBM_INT_CALLEE_TRASH (target compiler));
                       ctrlExprCandidates =
                         (if getNeedsGSSecurityCookie compiler
                          then RBM_NONE AND NOT (gsCookieTmpRegs compiler)
                          else RBM_NONE)
                   in if candidates = RBM_NONE then Fatal AssertionFailed ls
                      else Done (ctrlExpr, ctrlExprCandidates)
                             (buildInternalIntRegisterDefForNode call candidates ls)
                 else Done (ctrlExpr, RBM_NONE)
                        (buildInternalIntRegisterDefForNode call RBM_NONE ls)
               else Done (ctrlExpr, RBM_NONE) ls)"

definition BuildCall :: "Compiler \<Rightarrow> Builders \<Rightarrow> GenTree \<Rightarrow> LinearScan \<Rightarrow> int outcome" where
  "BuildCall compiler ext call ls =
     (let hasMultiRegRetVal = (\<not> TypeIs call TYP_VOID \<and> HasMultiRegRetVal call);
          dstCount = (if \<not> TypeIs call TYP_VOID
                      then (if HasMultiRegRetVal call then GetReturnRegCount call else 1)
                      else 0)
      in case BuildCall_target compiler call ls of
           Fatal e ls1 \<Rightarrow> Fatal e ls1
         | Done (ctrlExpr, ctrlExprCandidates) ls1 \<Rightarrow>
             let registerType = TypeGet call;
                 singleDstCandidates =
                   (if \<not> hasMultiRegRetVal
                    then (if varTypeUsesFloatArgReg registerType
                          then GetFloatRegSet (RBM_FLOATRET (target compiler))
                          else if registerType = TYP_LONG
                          then GetIntRegSet (RBM_LNGRET (target compiler))
                          else GetIntRegSet (RBM_INTRET (target compiler)))
                    else RBM_NONE);
                 (argCount, ls2) = runUseBuilder (BuildCallArgUses ext call) ls1;
                 (srcCount, ls3) =
                   (case ctrlExpr of
                      Some ce \<Rightarrow> (argCount + 1, BuildUse ce ctrlExprCandidates ls2)
                    | None \<Rightarrow> (argCount, ls2));
                 ls4 = buildInternalRegisterUses ls3;
                 ls5 = (if IsAsync call \<and> compIsAsync compiler \<and> \<not> IsFastTailCall call
                        then MarkAsyncContinuationBusyForCall call ls4
                        else ls4);
                 killMask = getKillSetForCall compiler call
             in if dstCount > 0
                then
                  if hasMultiRegRetVal
                  then
                    let multiDstCandidates = GetABIReturnRegs call
                    in if multiDstCandidates = RBM_NONE then Fatal AssertionFailed ls5
                       else Done srcCount
                              ((BuildCallDefsWithKills call dstCount multiDstCandidates killMask ls5)
                                 \<lparr>placedArgRegs := RBM_NONE, numPlacedArgLocals := 0\<rparr>)
                  else Done srcCount
                         ((BuildDefWithKills call singleDstCandidates killMask ls5)
                            \<lparr>placedArgRegs := RBM_NONE, numPlacedArgLocals := 0\<rparr>)
                else Done srcCount
                       ((BuildKills call killMask ls5)
                          \<lparr>placedArgRegs := RBM_NONE, numPlacedArgLocals := 0\<rparr>))"

subsection \<open>BuildPutArgStk\<close>

definition BuildPutArgStk :: "GenTree \<Rightarrow> LinearScan \<Rightarrow> int outcome" where
  "BuildPutArgStk argNode ls =
     (if \<not> OperIs argNode GT_PUTARG_STK then Fatal AssertionFailed ls
      else case gtOp1 argNode of
        None \<Rightarrow> Fatal NullDereference ls
      | Some putArgChild \<Rightarrow>
          let r =
            (if TypeIs putArgChild TYP_STRUCT \<or> OperIs putArgChild GT_FIELD_LIST
             then
               if OperIs putArgChild GT_FIELD_LIST
               then
                 if \<not> isContained putArgChild then Fatal AssertionFailed ls
                 else returns (BuildUses (gtUses putArgChild) RBM_NONE ls)
               else
                 let ls1 = buildInternalIntRegisterDefForNode argNode RBM_NONE ls;
                     ls2 = buildInternalIntRegisterDefForNode argNode RBM_NONE ls1
                 in if OperIs putArgChild GT_BLK
                    then
                      if \<not> isContained putArgChild then Fatal AssertionFailed ls2
                      else (case gtOp1 putArgChild of
                              None \<Rightarrow> Fatal NullDereference ls2
                            | Some objChild \<Rightarrow>
                                if IsLclVarAddr objChild
                                then (if \<not> isContained objChild
                                      then Fatal AssertionFailed ls2
                                      else Done 0 ls2)
                                else returns (BuildOperandUses objChild ls2))
                    else Done 0 ls2
             else if isContained putArgChild then Fatal AssertionFailed ls
             else returns (BuildOperandUses putArgChild ls))
          in (case r of
                Fatal e ls3 \<Rightarrow> Fatal e ls3
              | Done srcCount ls3 \<Rightarrow> Done srcCount (buildInternalRegisterUses ls3)))"

subsection \<open>BuildBlockStore\<close>

text \<open>
  The first part of \<open>BuildBlockStore\<close> requests the internal registers of the
  strategy and fixes the source address or fill value and the two candidate
  masks \<open>dstAddrRegMask\<close> and \<open>srcRegMask\<close>.
\<close>

definition writeBarrierByrefRegs :: "Compiler \<Rightarrow> SingleTypeRegSet" where
  "writeBarrierByrefRegs compiler =
     GetIntRegSet (RBM_WRITE_BARRIER_DST_BYREF (target compiler) OR
                   RBM_WRITE_BARRIER_SRC_BYREF (target compiler))"

definition BuildBlockStore_kind ::
  "Compiler \<Rightarrow> GenTree \<Rightarrow> GenTree \<Rightarrow> GenTree \<Rightarrow> LinearScan \<Rightarrow>
     (GenTree option \<times> SingleTypeRegSet \<times> SingleTypeRegSet) outcome" where
  "BuildBlockStore_kind compiler blkNode dstAddr src ls =
     (let blkSize = unat (gtBlkSize (gt blkNode))
      in if OperIsInitBlkOp blkNode
         then
           if OperIs src GT_INIT_VAL \<and> \<not> isContained src then Fatal AssertionFailed ls
           else
             let srcAddrOrFill = (if OperIs src GT_INIT_VAL then gtOp1 src else Some src)
             in case gtBlkOpKind (gt blkNode) of
                  BlkOpKindUnroll \<Rightarrow>
                    let ls1 = (if isContained dstAddr
                               then buildInternalIntRegisterDefForNode blkNode RBM_NONE ls
                               else ls);
                        isDstRegAddrAlignmentKnown = OperIs dstAddr GT_LCL_ADDR;
                        ls2 = (if isDstRegAddrAlignmentKnown \<and>
                                  blkSize > FP_REGSIZE_BYTES (target compiler)
                               then buildInternalIntRegisterDefForNode blkNode RBM_NONE ls1
                               else ls1)
                    in Done (srcAddrOrFill, RBM_NONE, RBM_NONE) ls2
                | BlkOpKindLoop \<Rightarrow>
                    Done (srcAddrOrFill, RBM_NONE, RBM_NONE)
                      (buildInternalIntRegisterDefForNode blkNode (availableIntRegs compiler) ls)
                | _ \<Rightarrow> Fatal Unreached ls
         else
           if OperIs src GT_IND \<and> \<not> isContained src then Fatal AssertionFailed ls
           else
             let srcAddrOrFill = (if OperIs src GT_IND then gtOp1 src else None)
             in case gtBlkOpKind (gt blkNode) of
                  BlkOpKindCpObjUnroll \<Rightarrow>
                    let internalIntCandidates =
                          allRegs_TYP_INT compiler AND NOT (writeBarrierByrefRegs compiler);
                        ls1 = buildInternalIntRegisterDefForNode blkNode internalIntCandidates ls;
                        ls2 = (if blkSize \<ge> 2 * REGSIZE_BYTES
                               then buildInternalIntRegisterDefForNode blkNode
                                      internalIntCandidates ls1
                               else ls1);
                        dstAddrRegMask =
                          GetIntRegSet (RBM_WRITE_BARRIER_DST_BYREF (target compiler))
                    in (case srcAddrOrFill of
                          Some srcAddr \<Rightarrow>
                            if isContained srcAddr then Fatal AssertionFailed ls2
                            else Done (srcAddrOrFill, dstAddrRegMask,
                                   GetIntRegSet (RBM_WRITE_BARRIER_SRC_BYREF (target compiler))) ls2
                        | None \<Rightarrow> Done (srcAddrOrFill, dstAddrRegMask, RBM_NONE) ls2)
                | BlkOpKindUnroll \<Rightarrow>
                    Done (srcAddrOrFill, RBM_NONE, RBM_NONE)
                      (buildInternalIntRegisterDefForNode blkNode RBM_NONE ls)
                | _ \<Rightarrow> Fatal Unreached ls)"

definition BuildBlockStore_addrUses ::
  "GenTree \<Rightarrow> SingleTypeRegSet \<Rightarrow> LinearScan \<Rightarrow> int outcome" where
  "BuildBlockStore_addrUses addr regMask ls =
     (if \<not> isContained addr then Done 1 (BuildUse addr regMask ls)
      else if OperIsAddrMode addr
      then (case gtOp1 addr of
              None \<Rightarrow> Fatal NullDereference ls
            | Some base \<Rightarrow> returns (BuildAddrUses base ls))
      else Done 0 ls)"

definition BuildBlockStore :: "Compiler \<Rightarrow> GenTree \<Rightarrow> LinearScan \<Rightarrow> int outcome" where
  "BuildBlockStore compiler blkNode ls =
     (case (gtOp1 blkNode, gtOp2 blkNode) of
        (Some dstAddr, Some src) \<Rightarrow>
          (case BuildBlockStore_kind compiler blkNode dstAddr src ls of
             Fatal e ls1 \<Rightarrow> Fatal e ls1
           | Done (srcAddrOrFill, dstAddrRegMask, srcRegMask) ls1 \<Rightarrow>
               (case BuildBlockStore_addrUses dstAddr dstAddrRegMask ls1 of
                  Fatal e ls2 \<Rightarrow> Fatal e ls2
                | Done dstUses ls2 \<Rightarrow>
                    (case (case srcAddrOrFill of
                             None \<Rightarrow> Done 0 ls2
                           | Some srcAddr \<Rightarrow> BuildBlockStore_addrUses srcAddr srcRegMask ls2) of
                       Fatal e ls3 \<Rightarrow> Fatal e ls3
                     | Done srcUses ls3 \<Rightarrow>
                         let ls4 = buildInternalRegisterUses ls3;
                             killMask = getKillSetForBlockStore compiler blkNode
                         in Done (dstUses + srcUses) (BuildKills blkNode killMask ls4))))
      | _ \<Rightarrow> Fatal NullDereference ls)"

subsection \<open>BuildCast\<close>

definition BuildCast :: "GenTree \<Rightarrow> LinearScan \<Rightarrow> int outcome" where
  "BuildCast cast ls =
     (case gtOp1 cast of
        None \<Rightarrow> Fatal NullDereference ls
      | Some castOp \<Rightarrow>
          let (srcCount, ls1) = BuildOperandUses castOp ls
          in Done srcCount (BuildDef cast RBM_NONE ls1))"

section \<open>The node dispatcher\<close>

text \<open>
  The bodies of the case labels of \<open>LinearScan::BuildNode\<close>, each under the
  name of its (first) label.  A body takes the \<open>dstCount\<close> the dispatcher has
  set before the switch where it asserts it.
\<close>

definition BuildNode_LCL_FLD :: "Compiler \<Rightarrow> GenTree \<Rightarrow> LinearScan \<Rightarrow> int outcome" where
  "BuildNode_LCL_FLD compiler tree ls =
     (let ls1 = (if FEATURE_SIMD compiler \<and> TypeIs tree TYP_SIMD12
                 then buildInternalRegisterUses
                        ((buildInternalIntRegisterDefForNode tree RBM_NONE ls)
                           \<lparr>setInternalRegsDelayFree := True\<rparr>)
                 else ls)
      in Done 0 (BuildDef tree RBM_NONE ls1))"

definition BuildNode_CNS_INT :: "int \<Rightarrow> GenTree \<Rightarrow> LinearScan \<Rightarrow> int outcome" where
  "BuildNode_CNS_INT dstCount tree ls =
     (if dstCount \<noteq> 1 then Fatal AssertionFailed ls
      else Done 0 (setIsConstant (BuildDef tree RBM_NONE ls)))"

definition BuildNode_CNS_DBL :: "int \<Rightarrow> GenTree \<Rightarrow> LinearScan \<Rightarrow> int outcome" where
  "BuildNode_CNS_DBL dstCount tree ls =
     BuildNode_CNS_INT dstCount tree
       (buildInternalRegisterUses (buildInternalIntRegisterDefForNode tree RBM_NONE ls))"

definition BuildNode_RETFILT :: "Compiler \<Rightarrow> int \<Rightarrow> GenTree \<Rightarrow> LinearScan \<Rightarrow> int outcome" where
  "BuildNode_RETFILT compiler dstCount tree ls =
     (if dstCount \<noteq> 0 then Fatal AssertionFailed ls
      else if TypeIs tree TYP_VOID then Done 0 ls
      else if \<not> TypeIs tree TYP_INT then Fatal AssertionFailed ls
      else (case gtOp1 tree of
              None \<Rightarrow> Fatal NullDereference ls
            | Some op1 \<Rightarrow>
                Done 1 (BuildUse op1 (GetIntRegSet (RBM_INTRET (target compiler))) ls)))"

definition BuildNode_KEEPALIVE :: "int \<Rightarrow> GenTree \<Rightarrow> LinearScan \<Rightarrow> int outcome" where
  "BuildNode_KEEPALIVE dstCount tree ls =
     (if dstCount \<noteq> 0 then Fatal AssertionFailed ls
      else (case gtOp1 tree of
              None \<Rightarrow> Fatal NullDereference ls
            | Some op1 \<Rightarrow> returns (BuildOperandUses op1 ls)))"

definition BuildNode_SWITCH_TABLE :: "int \<Rightarrow> GenTree \<Rightarrow> LinearScan \<Rightarrow> int outcome" where
  "BuildNode_SWITCH_TABLE dstCount tree ls =
     (let ls1 = buildInternalIntRegisterDefForNode tree RBM_NONE ls;
          (srcCount, ls2) = BuildBinaryUses tree ls1
      in if dstCount \<noteq> 0 then Fatal AssertionFailed ls2 else Done srcCount ls2)"

text \<open>The body shared by the labels from \<open>GT_AND\<close> and from \<open>GT_MOD\<close> on.\<close>

definition BuildNode_AND :: "int \<Rightarrow> GenTree \<Rightarrow> LinearScan \<Rightarrow> int outcome" where
  "BuildNode_AND dstCount tree ls =
     (let (srcCount, ls1) = BuildBinaryUses tree ls;
          ls2 = buildInternalRegisterUses ls1
      in if dstCount \<noteq> 1 then Fatal AssertionFailed ls2
         else Done srcCount (BuildDef tree RBM_NONE ls2))"

definition BuildNode_ADD :: "int \<Rightarrow> GenTree \<Rightarrow> LinearScan \<Rightarrow> int outcome" where
  "BuildNode_ADD dstCount tree ls =
     (if varTypeIsFloating (TypeGet tree)
      then
        if gtOverflow tree then Fatal AssertionFailed ls
        else (case gtOp1 tree of
                None \<Rightarrow> Fatal NullDereference ls
              | Some op1 \<Rightarrow>
                  (case gtOp2 tree of
                     None \<Rightarrow> Fatal NullDereference ls
                   | Some op2 \<Rightarrow>
                       if TypeGet op1 \<noteq> TypeGet op2 then Fatal AssertionFailed ls
                       else BuildNode_AND dstCount tree ls))
      else if gtOverflow tree
      then BuildNode_AND dstCount tree
             ((buildInternalIntRegisterDefForNode tree RBM_NONE ls)
                \<lparr>setInternalRegsDelayFree := True\<rparr>)
      else BuildNode_AND dstCount tree ls)"

definition BuildNode_MUL :: "int \<Rightarrow> GenTree \<Rightarrow> LinearScan \<Rightarrow> int outcome" where
  "BuildNode_MUL dstCount tree ls =
     (if gtOverflow tree
      then BuildNode_AND dstCount tree
             ((buildInternalIntRegisterDefForNode tree RBM_NONE ls)
                \<lparr>setInternalRegsDelayFree := True\<rparr>)
      else BuildNode_AND dstCount tree ls)"

definition BuildNode_RETURNTRAP ::
  "Compiler \<Rightarrow> int \<Rightarrow> GenTree \<Rightarrow> LinearScan \<Rightarrow> int outcome" where
  "BuildNode_RETURNTRAP compiler dstCount tree ls =
     (case gtOp1 tree of
        None \<Rightarrow> Fatal NullDereference ls
      | Some op1 \<Rightarrow>
          let ls1 = BuildUse op1 RBM_NONE ls
          in if dstCount \<noteq> 0 then Fatal AssertionFailed ls1
             else Done 1 (BuildKills tree (compHelperCallKillSet_STOP_FOR_GC compiler) ls1))"

definition BuildNode_INTRINSIC :: "int \<Rightarrow> GenTree \<Rightarrow> LinearScan \<Rightarrow> int outcome" where
  "BuildNode_INTRINSIC dstCount tree ls =
     (if \<not> (gtIntrinsicName (gt tree) = NI_System_Math_Abs \<or>
             gtIntrinsicName (gt tree) = NI_System_Math_Ceiling \<or>
             gtIntrinsicName (gt tree) = NI_System_Math_Floor \<or>
             gtIntrinsicName (gt tree) = NI_System_Math_Round \<or>
             gtIntrinsicName (gt tree) = NI_System_Math_Sqrt)
      then Fatal NowayAssertFailed ls
      else (case gtOp1 tree of
              None \<Rightarrow> Fatal NullDereference ls
            | Some op1 \<Rightarrow>
                if \<not> varTypeIsFloating (TypeGet op1) then Fatal AssertionFailed ls
                else if TypeGet op1 \<noteq> TypeGet tree then Fatal AssertionFailed ls
                else
                  let ls1 = BuildUse op1 RBM_NONE ls
                  in if dstCount \<noteq> 1 then Fatal AssertionFailed ls1
                     else Done 1 (BuildDef tree RBM_NONE ls1)))"

definition BuildNode_NEG :: "int \<Rightarrow> GenTree \<Rightarrow> LinearScan \<Rightarrow> int outcome" where
  "BuildNode_NEG dstCount tree ls =
     (case gtOp1 tree of
        None \<Rightarrow> Fatal NullDereference ls
      | Some op1 \<Rightarrow>
          let ls1 = BuildUse op1 RBM_NONE ls
          in if dstCount \<noteq> 1 then Fatal AssertionFailed ls1
             else Done 1 (BuildDef tree RBM_NONE ls1))"

definition BuildNode_CKFINITE :: "int \<Rightarrow> GenTree \<Rightarrow> LinearScan \<Rightarrow> int outcome" where
  "BuildNode_CKFINITE dstCount tree ls =
     (if dstCount \<noteq> 1 then Fatal AssertionFailed ls
      else
        let ls1 = buildInternalIntRegisterDefForNode tree RBM_NONE ls
        in (case gtOp1 tree of
              None \<Rightarrow> Fatal NullDereference ls1
            | Some op1 \<Rightarrow>
                let ls2 = BuildUse op1 RBM_NONE ls1;
                    ls3 = BuildDef tree RBM_NONE ls2
                in Done 1 (buildInternalRegisterUses ls3)))"

definition BuildNode_LCLHEAP ::
  "Compiler \<Rightarrow> int \<Rightarrow> GenTree \<Rightarrow> LinearScan \<Rightarrow> int outcome" where
  "BuildNode_LCLHEAP compiler dstCount tree ls =
     (if dstCount \<noteq> 1 then Fatal AssertionFailed ls
      else (case gtOp1 tree of
        None \<Rightarrow> Fatal NullDereference ls
      | Some sizeOp \<Rightarrow>
          let r =
            (if IsCnsIntOrI sizeOp
             then
               if \<not> isContained sizeOp then Fatal AssertionFailed ls
               else
                 let sizeVal0 = gtIconVal (gt sizeOp)
                 in if sizeVal0 \<noteq> 0
                    then
                      let sizeVal = AlignUp sizeVal0 STACK_ALIGN
                      in if unat sizeVal \<le> REGSIZE_BYTES * 2 * 4 then Done 0 ls
                         else if \<not> compInitMem compiler
                         then
                           if sizeVal < eeGetPageSize compiler then Done 0 ls
                           else Done 0
                                  (buildInternalIntRegisterDefForNode tree RBM_NONE
                                     (buildInternalIntRegisterDefForNode tree RBM_NONE ls))
                         else Done 0 ls
                    else Done 0 ls
             else
               if \<not> compInitMem compiler
               then Done 1
                      (buildInternalIntRegisterDefForNode tree RBM_NONE
                         (buildInternalIntRegisterDefForNode tree RBM_NONE ls))
               else Done 1 ls)
          in (case r of
                Fatal e ls1 \<Rightarrow> Fatal e ls1
              | Done srcCount ls1 \<Rightarrow>
                  let ls2 = (if \<not> isContained sizeOp then BuildUse sizeOp RBM_NONE ls1 else ls1);
                      ls3 = buildInternalRegisterUses ls2
                  in Done srcCount (BuildDef tree RBM_NONE ls3))))"

definition BuildNode_BOUNDS_CHECK :: "int \<Rightarrow> GenTree \<Rightarrow> LinearScan \<Rightarrow> int outcome" where
  "BuildNode_BOUNDS_CHECK dstCount tree ls =
     (if dstCount \<noteq> 0 then Fatal AssertionFailed ls
      else (case gtOp1 tree of
              None \<Rightarrow> Fatal NullDereference ls
            | Some index \<Rightarrow>
                let (n1, ls1) = BuildOperandUses index ls
                in (case gtOp2 tree of
                      None \<Rightarrow> Fatal NullDereference ls1
                    | Some arrLen \<Rightarrow>
                        let (n2, ls2) = BuildOperandUses arrLen ls1
                        in Done (n1 + n2) ls2)))"

definition BuildNode_LEA :: "int \<Rightarrow> GenTree \<Rightarrow> LinearScan \<Rightarrow> int outcome" where
  "BuildNode_LEA dstCount tree ls =
     (let base = gtOp1 tree;
          index = gtOp2 tree;
          cns = gtOffset (gt tree);
          (srcCount1, ls1) = (case base of
                                Some b \<Rightarrow> (1, BuildUse b RBM_NONE ls)
                              | None \<Rightarrow> (0, ls));
          (srcCount, ls2) = (case index of
                               Some i \<Rightarrow> (srcCount1 + 1, BuildUse i RBM_NONE ls1)
                             | None \<Rightarrow> (srcCount1, ls1))
      in if dstCount \<noteq> 1 then Fatal AssertionFailed ls2
         else
           let ls3 = (if index \<noteq> None \<and> cns \<noteq> 0
                      then buildInternalIntRegisterDefForNode tree RBM_NONE ls2
                      else if \<not> isValidSimm12 cns
                      then buildInternalIntRegisterDefForNode tree RBM_NONE ls2
                      else ls2);
               ls4 = buildInternalRegisterUses ls3
           in Done srcCount (BuildDef tree RBM_NONE ls4))"

definition BuildNode_STOREIND ::
  "Compiler \<Rightarrow> Builders \<Rightarrow> int \<Rightarrow> GenTree \<Rightarrow> LinearScan \<Rightarrow> int outcome" where
  "BuildNode_STOREIND compiler ext dstCount tree ls =
     (if dstCount \<noteq> 0 then Fatal AssertionFailed ls
      else if gcIsWriteBarrierStoreIndNode compiler tree
      then runBuilder (BuildGCWriteBarrier ext tree) ls
      else (case BuildIndir compiler tree ls of
              Fatal e ls1 \<Rightarrow> Fatal e ls1
            | Done srcCount ls1 \<Rightarrow>
                (case gtOp2 tree of
                   None \<Rightarrow> Fatal NullDereference ls1
                 | Some op2 \<Rightarrow>
                     if \<not> isContained op2
                     then Done (srcCount + 1) (BuildUse op2 RBM_NONE ls1)
                     else Done srcCount ls1)))"

definition BuildNode_IND :: "Compiler \<Rightarrow> int \<Rightarrow> GenTree \<Rightarrow> LinearScan \<Rightarrow> int outcome" where
  "BuildNode_IND compiler dstCount tree ls =
     (if dstCount \<noteq> (if OperIs tree GT_NULLCHECK then 0 else 1) then Fatal AssertionFailed ls
      else BuildIndir compiler tree ls)"

definition BuildNode_INDEX_ADDR :: "int \<Rightarrow> GenTree \<Rightarrow> LinearScan \<Rightarrow> int outcome" where
  "BuildNode_INDEX_ADDR dstCount tree ls =
     (if dstCount \<noteq> 1 then Fatal AssertionFailed ls
      else
        let (srcCount, ls1) = BuildBinaryUses tree ls;
            ls2 = buildInternalIntRegisterDefForNode tree RBM_NONE ls1;
            ls3 = buildInternalRegisterUses ls2
        in Done srcCount (BuildDef tree RBM_NONE ls3))"

text \<open>
  How the switch is left: by a fatal condition, by the \<open>return 0\<close> of the
  \<open>GT_LCL_VAR\<close> label, or by \<open>break\<close> with the source count, the destination
  count and the state.
\<close>

datatype switch_exit =
    SFatal error LinearScan
  | SReturn int LinearScan
  | SBreak int int LinearScan

definition breakWith :: "int \<Rightarrow> int outcome \<Rightarrow> switch_exit" where
  "breakWith dstCount r =
     (case r of
        Fatal e ls \<Rightarrow> SFatal e ls
      | Done srcCount ls \<Rightarrow> SBreak srcCount dstCount ls)"

definition assertDst :: "int \<Rightarrow> int \<Rightarrow> int outcome \<Rightarrow> LinearScan \<Rightarrow> int outcome" where
  "assertDst dstCount expected r ls = (if dstCount \<noteq> expected then Fatal AssertionFailed ls else r)"

definition BuildNode_switch ::
  "Compiler \<Rightarrow> Builders \<Rightarrow> GenTree \<Rightarrow> int \<Rightarrow> LinearScan \<Rightarrow> switch_exit" where
  "BuildNode_switch compiler ext tree dstCount ls =
     (case OperGet tree of
        GT_LCL_VAR \<Rightarrow>
          if checkContainedOrCandidateLclVar compiler tree then SReturn 0 ls
          else breakWith dstCount (BuildNode_LCL_FLD compiler tree ls)
      | GT_LCL_FLD \<Rightarrow> breakWith dstCount (BuildNode_LCL_FLD compiler tree ls)
      | GT_STORE_LCL_VAR \<Rightarrow>
          breakWith
            (if IsMultiRegLclVar tree \<and> isCandidateMultiRegLclVar compiler tree
             then lvFieldCnt compiler tree else dstCount)
            (runBuilder (BuildStoreLoc ext tree) ls)
      | GT_STORE_LCL_FLD \<Rightarrow> breakWith dstCount (runBuilder (BuildStoreLoc ext tree) ls)
      | GT_FIELD_LIST \<Rightarrow> SFatal NowayAssertFailed ls
      | GT_NO_OP \<Rightarrow> breakWith dstCount (assertDst dstCount 0 (Done 0 ls) ls)
      | GT_START_NONGC \<Rightarrow> breakWith dstCount (assertDst dstCount 0 (Done 0 ls) ls)
      | GT_PROF_HOOK \<Rightarrow>
          breakWith dstCount
            (assertDst dstCount 0
               (Done 0 (BuildKills tree (getKillSetForProfilerHook compiler) ls)) ls)
      | GT_START_PREEMPTGC \<Rightarrow>
          breakWith dstCount (assertDst dstCount 0 (Done 0 (BuildKills tree RBM_NONE ls)) ls)
      | GT_CNS_DBL \<Rightarrow> breakWith dstCount (BuildNode_CNS_DBL dstCount tree ls)
      | GT_CNS_INT \<Rightarrow> breakWith dstCount (BuildNode_CNS_INT dstCount tree ls)
      | GT_BOX \<Rightarrow> breakWith dstCount (assertDst dstCount 0 (Fatal Unreached ls) ls)
      | GT_COMMA \<Rightarrow> breakWith dstCount (assertDst dstCount 0 (Fatal Unreached ls) ls)
      | GT_QMARK \<Rightarrow> breakWith dstCount (assertDst dstCount 0 (Fatal Unreached ls) ls)
      | GT_COLON \<Rightarrow> breakWith dstCount (assertDst dstCount 0 (Fatal Unreached ls) ls)
      | GT_RETURN \<Rightarrow>
          breakWith dstCount
            (case runBuilder (BuildReturn ext tree) ls of
               Fatal e ls1 \<Rightarrow> Fatal e ls1
             | Done srcCount ls1 \<Rightarrow>
                 Done srcCount (BuildKills tree (getKillSetForReturn compiler tree) ls1))
      | GT_RETFILT \<Rightarrow> breakWith dstCount (BuildNode_RETFILT compiler dstCount tree ls)
      | GT_NOP \<Rightarrow>
          breakWith dstCount
            (if \<not> TypeIs tree TYP_VOID then Fatal AssertionFailed ls
             else assertDst dstCount 0 (Done 0 ls) ls)
      | GT_KEEPALIVE \<Rightarrow> breakWith dstCount (BuildNode_KEEPALIVE dstCount tree ls)
      | GT_JTRUE \<Rightarrow> breakWith dstCount (assertDst dstCount 0 (Done 0 ls) ls)
      | GT_JMP \<Rightarrow> breakWith dstCount (assertDst dstCount 0 (Done 0 ls) ls)
      | GT_SWITCH \<Rightarrow> SFatal NowayAssertFailed ls
      | GT_JMPTABLE \<Rightarrow>
          breakWith dstCount (assertDst dstCount 1 (Done 0 (BuildDef tree RBM_NONE ls)) ls)
      | GT_SWITCH_TABLE \<Rightarrow> breakWith dstCount (BuildNode_SWITCH_TABLE dstCount tree ls)
      | GT_ADD \<Rightarrow> breakWith dstCount (BuildNode_ADD dstCount tree ls)
      | GT_SUB \<Rightarrow> breakWith dstCount (BuildNode_ADD dstCount tree ls)
      | GT_AND \<Rightarrow> breakWith dstCount (BuildNode_AND dstCount tree ls)
      | GT_AND_NOT \<Rightarrow> breakWith dstCount (BuildNode_AND dstCount tree ls)
      | GT_OR \<Rightarrow> breakWith dstCount (BuildNode_AND dstCount tree ls)
      | GT_XOR \<Rightarrow> breakWith dstCount (BuildNode_AND dstCount tree ls)
      | GT_LSH \<Rightarrow> breakWith dstCount (BuildNode_AND dstCount tree ls)
      | GT_RSH \<Rightarrow> breakWith dstCount (BuildNode_AND dstCount tree ls)
      | GT_RSZ \<Rightarrow> breakWith dstCount (BuildNode_AND dstCount tree ls)
      | GT_ROR \<Rightarrow> breakWith dstCount (BuildNode_AND dstCount tree ls)
      | GT_RETURNTRAP \<Rightarrow> breakWith dstCount (BuildNode_RETURNTRAP compiler dstCount tree ls)
      | GT_MUL \<Rightarrow> breakWith dstCount (BuildNode_MUL dstCount tree ls)
      | GT_MOD \<Rightarrow> breakWith dstCount (BuildNode_AND dstCount tree ls)
      | GT_UMOD \<Rightarrow> breakWith dstCount (BuildNode_AND dstCount tree ls)
      | GT_DIV \<Rightarrow> breakWith dstCount (BuildNode_AND dstCount tree ls)
      | GT_MULHI \<Rightarrow> breakWith dstCount (BuildNode_AND dstCount tree ls)
      | GT_UDIV \<Rightarrow> breakWith dstCount (BuildNode_AND dstCount tree ls)
      | GT_INTRINSIC \<Rightarrow> breakWith dstCount (BuildNode_INTRINSIC dstCount tree ls)
      | GT_HWINTRINSIC \<Rightarrow>
          if FEATURE_HW_INTRINSICS compiler
          then breakWith dstCount (BuildHWIntrinsic tree ls)
          else breakWith dstCount (returns (BuildSimple tree ls))
      | GT_CAST \<Rightarrow> breakWith dstCount (assertDst dstCount 1 (BuildCast tree ls) ls)
      | GT_NEG \<Rightarrow> breakWith dstCount (BuildNode_NEG dstCount tree ls)
      | GT_NOT \<Rightarrow> breakWith dstCount (BuildNode_NEG dstCount tree ls)
      | GT_EQ \<Rightarrow> breakWith dstCount (returns (BuildCmp tree ls))
      | GT_NE \<Rightarrow> breakWith dstCount (returns (BuildCmp tree ls))
      | GT_LT \<Rightarrow> breakWith dstCount (returns (BuildCmp tree ls))
      | GT_LE \<Rightarrow> breakWith dstCount (returns (BuildCmp tree ls))
      | GT_GE \<Rightarrow> breakWith dstCount (returns (BuildCmp tree ls))
      | GT_GT \<Rightarrow> breakWith dstCount (returns (BuildCmp tree ls))
      | GT_JCMP \<Rightarrow> breakWith dstCount (returns (BuildCmp tree ls))
      | GT_CKFINITE \<Rightarrow> breakWith dstCount (BuildNode_CKFINITE dstCount tree ls)
      | GT_CMPXCHG \<Rightarrow> breakWith dstCount (NYI_LOONGARCH64 ls)
      | GT_LOCKADD \<Rightarrow> breakWith dstCount (NYI_LOONGARCH64 ls)
      | GT_XORR \<Rightarrow> breakWith dstCount (NYI_LOONGARCH64 ls)
      | GT_XAND \<Rightarrow> breakWith dstCount (NYI_LOONGARCH64 ls)
      | GT_XADD \<Rightarrow> breakWith dstCount (NYI_LOONGARCH64 ls)
      | GT_XCHG \<Rightarrow> breakWith dstCount (NYI_LOONGARCH64 ls)
      | GT_PUTARG_STK \<Rightarrow> breakWith dstCount (BuildPutArgStk tree ls)
      | GT_PUTARG_REG \<Rightarrow> breakWith dstCount (runBuilder (BuildPutArgReg ext tree) ls)
      | GT_CALL \<Rightarrow>
          breakWith
            (if HasMultiRegRetVal tree then GetReturnRegCount tree else dstCount)
            (BuildCall compiler ext tree ls)
      | GT_BLK \<Rightarrow> SFatal AssertionFailed ls
      | GT_STORE_BLK \<Rightarrow> breakWith dstCount (BuildBlockStore compiler tree ls)
      | GT_INIT_VAL \<Rightarrow> SFatal AssertionFailed ls
      | GT_LCLHEAP \<Rightarrow> breakWith dstCount (BuildNode_LCLHEAP compiler dstCount tree ls)
      | GT_BOUNDS_CHECK \<Rightarrow> breakWith dstCount (BuildNode_BOUNDS_CHECK dstCount tree ls)
      | GT_ARR_ELEM \<Rightarrow> SFatal NowayAssertFailed ls
      | GT_LEA \<Rightarrow> breakWith dstCount (BuildNode_LEA dstCount tree ls)
      | GT_STOREIND \<Rightarrow> breakWith dstCount (BuildNode_STOREIND compiler ext dstCount tree ls)
      | GT_NULLCHECK \<Rightarrow> breakWith dstCount (BuildNode_IND compiler dstCount tree ls)
      | GT_IND \<Rightarrow> breakWith dstCount (BuildNode_IND compiler dstCount tree ls)
      | GT_CATCH_ARG \<Rightarrow>
          breakWith dstCount
            (assertDst dstCount 1
               (Done 0 (BuildDef tree (GetIntRegSet (RBM_EXCEPTION_OBJECT (target compiler))) ls))
               ls)
      | GT_ASYNC_CONTINUATION \<Rightarrow>
          breakWith dstCount
            (Done 0
               (BuildDef tree (GetIntRegSet (RBM_ASYNC_CONTINUATION_RET (target compiler))) ls))
      | GT_INDEX_ADDR \<Rightarrow> breakWith dstCount (BuildNode_INDEX_ADDR dstCount tree ls)
      | _ \<Rightarrow> breakWith dstCount (returns (BuildSimple tree ls)))"

definition BuildNode :: "Compiler \<Rightarrow> Builders \<Rightarrow> GenTree \<Rightarrow> LinearScan \<Rightarrow> int outcome" where
  "BuildNode compiler ext tree ls0 =
     (if isContained tree then Fatal AssertionFailed ls0
      else
        let ls = clearBuildState ls0;
            dstCount0 = (if IsValue tree then 1 else 0);
            isLocalDefUse0 = (IsValue tree \<and> IsUnusedValue tree)
        in (case BuildNode_switch compiler ext tree dstCount0 ls of
              SFatal e ls1 \<Rightarrow> Fatal e ls1
            | SReturn srcCount ls1 \<Rightarrow> Done srcCount ls1
            | SBreak srcCount dstCount ls1 \<Rightarrow>
                let isLocalDefUse = (if IsUnusedValue tree \<and> dstCount \<noteq> 0 then True
                                     else isLocalDefUse0)
                in if \<not> (dstCount < 2 \<or> IsMultiRegNode tree) then Fatal AssertionFailed ls1
                   else if isLocalDefUse \<noteq> (IsValue tree \<and> IsUnusedValue tree)
                   then Fatal AssertionFailed ls1
                   else if \<not> (\<not> IsUnusedValue tree \<or> dstCount \<noteq> 0)
                   then Fatal AssertionFailed ls1
                   else if dstCount \<noteq> GetRegisterDstCount compiler tree
                   then Fatal AssertionFailed ls1
                   else Done srcCount ls1))"

section \<open>Vocabulary of the properties\<close>

text \<open>
  The five kinds of demand record, as predicates.
\<close>

fun isInternalDef :: "RefPosition \<Rightarrow> bool" where
  "isInternalDef (RefInternalDef t c) = True"
| "isInternalDef _ = False"

fun isUse :: "RefPosition \<Rightarrow> bool" where
  "isUse (RefUse t c) = True"
| "isUse _ = False"

fun isInternalUse :: "RefPosition \<Rightarrow> bool" where
  "isInternalUse (RefInternalUse t c b) = True"
| "isInternalUse _ = False"

fun isDef :: "RefPosition \<Rightarrow> bool" where
  "isDef (RefDef t c i k) = True"
| "isDef _ = False"

fun isKill :: "RefPosition \<Rightarrow> bool" where
  "isKill (RefKill t c) = True"
| "isKill _ = False"

text \<open>
  The place of a record's kind in the order of the spec: internal defs, operand
  uses, internal uses, the def of the result, the kill set.
\<close>

fun phase :: "RefPosition \<Rightarrow> nat" where
  "phase (RefInternalDef t c) = 0"
| "phase (RefUse t c) = 1"
| "phase (RefInternalUse t c b) = 2"
| "phase (RefDef t c i k) = 3"
| "phase (RefKill t c) = 4"

text \<open>
  A list of records is in that order when the places never decrease.
\<close>

definition demandOrdered :: "RefPosition list \<Rightarrow> bool" where
  "demandOrdered recs = sorted (map phase recs)"

text \<open>
  The records that a step from \<open>ls\<close> to \<open>ls'\<close> appended.
\<close>

definition appended :: "LinearScan \<Rightarrow> LinearScan \<Rightarrow> RefPosition list" where
  "appended ls ls' = drop (length (refPositions ls)) (refPositions ls')"

text \<open>
  The records that \<open>buildInternalRegisterUses\<close> appends: one use per pending
  internal register, in request order.
\<close>

definition internalUses :: "LinearScan \<Rightarrow> RefPosition list" where
  "internalUses ls =
     map (\<lambda>(tree, cands). RefInternalUse tree cands (setInternalRegsDelayFree ls)) (internalDefs ls)"

text \<open>
  The uses of an operand, of the two operands of a node, and the one use of an
  operand that may be absent.
\<close>

definition operandUseRefs :: "GenTree \<Rightarrow> RefPosition list" where
  "operandUseRefs t = map (\<lambda>t. RefUse t RBM_NONE) (operandUses t)"

definition binaryUseRefs :: "GenTree \<Rightarrow> RefPosition list" where
  "binaryUseRefs t =
     (case gtOp1 t of None \<Rightarrow> [] | Some op1 \<Rightarrow> operandUseRefs op1) @
     (case gtOp2 t of None \<Rightarrow> [] | Some op2 \<Rightarrow> operandUseRefs op2)"

definition optUse :: "GenTree option \<Rightarrow> RefPosition list" where
  "optUse p = (case p of None \<Rightarrow> [] | Some t \<Rightarrow> [RefUse t RBM_NONE])"

text \<open>
  The table of section 4.6 of the spec: the number of scratch registers of a
  stack allocation, from whether the size is a constant, the constant \<open>S\<close>,
  whether memory initialization is requested, and the page size.  A constant
  is compared after it is aligned up to the stack alignment.
\<close>

definition lclHeapScratchTable :: "bool \<Rightarrow> 64 word \<Rightarrow> bool \<Rightarrow> 64 word \<Rightarrow> nat" where
  "lclHeapScratchTable sizeKnown S initRequested pageSize =
     (if sizeKnown
      then (if S = 0 then 0
            else if unat (AlignUp S STACK_ALIGN) \<le> 8 * REGSIZE_BYTES then 0
            else if initRequested then 0
            else if AlignUp S STACK_ALIGN < pageSize then 0
            else 2)
      else (if initRequested then 0 else 2))"

text \<open>
  The table read at the size operand of a stack allocation.
\<close>

definition lclHeapTempRegs :: "Compiler \<Rightarrow> GenTree \<Rightarrow> nat" where
  "lclHeapTempRegs compiler sizeOp =
     lclHeapScratchTable (IsCnsIntOrI sizeOp) (gtIconVal (gt sizeOp))
       (compInitMem compiler) (eeGetPageSize compiler)"

text \<open>
  The number of internal registers for the offset of an address mode, as the
  \<open>GT_LEA\<close> case and \<open>BuildIndir\<close> compute it.
\<close>

definition needsOffsetReg :: "GenTree option \<Rightarrow> 32 word \<Rightarrow> nat" where
  "needsOffsetReg index cns =
     (if index \<noteq> None \<and> cns \<noteq> 0 then 1 else if \<not> isValidSimm12 cns then 1 else 0)"

text \<open>
  The internal registers of an indirection: the one for the offset of a
  contained address mode, and one more for a \<open>TYP_SIMD12\<close> under \<open>FEATURE_SIMD\<close>.
\<close>

definition indirTempRegs :: "Compiler \<Rightarrow> GenTree \<Rightarrow> GenTree \<Rightarrow> nat" where
  "indirTempRegs c tree addr =
     (if isContained addr \<and> OperIs addr GT_LEA
      then needsOffsetReg (gtOp2 addr) (gtOffset (gt addr)) else 0) +
     (if FEATURE_SIMD c \<and> TypeIs tree TYP_SIMD12 then 1 else 0)"

text \<open>
  A step appends records of which \<open>n\<close> are uses; a step appends records in the
  order of the spec.
\<close>

definition countOK :: "LinearScan \<Rightarrow> int \<Rightarrow> LinearScan \<Rightarrow> bool" where
  "countOK ls n ls' =
     (\<exists>new. refPositions ls' = refPositions ls @ new \<and> n = int (length (filter isUse new)))"

definition orderOK :: "LinearScan \<Rightarrow> LinearScan \<Rightarrow> bool" where
  "orderOK ls ls' = (\<exists>new. refPositions ls' = refPositions ls @ new \<and> demandOrdered new)"

text \<open>
  What the properties take from the builders that are not in the file: each
  returns the number of uses it builds, and each keeps the order of the spec.
\<close>

definition buildersCountUses :: "Builders \<Rightarrow> bool" where
  "buildersCountUses ext =
     ((\<forall>t. fst (BuildStoreLoc ext t) = int (length (filter isUse (snd (BuildStoreLoc ext t))))) \<and>
      (\<forall>t. fst (BuildReturn ext t) = int (length (filter isUse (snd (BuildReturn ext t))))) \<and>
      (\<forall>t. fst (BuildPutArgReg ext t) = int (length (filter isUse (snd (BuildPutArgReg ext t))))) \<and>
      (\<forall>t. fst (BuildGCWriteBarrier ext t) =
            int (length (filter isUse (snd (BuildGCWriteBarrier ext t))))) \<and>
      (\<forall>t. fst (BuildCallArgUses ext t) = int (length (snd (BuildCallArgUses ext t)))))"

definition buildersOrdered :: "Builders \<Rightarrow> bool" where
  "buildersOrdered ext =
     ((\<forall>t. demandOrdered (snd (BuildStoreLoc ext t))) \<and>
      (\<forall>t. demandOrdered (snd (BuildReturn ext t))) \<and>
      (\<forall>t. demandOrdered (snd (BuildPutArgReg ext t))) \<and>
      (\<forall>t. demandOrdered (snd (BuildGCWriteBarrier ext t))))"

text \<open>
  The parts of what \<open>BuildCall\<close> appends: the control expression and its
  candidates, the internal register of an indirection cell, and the defs and
  kills of the return value.
\<close>

definition ctrlExprOf :: "GenTree \<Rightarrow> GenTree option" where
  "ctrlExprOf call = (if gtCallType (gt call) = CT_INDIRECT then gtOp2 call else gtOp1 call)"

definition calleeTrashRegs :: "Compiler \<Rightarrow> SingleTypeRegSet" where
  "calleeTrashRegs c = allRegs_TYP_INT c AND GetIntRegSet (RBM_INT_CALLEE_TRASH (target c))"

definition ctrlExprCandidatesOf :: "Compiler \<Rightarrow> GenTree \<Rightarrow> SingleTypeRegSet" where
  "ctrlExprCandidatesOf c call =
     (if IsFastTailCall call
      then (if getNeedsGSSecurityCookie c
            then calleeTrashRegs c AND NOT (gsCookieTmpRegs c)
            else calleeTrashRegs c)
      else RBM_NONE)"

definition callTargetInternal :: "Compiler \<Rightarrow> GenTree \<Rightarrow> (GenTree \<times> SingleTypeRegSet) list" where
  "callTargetInternal c call =
     (if ctrlExprOf call = None \<and> IsR2ROrVirtualStubRelativeIndir call
      then [(call, if IsFastTailCall call then calleeTrashRegs c else RBM_NONE)]
      else [])"

definition callDstCount :: "GenTree \<Rightarrow> int" where
  "callDstCount call =
     (if TypeIs call TYP_VOID then 0
      else if HasMultiRegRetVal call then GetReturnRegCount call else 1)"

definition singleDstCandidatesOf :: "Compiler \<Rightarrow> GenTree \<Rightarrow> SingleTypeRegSet" where
  "singleDstCandidatesOf c call =
     (if varTypeUsesFloatArgReg (TypeGet call) then GetFloatRegSet (RBM_FLOATRET (target c))
      else if TypeGet call = TYP_LONG then GetIntRegSet (RBM_LNGRET (target c))
      else GetIntRegSet (RBM_INTRET (target c)))"

definition callDefsAndKills :: "Compiler \<Rightarrow> GenTree \<Rightarrow> RefPosition list" where
  "callDefsAndKills c call =
     (if callDstCount call > 0
      then (if HasMultiRegRetVal call
            then BuildCallDefs call (nat (GetReturnRegCount call)) @
                 [RefKill call (getKillSetForCall c call AND NOT (GetABIReturnRegs call))]
            else [RefDef call (singleDstCandidatesOf c call) 0 False,
                  RefKill call (getKillSetForCall c call)])
      else [RefKill call (getKillSetForCall c call)])"

text \<open>
  Records built from lists of nodes with their candidates.
\<close>

definition useRefs :: "(GenTree \<times> SingleTypeRegSet) list \<Rightarrow> RefPosition list" where
  "useRefs us = map (\<lambda>(t, cands). RefUse t cands) us"

definition internalDefRefs :: "(GenTree \<times> SingleTypeRegSet) list \<Rightarrow> RefPosition list" where
  "internalDefRefs ds = map (\<lambda>(t, cands). RefInternalDef t cands) ds"

definition internalUseRefs :: "bool \<Rightarrow> (GenTree \<times> SingleTypeRegSet) list \<Rightarrow> RefPosition list" where
  "internalUseRefs delayFree ds = map (\<lambda>(t, cands). RefInternalUse t cands delayFree) ds"

text \<open>
  The internal registers of a block store, by kind of store, and the uses of
  one of its addresses.
\<close>

definition blkInternal ::
  "Compiler \<Rightarrow> GenTree \<Rightarrow> GenTree \<Rightarrow> (GenTree \<times> SingleTypeRegSet) list" where
  "blkInternal c blkNode dstAddr =
     (if OperIsInitBlkOp blkNode
      then (case gtBlkOpKind (gt blkNode) of
              BlkOpKindUnroll \<Rightarrow>
                replicate ((if isContained dstAddr then 1 else 0) +
                           (if OperIs dstAddr GT_LCL_ADDR \<and>
                               unat (gtBlkSize (gt blkNode)) > FP_REGSIZE_BYTES (target c)
                            then 1 else 0)) (blkNode, RBM_NONE)
            | BlkOpKindLoop \<Rightarrow> [(blkNode, availableIntRegs c)]
            | _ \<Rightarrow> [])
      else (case gtBlkOpKind (gt blkNode) of
              BlkOpKindCpObjUnroll \<Rightarrow>
                replicate (if unat (gtBlkSize (gt blkNode)) \<ge> 2 * REGSIZE_BYTES then 2 else 1)
                  (blkNode, allRegs_TYP_INT c AND NOT (writeBarrierByrefRegs c))
            | BlkOpKindUnroll \<Rightarrow> [(blkNode, RBM_NONE)]
            | _ \<Rightarrow> []))"

definition blkAddrUseRefs :: "GenTree \<Rightarrow> SingleTypeRegSet \<Rightarrow> RefPosition list" where
  "blkAddrUseRefs addr regMask =
     (if \<not> isContained addr then [RefUse addr regMask]
      else if OperIsAddrMode addr
      then (case gtOp1 addr of None \<Rightarrow> [] | Some base \<Rightarrow> operandUseRefs base)
      else [])"

text \<open>
  The contract of lowering on a stack allocation: its size operand is
  contained only when it is a constant.
\<close>

definition lclHeapLowered :: "GenTree \<Rightarrow> bool" where
  "lclHeapLowered tree =
     (OperGet tree = GT_LCLHEAP \<longrightarrow>
        (\<forall>s. gtOp1 tree = Some s \<longrightarrow> isContained s \<longrightarrow> IsCnsIntOrI s))"

text \<open>
  The nodes that do not append their records in the order of the spec.
\<close>

definition orderException :: "Compiler \<Rightarrow> GenTree \<Rightarrow> bool" where
  "orderException c tree =
     (OperGet tree = GT_CKFINITE \<or> OperGet tree = GT_LEA \<or> OperGet tree = GT_INDEX_ADDR \<or>
      (OperGet tree = GT_STOREIND \<and> \<not> gcIsWriteBarrierStoreIndNode c tree))"

text \<open>
  The state an outcome ends in.
\<close>

definition stateOf :: "int outcome \<Rightarrow> LinearScan" where
  "stateOf r = (case r of Fatal e ls \<Rightarrow> ls | Done n ls \<Rightarrow> ls)"

text \<open>
  The atomic and interlocked operators.
\<close>

definition isAtomicOper :: "genTreeOps \<Rightarrow> bool" where
  "isAtomicOper oper =
     (oper = GT_CMPXCHG \<or> oper = GT_LOCKADD \<or> oper = GT_XORR \<or> oper = GT_XAND \<or>
      oper = GT_XADD \<or> oper = GT_XCHG)"

text \<open>
  The comparison operators and the compare-and-jump, which the dispatcher
  hands to \<open>BuildCmp\<close>.
\<close>

definition isCompareOper :: "genTreeOps \<Rightarrow> bool" where
  "isCompareOper oper =
     (oper = GT_EQ \<or> oper = GT_NE \<or> oper = GT_LT \<or> oper = GT_LE \<or> oper = GT_GE \<or>
      oper = GT_GT \<or> oper = GT_JCMP)"

text \<open>
  The address mode whose offset a node has to encode: an effective-address
  node itself, and the contained address mode under an indirection built by
  \<open>BuildIndir\<close> (a load, a null check, a store that needs no write barrier).
\<close>

definition addressModeOf :: "Compiler \<Rightarrow> GenTree \<Rightarrow> GenTree option" where
  "addressModeOf compiler tree =
     (if OperIs tree GT_LEA then Some tree
      else if OperIs tree GT_IND \<or> OperIs tree GT_NULLCHECK \<or>
              (OperIs tree GT_STOREIND \<and> \<not> gcIsWriteBarrierStoreIndNode compiler tree)
      then (case gtOp1 tree of
              None \<Rightarrow> None
            | Some addr \<Rightarrow> if isContained addr \<and> OperIs addr GT_LEA then Some addr else None)
      else None)"

text \<open>
  The rule of the spec for the scratch register of an address mode, on the
  number \<open>k\<close> of internal registers requested: with an index and a nonzero
  offset, one; without an index, one when the offset does not fit a signed
  12-bit immediate and none when it does.
\<close>

definition offsetScratchRule :: "GenTree option \<Rightarrow> 32 word \<Rightarrow> nat \<Rightarrow> bool" where
  "offsetScratchRule index cns k =
     ((index \<noteq> None \<and> cns \<noteq> 0 \<longrightarrow> k = 1) \<and>
      (index = None \<and> \<not> isValidSimm12 cns \<longrightarrow> k = 1) \<and>
      (index = None \<and> isValidSimm12 cns \<longrightarrow> k = 0))"

text \<open>
  The scratch registers of a block copy with GC references: two when the size
  is at least two register widths, one otherwise, none of them a write-barrier
  register.
\<close>

definition cpObjScratchCount :: "GenTree \<Rightarrow> nat" where
  "cpObjScratchCount blkNode =
     (if unat (gtBlkSize (gt blkNode)) \<ge> 2 * REGSIZE_BYTES then 2 else 1)"

definition cpObjScratchCandidates :: "Compiler \<Rightarrow> SingleTypeRegSet" where
  "cpObjScratchCandidates compiler =
     allRegs_TYP_INT compiler AND NOT (writeBarrierByrefRegs compiler)"

text \<open>
  The use of the source address of a block copy with GC references, when the
  source is an indirection: pinned to the write-barrier source register.
\<close>

definition cpObjSrcUse :: "Compiler \<Rightarrow> GenTree \<Rightarrow> RefPosition list" where
  "cpObjSrcUse compiler src =
     (if OperIs src GT_IND
      then (case gtOp1 src of
              None \<Rightarrow> []
            | Some srcAddr \<Rightarrow>
                [RefUse srcAddr (GetIntRegSet (RBM_WRITE_BARRIER_SRC_BYREF (target compiler)))])
      else [])"

text \<open>
  The source count of an outcome, when there is one.
\<close>

definition srcCountOf :: "int outcome \<Rightarrow> int option" where
  "srcCountOf r = (case r of Fatal e ls \<Rightarrow> None | Done n ls \<Rightarrow> Some n)"

text \<open>
  The candidate mask of a record.
\<close>

fun candidatesOf :: "RefPosition \<Rightarrow> SingleTypeRegSet" where
  "candidatesOf (RefInternalDef t c) = c"
| "candidatesOf (RefUse t c) = c"
| "candidatesOf (RefInternalUse t c b) = c"
| "candidatesOf (RefDef t c i k) = c"
| "candidatesOf (RefKill t c) = c"

section \<open>Example inputs\<close>

text \<open>
  A target whose callee-trash integer registers are 4 to 20 (\<open>0x1FFFF0\<close>),
  with the cookie temporaries 12 and 13 and the write-barrier registers 17 and
  18; a compiler for it; builders for the parts that are not in the file; and
  a few nodes.
\<close>

definition exampleTarget :: Target where
  "exampleTarget =
     \<lparr>RBM_INT_CALLEE_TRASH = 2097136,
      REG_GSCOOKIE_TMP_0 = 12,
      REG_GSCOOKIE_TMP_1 = 13,
      RBM_WRITE_BARRIER_DST_BYREF = 131072,
      RBM_WRITE_BARRIER_SRC_BYREF = 262144,
      RBM_INTRET = 16,
      RBM_LNGRET = 16,
      RBM_FLOATRET = 4294967296,
      RBM_EXCEPTION_OBJECT = 16,
      RBM_ASYNC_CONTINUATION_RET = 32,
      FP_REGSIZE_BYTES = 8\<rparr>"

definition exampleCompiler :: Compiler where
  "exampleCompiler =
     \<lparr>target = exampleTarget,
      availableIntRegs = 4288675824,
      FEATURE_SIMD = False,
      FEATURE_HW_INTRINSICS = False,
      compInitMem = False,
      eeGetPageSize = 16384,
      getNeedsGSSecurityCookie = False,
      compIsAsync = False,
      checkContainedOrCandidateLclVar = (\<lambda>t. False),
      isCandidateMultiRegLclVar = (\<lambda>t. False),
      lvFieldCnt = (\<lambda>t. 0),
      gcIsWriteBarrierStoreIndNode = (\<lambda>t. False),
      GetRegisterDstCount =
        (\<lambda>t. if OperIs t GT_CALL \<and> HasMultiRegRetVal t then GetReturnRegCount t
             else if IsValue t then 1 else 0),
      getKillSetForProfilerHook = 2097136,
      getKillSetForReturn = (\<lambda>t. 0),
      getKillSetForCall = (\<lambda>t. 2097136),
      getKillSetForBlockStore = (\<lambda>t. 2097136),
      compHelperCallKillSet_STOP_FOR_GC = 2097136\<rparr>"

definition exampleBuilders :: Builders where
  "exampleBuilders =
     \<lparr>BuildStoreLoc = (\<lambda>t. (int (length (optUse (gtOp1 t))), optUse (gtOp1 t))),
      BuildReturn = (\<lambda>t. (int (length (optUse (gtOp1 t))), optUse (gtOp1 t))),
      BuildPutArgReg =
        (\<lambda>t. (int (length (optUse (gtOp1 t))), optUse (gtOp1 t) @ [RefDef t RBM_NONE 0 False])),
      BuildGCWriteBarrier =
        (\<lambda>t. (int (length (optUse (gtOp1 t) @ optUse (gtOp2 t))),
              optUse (gtOp1 t) @ optUse (gtOp2 t) @ [RefKill t 2097136])),
      BuildCallArgUses =
        (\<lambda>t. (int (length (gtUses t)), map (\<lambda>arg. (arg, RBM_NONE)) (gtUses t)))\<rparr>"

definition emptyScan :: LinearScan where
  "emptyScan =
     \<lparr>refPositions = [], internalDefs = [], setInternalRegsDelayFree = False,
      asyncContinuationBusy = [], placedArgRegs = 0, numPlacedArgLocals = 0\<rparr>"

definition noData :: GenTreeData where
  "noData =
     \<lparr>gtOper = GT_NOP, gtType = TYP_VOID, gtIsValue = False, gtIsUnusedValue = False,
      gtIsContained = False, gtOverflowFlag = False, gtIsMultiRegLclVar = False,
      gtIsMultiRegNode = False, gtIconVal = 0, gtOffset = 0, gtLclOffs = 0,
      gtIntrinsicName = NI_Illegal, gtCallType = CT_USER_FUNC, gtIsFastTailCall = False,
      gtIsR2ROrVirtualStubRelativeIndir = False, gtHasMultiRegRetVal = False,
      gtReturnTypeDesc = [], gtIsAsync = False, gtBlkSize = 0,
      gtBlkOpKind = BlkOpKindInvalid, gtOperIsInitBlkOp = False\<rparr>"

definition valueNode :: "genTreeOps \<Rightarrow> var_types \<Rightarrow> GenTree option \<Rightarrow> GenTree option \<Rightarrow> GenTree" where
  "valueNode oper ty op1 op2 =
     GenTree (noData\<lparr>gtOper := oper, gtType := ty, gtIsValue := True\<rparr>) op1 op2 []"

definition lclVarNode :: GenTree where
  "lclVarNode = valueNode GT_LCL_VAR TYP_LONG None None"

definition cnsPageNode :: GenTree where
  "cnsPageNode =
     GenTree (noData\<lparr>gtOper := GT_CNS_INT, gtType := TYP_LONG, gtIsValue := True,
                    gtIsContained := True, gtIconVal := 16384\<rparr>) None None []"

definition lclHeapPage :: GenTree where
  "lclHeapPage = valueNode GT_LCLHEAP TYP_LONG (Some cnsPageNode) None"

definition lclHeapDynamic :: GenTree where
  "lclHeapDynamic = valueNode GT_LCLHEAP TYP_LONG (Some lclVarNode) None"

definition candidateCompiler :: Compiler where
  "candidateCompiler = exampleCompiler\<lparr>checkContainedOrCandidateLclVar := (\<lambda>t. True)\<rparr>"

definition intrinsicsCompiler :: Compiler where
  "intrinsicsCompiler = exampleCompiler\<lparr>FEATURE_HW_INTRINSICS := True\<rparr>"

definition xaddNode :: GenTree where
  "xaddNode = valueNode GT_XADD TYP_INT (Some lclVarNode) (Some lclVarNode)"

definition hwIntrinsicNode :: GenTree where
  "hwIntrinsicNode = valueNode GT_HWINTRINSIC TYP_INT (Some lclVarNode) None"

definition cmpNode :: GenTree where
  "cmpNode = valueNode GT_LT TYP_INT (Some lclVarNode) (Some lclVarNode)"

definition jtrueNode :: GenTree where
  "jtrueNode = GenTree (noData\<lparr>gtOper := GT_JTRUE\<rparr>) (Some cmpNode) None []"

definition jcmpNode :: GenTree where
  "jcmpNode = GenTree (noData\<lparr>gtOper := GT_JCMP\<rparr>) (Some lclVarNode) (Some lclVarNode) []"

definition leaNode :: "bool \<Rightarrow> GenTree option \<Rightarrow> 32 word \<Rightarrow> GenTree" where
  "leaNode addrContained index offs =
     GenTree (noData\<lparr>gtOper := GT_LEA, gtType := TYP_LONG, gtIsValue := True,
                    gtIsContained := addrContained, gtOffset := offs\<rparr>)
       (Some lclVarNode) index []"

definition indNode :: "GenTree \<Rightarrow> GenTree" where
  "indNode addr = valueNode GT_IND TYP_INT (Some addr) None"

definition srcAddrNode :: GenTree where
  "srcAddrNode = valueNode GT_LCL_VAR TYP_BYREF None None"

definition containedInd :: GenTree where
  "containedInd =
     GenTree (noData\<lparr>gtOper := GT_IND, gtType := TYP_STRUCT, gtIsValue := True,
                    gtIsContained := True\<rparr>) (Some srcAddrNode) None []"

definition cpObjNode :: GenTree where
  "cpObjNode =
     GenTree (noData\<lparr>gtOper := GT_STORE_BLK, gtType := TYP_STRUCT, gtBlkSize := 24,
                    gtBlkOpKind := BlkOpKindCpObjUnroll\<rparr>)
       (Some lclVarNode) (Some containedInd) []"

definition ckFiniteNode :: GenTree where
  "ckFiniteNode = valueNode GT_CKFINITE TYP_DOUBLE (Some lclVarNode) None"

definition gsCompiler :: Compiler where
  "gsCompiler = exampleCompiler\<lparr>getNeedsGSSecurityCookie := True\<rparr>"

definition multiRegCall :: GenTree where
  "multiRegCall =
     GenTree (noData\<lparr>gtOper := GT_CALL, gtType := TYP_STRUCT, gtIsValue := True,
                    gtIsMultiRegNode := True, gtHasMultiRegRetVal := True,
                    gtReturnTypeDesc := [4, 5]\<rparr>) None None [lclVarNode]"

definition voidCall :: GenTree where
  "voidCall = GenTree (noData\<lparr>gtOper := GT_CALL, gtType := TYP_VOID\<rparr>) None None [lclVarNode]"

definition r2rTailCall :: GenTree where
  "r2rTailCall =
     GenTree (noData\<lparr>gtOper := GT_CALL, gtType := TYP_VOID, gtIsFastTailCall := True,
                    gtIsR2ROrVirtualStubRelativeIndir := True\<rparr>) None None []"

definition indirectTailCall :: GenTree where
  "indirectTailCall =
     GenTree (noData\<lparr>gtOper := GT_CALL, gtType := TYP_VOID, gtCallType := CT_INDIRECT,
                    gtIsFastTailCall := True\<rparr>) None (Some lclVarNode) []"

section \<open>Lemmas on the primitives\<close>

lemmas prims = newRefPosition_def clearBuildState_def BuildUse_def BuildDef_def BuildKills_def
  buildInternalIntRegisterDefForNode_def buildInternalRegisterUses_def

lemma replicate_2: "replicate 2 x = [x, x]"
  by (simp add: numeral_2_eq_2)

lemma proj_BuildUse [simp]:
  "refPositions (BuildUse t c ls) = refPositions ls @ [RefUse t c]"
  "internalDefs (BuildUse t c ls) = internalDefs ls"
  "setInternalRegsDelayFree (BuildUse t c ls) = setInternalRegsDelayFree ls"
  by (simp_all add: prims)

lemma proj_BuildDef [simp]:
  "refPositions (BuildDef t c ls) = refPositions ls @ [RefDef t c 0 False]"
  "internalDefs (BuildDef t c ls) = internalDefs ls"
  "setInternalRegsDelayFree (BuildDef t c ls) = setInternalRegsDelayFree ls"
  by (simp_all add: prims)

lemma proj_BuildKills [simp]:
  "refPositions (BuildKills t c ls) = refPositions ls @ [RefKill t c]"
  "internalDefs (BuildKills t c ls) = internalDefs ls"
  "setInternalRegsDelayFree (BuildKills t c ls) = setInternalRegsDelayFree ls"
  by (simp_all add: prims)

lemma proj_internalDef [simp]:
  "refPositions (buildInternalIntRegisterDefForNode t c ls) = refPositions ls @ [RefInternalDef t c]"
  "internalDefs (buildInternalIntRegisterDefForNode t c ls) = internalDefs ls @ [(t, c)]"
  "setInternalRegsDelayFree (buildInternalIntRegisterDefForNode t c ls) =
     setInternalRegsDelayFree ls"
  by (simp_all add: prims)

lemma proj_internalUses [simp]:
  "refPositions (buildInternalRegisterUses ls) = refPositions ls @ internalUses ls"
  "internalDefs (buildInternalRegisterUses ls) = []"
  "setInternalRegsDelayFree (buildInternalRegisterUses ls) = setInternalRegsDelayFree ls"
  by (simp_all add: prims internalUses_def)

lemma proj_clearBuildState [simp]:
  "refPositions (clearBuildState ls) = refPositions ls"
  "internalDefs (clearBuildState ls) = []"
  "setInternalRegsDelayFree (clearBuildState ls) = False"
  by (simp_all add: prims)

lemma proj_setIsConstant_BuildDef [simp]:
  "refPositions (setIsConstant (BuildDef t c ls)) = refPositions ls @ [RefDef t c 0 True]"
  by (simp add: setIsConstant_def prims)

lemma proj_MarkAsync [simp]:
  "refPositions (MarkAsyncContinuationBusyForCall t ls) = refPositions ls"
  "internalDefs (MarkAsyncContinuationBusyForCall t ls) = internalDefs ls"
  "setInternalRegsDelayFree (MarkAsyncContinuationBusyForCall t ls) = setInternalRegsDelayFree ls"
  by (simp_all add: MarkAsyncContinuationBusyForCall_def)

lemma proj_BuildDefWithKills [simp]:
  "refPositions (BuildDefWithKills t c k ls) = refPositions ls @ [RefDef t c 0 False, RefKill t k]"
  by (simp add: BuildDefWithKills_def)

lemma proj_BuildCallDefsWithKills [simp]:
  "refPositions (BuildCallDefsWithKills t n c k ls) =
     refPositions ls @ BuildCallDefs t (nat n) @ [RefKill t (k AND NOT c)]"
  by (simp add: BuildCallDefsWithKills_def)

lemma internalUses_eq:
  "internalUses ls =
     map (\<lambda>(tree, cands). RefInternalUse tree cands (setInternalRegsDelayFree ls)) (internalDefs ls)"
  by (simp add: internalUses_def)

lemma internalUses_Nil [simp]: "internalDefs ls = [] \<Longrightarrow> internalUses ls = []"
  by (simp add: internalUses_def)

lemma BuildOperandUses_eq:
  "BuildOperandUses t ls =
     (int (length (operandUseRefs t)), ls\<lparr>refPositions := refPositions ls @ operandUseRefs t\<rparr>)"
  by (simp add: BuildOperandUses_def BuildUses_def operandUseRefs_def)

lemma BuildBinaryUses_eq:
  "BuildBinaryUses t ls =
     (int (length (binaryUseRefs t)), ls\<lparr>refPositions := refPositions ls @ binaryUseRefs t\<rparr>)"
  by (simp add: BuildBinaryUses_def BuildOperandUses_eq binaryUseRefs_def split: option.splits)

lemma BuildIndirUses_eq:
  "gtOp1 t = Some addr \<Longrightarrow> BuildIndirUses t ls =
     (int (length (operandUseRefs addr)),
      ls\<lparr>refPositions := refPositions ls @ operandUseRefs addr\<rparr>)"
  by (simp add: BuildIndirUses_def BuildAddrUses_def BuildOperandUses_eq)

lemma phase_operandUseRefs [simp]:
  "map phase (operandUseRefs t) = replicate (length (operandUseRefs t)) 1"
  by (simp add: operandUseRefs_def map_replicate_const [symmetric] comp_def)

lemma isUse_operandUseRefs [simp]: "filter isUse (operandUseRefs t) = operandUseRefs t"
  by (simp add: operandUseRefs_def filter_map comp_def)

lemma phase_binaryUseRefs [simp]:
  "map phase (binaryUseRefs t) = replicate (length (binaryUseRefs t)) 1"
  by (simp add: binaryUseRefs_def replicate_add split: option.splits)

lemma isUse_binaryUseRefs [simp]: "filter isUse (binaryUseRefs t) = binaryUseRefs t"
  by (simp add: binaryUseRefs_def split: option.splits)

lemma phase_internalUses [simp]:
  "map phase (internalUses ls) = replicate (length (internalDefs ls)) 2"
  by (simp add: internalUses_def map_replicate_const [symmetric] comp_def case_prod_beta)

lemma isUse_internalUses [simp]: "filter isUse (internalUses ls) = []"
  by (simp add: internalUses_def filter_map comp_def case_prod_beta)

lemma phase_le4 [simp]: "phase r \<le> 4"
  by (cases r) simp_all

lemma countOK_I:
  "refPositions ls' = refPositions ls @ new \<Longrightarrow> n = int (length (filter isUse new)) \<Longrightarrow>
     countOK ls n ls'"
  by (auto simp: countOK_def)

lemma orderOK_I:
  "refPositions ls' = refPositions ls @ new \<Longrightarrow> sorted (map phase new) \<Longrightarrow> orderOK ls ls'"
  by (auto simp: orderOK_def demandOrdered_def)

lemma appended_eq: "refPositions ls' = refPositions ls @ new \<Longrightarrow> appended ls ls' = new"
  by (simp add: appended_def)

lemma internalUses_upd [simp]:
  "internalUses (ls\<lparr>refPositions := r\<rparr>) = internalUses ls"
  "internalUses (ls\<lparr>setInternalRegsDelayFree := b\<rparr>) =
     map (\<lambda>(tree, cands). RefInternalUse tree cands b) (internalDefs ls)"
  by (simp_all add: internalUses_def)

lemmas ok_defs = countOK_def orderOK_def demandOrdered_def sorted_append

lemma LCL_FLD_Done:
  "BuildNode_LCL_FLD c tree ls = Done n ls' \<Longrightarrow> internalDefs ls = [] \<Longrightarrow>
     n = 0 \<and> refPositions ls' = refPositions ls @
       (if FEATURE_SIMD c \<and> TypeIs tree TYP_SIMD12
        then [RefInternalDef tree RBM_NONE, RefInternalUse tree RBM_NONE True] else []) @
       [RefDef tree RBM_NONE 0 False]"
  by (clarsimp simp: BuildNode_LCL_FLD_def Let_def)

lemma LCL_FLD_ok:
  "BuildNode_LCL_FLD c tree ls = Done n ls' \<Longrightarrow> internalDefs ls = [] \<Longrightarrow>
     countOK ls n ls' \<and> orderOK ls ls'"
  by (drule (1) LCL_FLD_Done) (auto simp: ok_defs)

lemma CNS_INT_ok:
  "BuildNode_CNS_INT d tree ls = Done n ls' \<Longrightarrow> countOK ls n ls' \<and> orderOK ls ls'"
  by (clarsimp simp: BuildNode_CNS_INT_def ok_defs split: if_splits)

lemma CNS_DBL_ok:
  "BuildNode_CNS_DBL d tree ls = Done n ls' \<Longrightarrow> internalDefs ls = [] \<Longrightarrow>
     countOK ls n ls' \<and> orderOK ls ls'"
  by (clarsimp simp: BuildNode_CNS_DBL_def BuildNode_CNS_INT_def ok_defs internalUses_eq
      split: if_splits)

lemma RETFILT_ok:
  "BuildNode_RETFILT c d tree ls = Done n ls' \<Longrightarrow> countOK ls n ls' \<and> orderOK ls ls'"
  by (clarsimp simp: BuildNode_RETFILT_def ok_defs split: if_splits option.splits)

lemma KEEPALIVE_ok:
  "BuildNode_KEEPALIVE d tree ls = Done n ls' \<Longrightarrow> countOK ls n ls' \<and> orderOK ls ls'"
  by (clarsimp simp: BuildNode_KEEPALIVE_def ok_defs returns_def BuildOperandUses_eq
      split: if_splits option.splits)

lemma SWITCH_TABLE_ok:
  "BuildNode_SWITCH_TABLE d tree ls = Done n ls' \<Longrightarrow> countOK ls n ls' \<and> orderOK ls ls'"
  by (clarsimp simp: BuildNode_SWITCH_TABLE_def ok_defs BuildBinaryUses_eq Let_def
      split: if_splits)

lemma AND_Done:
  "BuildNode_AND d tree ls = Done n ls' \<Longrightarrow>
     refPositions ls' = refPositions ls @ binaryUseRefs tree @ internalUses ls @
       [RefDef tree RBM_NONE 0 False] \<and>
     n = int (length (binaryUseRefs tree)) \<and> d = 1"
  by (clarsimp simp: BuildNode_AND_def BuildBinaryUses_eq Let_def split: if_splits)

lemma AND_ok:
  "BuildNode_AND d tree ls = Done n ls' \<Longrightarrow> internalDefs ls = [] \<Longrightarrow>
     countOK ls n ls' \<and> orderOK ls ls'"
  by (drule AND_Done) (simp add: ok_defs)

lemma AND_overflow_ok:
  "BuildNode_AND d tree
     ((buildInternalIntRegisterDefForNode tree RBM_NONE ls)\<lparr>setInternalRegsDelayFree := True\<rparr>) =
     Done n ls' \<Longrightarrow> internalDefs ls = [] \<Longrightarrow> countOK ls n ls' \<and> orderOK ls ls'"
  by (drule AND_Done) (simp add: ok_defs)

lemma ADD_ok:
  "BuildNode_ADD d tree ls = Done n ls' \<Longrightarrow> internalDefs ls = [] \<Longrightarrow>
     countOK ls n ls' \<and> orderOK ls ls'"
  by (simp add: BuildNode_ADD_def AND_ok AND_overflow_ok split: if_splits option.splits)

lemma MUL_ok:
  "BuildNode_MUL d tree ls = Done n ls' \<Longrightarrow> internalDefs ls = [] \<Longrightarrow>
     countOK ls n ls' \<and> orderOK ls ls'"
  by (simp add: BuildNode_MUL_def AND_ok AND_overflow_ok split: if_splits)

lemma RETURNTRAP_ok:
  "BuildNode_RETURNTRAP c d tree ls = Done n ls' \<Longrightarrow> countOK ls n ls' \<and> orderOK ls ls'"
  by (clarsimp simp: BuildNode_RETURNTRAP_def ok_defs Let_def split: if_splits option.splits)

lemma INTRINSIC_ok:
  "BuildNode_INTRINSIC d tree ls = Done n ls' \<Longrightarrow> countOK ls n ls' \<and> orderOK ls ls'"
  by (clarsimp simp: BuildNode_INTRINSIC_def ok_defs Let_def split: if_splits option.splits)

lemma NEG_ok:
  "BuildNode_NEG d tree ls = Done n ls' \<Longrightarrow> countOK ls n ls' \<and> orderOK ls ls'"
  by (clarsimp simp: BuildNode_NEG_def ok_defs Let_def split: if_splits option.splits)

lemma CKFINITE_Done:
  "BuildNode_CKFINITE d tree ls = Done n ls' \<Longrightarrow> internalDefs ls = [] \<Longrightarrow>
     \<exists>op1. gtOp1 tree = Some op1 \<and> n = 1 \<and>
       refPositions ls' = refPositions ls @
         [RefInternalDef tree RBM_NONE, RefUse op1 RBM_NONE, RefDef tree RBM_NONE 0 False,
          RefInternalUse tree RBM_NONE (setInternalRegsDelayFree ls)]"
  by (clarsimp simp: BuildNode_CKFINITE_def Let_def internalUses_eq split: if_splits option.splits)

lemma CKFINITE_ok:
  "BuildNode_CKFINITE d tree ls = Done n ls' \<Longrightarrow> internalDefs ls = [] \<Longrightarrow> countOK ls n ls'"
  by (drule (1) CKFINITE_Done) (clarsimp simp: ok_defs)

lemma BOUNDS_CHECK_ok:
  "BuildNode_BOUNDS_CHECK d tree ls = Done n ls' \<Longrightarrow> countOK ls n ls' \<and> orderOK ls ls'"
  by (clarsimp simp: BuildNode_BOUNDS_CHECK_def ok_defs BuildOperandUses_eq Let_def
      split: if_splits option.splits)

lemma LCLHEAP_op1:
  "BuildNode_LCLHEAP compiler d tree ls = Done n ls' \<Longrightarrow> \<exists>sizeOp. gtOp1 tree = Some sizeOp"
  by (cases "gtOp1 tree") (simp_all add: BuildNode_LCLHEAP_def split: if_splits)

lemma LCLHEAP_Done:
  assumes "BuildNode_LCLHEAP compiler d tree ls = Done n ls'" "internalDefs ls = []"
    "gtOp1 tree = Some sizeOp"
  shows "(IsCnsIntOrI sizeOp \<longrightarrow> isContained sizeOp) \<and> d = 1 \<and>
     refPositions ls' = refPositions ls @
       replicate (lclHeapTempRegs compiler sizeOp) (RefInternalDef tree RBM_NONE) @
       (if isContained sizeOp then [] else [RefUse sizeOp RBM_NONE]) @
       replicate (lclHeapTempRegs compiler sizeOp)
         (RefInternalUse tree RBM_NONE (setInternalRegsDelayFree ls)) @
       [RefDef tree RBM_NONE 0 False] \<and>
     n = (if IsCnsIntOrI sizeOp then 0 else 1)"
  using assms
  by (cases "gtIconVal (gt sizeOp) = 0")
     (clarsimp simp: BuildNode_LCLHEAP_def lclHeapTempRegs_def lclHeapScratchTable_def Let_def
        REGSIZE_BYTES_def replicate_2 internalUses_eq split: if_splits)+

lemma LCLHEAP_order:
  assumes "BuildNode_LCLHEAP c d tree ls = Done n ls'" "internalDefs ls = []"
  shows "orderOK ls ls'"
proof -
  from LCLHEAP_op1 [OF assms(1)] obtain sizeOp where "gtOp1 tree = Some sizeOp" ..
  from LCLHEAP_Done [OF assms this] show ?thesis
    by (simp add: ok_defs)
qed

lemma LCLHEAP_count:
  assumes "BuildNode_LCLHEAP c d tree ls = Done n ls'" "internalDefs ls = []"
    "\<forall>s. gtOp1 tree = Some s \<longrightarrow> isContained s \<longrightarrow> IsCnsIntOrI s"
  shows "countOK ls n ls'"
proof -
  from LCLHEAP_op1 [OF assms(1)] obtain sizeOp where s: "gtOp1 tree = Some sizeOp" ..
  from LCLHEAP_Done [OF assms(1,2) s] assms(3) s show ?thesis
    by (auto simp: countOK_def)
qed

lemma LEA_Done:
  assumes "BuildNode_LEA d tree ls = Done n ls'" "internalDefs ls = []"
  shows "d = 1 \<and> refPositions ls' = refPositions ls @ optUse (gtOp1 tree) @ optUse (gtOp2 tree) @
       replicate (needsOffsetReg (gtOp2 tree) (gtOffset (gt tree))) (RefInternalDef tree RBM_NONE) @
       replicate (needsOffsetReg (gtOp2 tree) (gtOffset (gt tree)))
         (RefInternalUse tree RBM_NONE (setInternalRegsDelayFree ls)) @
       [RefDef tree RBM_NONE 0 False] \<and>
     n = int (length (optUse (gtOp1 tree) @ optUse (gtOp2 tree)))"
  using assms
  by (cases "gtOp1 tree"; cases "gtOp2 tree")
     (clarsimp simp: BuildNode_LEA_def needsOffsetReg_def optUse_def Let_def internalUses_eq
        split: if_splits)+

lemma isUse_optUse [simp]: "filter isUse (optUse p) = optUse p"
  by (simp add: optUse_def split: option.splits)

lemma LEA_count:
  "BuildNode_LEA d tree ls = Done n ls' \<Longrightarrow> internalDefs ls = [] \<Longrightarrow> countOK ls n ls'"
  by (drule (1) LEA_Done) (simp add: countOK_def)

lemma INDEX_ADDR_Done:
  assumes "BuildNode_INDEX_ADDR d tree ls = Done n ls'" "internalDefs ls = []"
  shows "d = 1 \<and> refPositions ls' = refPositions ls @ binaryUseRefs tree @
       [RefInternalDef tree RBM_NONE, RefInternalUse tree RBM_NONE (setInternalRegsDelayFree ls),
        RefDef tree RBM_NONE 0 False] \<and>
     n = int (length (binaryUseRefs tree))"
  using assms
  by (clarsimp simp: BuildNode_INDEX_ADDR_def BuildBinaryUses_eq Let_def internalUses_eq
      split: if_splits)

lemma INDEX_ADDR_count:
  "BuildNode_INDEX_ADDR d tree ls = Done n ls' \<Longrightarrow> internalDefs ls = [] \<Longrightarrow> countOK ls n ls'"
  by (drule (1) INDEX_ADDR_Done) (simp add: countOK_def)

lemma BuildCast_ok:
  "BuildCast tree ls = Done n ls' \<Longrightarrow> countOK ls n ls' \<and> orderOK ls ls'"
  by (clarsimp simp: BuildCast_def ok_defs BuildOperandUses_eq split: option.splits)

lemma BuildSimple_ok:
  "returns (BuildSimple tree ls) = Done n ls' \<Longrightarrow> countOK ls n ls' \<and> orderOK ls ls'"
  by (clarsimp simp: BuildSimple_def returns_def ok_defs BuildBinaryUses_eq split: if_splits)

lemma BuildCmp_Done:
  "returns (BuildCmp tree ls) = Done n ls' \<Longrightarrow>
     refPositions ls' = refPositions ls @ binaryUseRefs tree \<and> n = int (length (binaryUseRefs tree))"
  by (clarsimp simp: BuildCmp_def returns_def BuildBinaryUses_eq)

lemma BuildCmp_ok:
  "returns (BuildCmp tree ls) = Done n ls' \<Longrightarrow> countOK ls n ls' \<and> orderOK ls ls'"
  by (drule BuildCmp_Done) (simp add: ok_defs)

lemma runBuilder_count:
  "runBuilder r ls = Done n ls' \<Longrightarrow> fst r = int (length (filter isUse (snd r))) \<Longrightarrow>
     countOK ls n ls'"
  by (clarsimp simp: runBuilder_def countOK_def)

lemma runBuilder_order:
  "runBuilder r ls = Done n ls' \<Longrightarrow> demandOrdered (snd r) \<Longrightarrow> orderOK ls ls'"
  by (clarsimp simp: runBuilder_def orderOK_def)

lemma BuildIndir_op1:
  "BuildIndir c tree ls = Done n ls' \<Longrightarrow> \<exists>addr. gtOp1 tree = Some addr"
  by (cases "gtOp1 tree") (simp_all add: BuildIndir_def split: if_splits)

lemma BuildIndir_Done:
  assumes "BuildIndir c tree ls = Done n ls'" "internalDefs ls = []" "gtOp1 tree = Some addr"
  shows "\<not> (FEATURE_SIMD c \<and> TypeIs tree TYP_SIMD12 \<and> isContained addr) \<and>
     refPositions ls' = refPositions ls @
       replicate (indirTempRegs c tree addr) (RefInternalDef tree RBM_NONE) @ operandUseRefs addr @
       replicate (indirTempRegs c tree addr)
         (RefInternalUse tree RBM_NONE (setInternalRegsDelayFree ls)) @
       (if OperIs tree GT_STOREIND \<or> OperIs tree GT_NULLCHECK then []
        else [RefDef tree RBM_NONE 0 False]) \<and>
     n = int (length (operandUseRefs addr))"
proof -
  define ls1 where "ls1 =
     (if isContained addr \<and> OperIs addr GT_LEA
      then (let index = gtOp2 addr; cns = gtOffset (gt addr)
            in if index \<noteq> None \<and> cns \<noteq> 0
               then buildInternalIntRegisterDefForNode tree RBM_NONE ls
               else if \<not> isValidSimm12 cns
               then buildInternalIntRegisterDefForNode tree RBM_NONE ls
               else ls)
      else ls)"
  define ls2 where "ls2 = (if FEATURE_SIMD c \<and> TypeIs tree TYP_SIMD12
                          then buildInternalIntRegisterDefForNode tree RBM_NONE ls1
                          else ls1)"
  define ls4 where "ls4 = buildInternalRegisterUses
       (ls2\<lparr>refPositions := refPositions ls2 @ operandUseRefs addr\<rparr>)"
  define ls5 where "ls5 = (if \<not> (OperIs tree GT_STOREIND \<or> OperIs tree GT_NULLCHECK)
                          then BuildDef tree RBM_NONE ls4 else ls4)"
  have eq: "BuildIndir c tree ls =
     (if TypeIs tree TYP_STRUCT then Fatal AssertionFailed ls
      else if FEATURE_SIMD c \<and> TypeIs tree TYP_SIMD12 \<and> isContained addr
      then Fatal AssertionFailed ls1
      else Done (int (length (operandUseRefs addr))) ls5)"
    unfolding BuildIndir_def ls1_def ls2_def ls4_def ls5_def
    by (simp add: assms(3) Let_def BuildIndirUses_eq)
  from assms(1) have nosimd: "\<not> (FEATURE_SIMD c \<and> TypeIs tree TYP_SIMD12 \<and> isContained addr)"
    and n: "n = int (length (operandUseRefs addr))" and ls': "ls' = ls5"
    unfolding eq by (simp_all split: if_splits)
  define k1 where "k1 = (if isContained addr \<and> OperIs addr GT_LEA
      then needsOffsetReg (gtOp2 addr) (gtOffset (gt addr)) else 0)"
  have p1: "refPositions ls1 = refPositions ls @ replicate k1 (RefInternalDef tree RBM_NONE)"
    "internalDefs ls1 = replicate k1 (tree, RBM_NONE)"
    "setInternalRegsDelayFree ls1 = setInternalRegsDelayFree ls"
    using assms(2) by (simp_all add: ls1_def k1_def needsOffsetReg_def Let_def)
  have p2: "refPositions ls2 = refPositions ls @
              replicate (indirTempRegs c tree addr) (RefInternalDef tree RBM_NONE)"
    "internalDefs ls2 = replicate (indirTempRegs c tree addr) (tree, RBM_NONE)"
    "setInternalRegsDelayFree ls2 = setInternalRegsDelayFree ls"
    by (simp_all add: ls2_def p1 indirTempRegs_def k1_def [symmetric] replicate_add
        replicate_append_same)
  have "refPositions ls5 = refPositions ls @
       replicate (indirTempRegs c tree addr) (RefInternalDef tree RBM_NONE) @ operandUseRefs addr @
       replicate (indirTempRegs c tree addr)
         (RefInternalUse tree RBM_NONE (setInternalRegsDelayFree ls)) @
       (if OperIs tree GT_STOREIND \<or> OperIs tree GT_NULLCHECK then []
        else [RefDef tree RBM_NONE 0 False])"
    by (simp add: ls5_def ls4_def p2 internalUses_eq map_replicate)
  with nosimd n ls' show ?thesis by simp
qed

lemma BuildIndir_ok:
  assumes "BuildIndir c tree ls = Done n ls'" "internalDefs ls = []"
  shows "countOK ls n ls' \<and> orderOK ls ls'"
proof -
  from BuildIndir_op1 [OF assms(1)] obtain addr where "gtOp1 tree = Some addr" ..
  from BuildIndir_Done [OF assms this] show ?thesis
    by (simp add: ok_defs)
qed

lemma IND_ok:
  "BuildNode_IND c d tree ls = Done n ls' \<Longrightarrow> internalDefs ls = [] \<Longrightarrow>
     countOK ls n ls' \<and> orderOK ls ls'"
  by (simp add: BuildNode_IND_def BuildIndir_ok split: if_splits)

lemma STOREIND_Done:
  assumes "BuildNode_STOREIND c ext d tree ls = Done n ls'"
    "\<not> gcIsWriteBarrierStoreIndNode c tree"
  shows "\<exists>m ls1 op2. BuildIndir c tree ls = Done m ls1 \<and> gtOp2 tree = Some op2 \<and> d = 0 \<and>
     n = m + (if isContained op2 then 0 else 1) \<and>
     refPositions ls' = refPositions ls1 @ (if isContained op2 then [] else [RefUse op2 RBM_NONE])"
  using assms
  by (auto simp: BuildNode_STOREIND_def split: if_splits outcome.splits option.splits)

lemma STOREIND_count:
  assumes "BuildNode_STOREIND c ext d tree ls = Done n ls'" "internalDefs ls = []"
    "buildersCountUses ext"
  shows "countOK ls n ls'"
proof (cases "gcIsWriteBarrierStoreIndNode c tree")
  case True
  with assms show ?thesis
    by (simp add: BuildNode_STOREIND_def buildersCountUses_def runBuilder_count split: if_splits)
next
  case False
  from STOREIND_Done [OF assms(1) False] obtain m ls1 op2 where
    ind: "BuildIndir c tree ls = Done m ls1"
    and n: "n = m + (if isContained op2 then 0 else 1)"
    and r: "refPositions ls' = refPositions ls1 @ (if isContained op2 then [] else [RefUse op2 RBM_NONE])"
    by blast
  from BuildIndir_ok [OF ind assms(2)] obtain new where
    new: "refPositions ls1 = refPositions ls @ new" "m = int (length (filter isUse new))"
    by (auto simp: countOK_def)
  show ?thesis
    by (rule countOK_I [where new = "new @ (if isContained op2 then [] else [RefUse op2 RBM_NONE])"])
       (simp_all add: r new n)
qed

lemma STOREIND_wb_order:
  "BuildNode_STOREIND c ext d tree ls = Done n ls' \<Longrightarrow> gcIsWriteBarrierStoreIndNode c tree \<Longrightarrow>
     buildersOrdered ext \<Longrightarrow> orderOK ls ls'"
  by (simp add: BuildNode_STOREIND_def buildersOrdered_def runBuilder_order split: if_splits)

lemma phase_useRefs [simp]: "map phase (useRefs us) = replicate (length us) 1"
  by (simp add: useRefs_def map_replicate_const [symmetric] comp_def case_prod_beta)

lemma isUse_useRefs [simp]: "filter isUse (useRefs us) = useRefs us"
  by (simp add: useRefs_def filter_map comp_def case_prod_beta)

lemma length_useRefs [simp]: "length (useRefs us) = length us"
  by (simp add: useRefs_def)

lemma phase_internalDefRefs [simp]: "map phase (internalDefRefs ds) = replicate (length ds) 0"
  by (simp add: internalDefRefs_def map_replicate_const [symmetric] comp_def case_prod_beta)

lemma isUse_internalDefRefs [simp]: "filter isUse (internalDefRefs ds) = []"
  by (simp add: internalDefRefs_def filter_map comp_def case_prod_beta)

lemma phase_internalUseRefs [simp]: "map phase (internalUseRefs b ds) = replicate (length ds) 2"
  by (simp add: internalUseRefs_def map_replicate_const [symmetric] comp_def case_prod_beta)

lemma isUse_internalUseRefs [simp]: "filter isUse (internalUseRefs b ds) = []"
  by (simp add: internalUseRefs_def filter_map comp_def case_prod_beta)

lemma phase_BuildCallDefs [simp]: "map phase (BuildCallDefs t n) = replicate (length (BuildCallDefs t n)) 3"
  by (simp add: BuildCallDefs_def comp_def map_replicate_const)

lemma isUse_BuildCallDefs [simp]: "filter isUse (BuildCallDefs t n) = []"
  by (simp add: BuildCallDefs_def filter_map comp_def)

lemma runUseBuilder_eq:
  "runUseBuilder r ls = (fst r, ls\<lparr>refPositions := refPositions ls @ useRefs (snd r)\<rparr>)"
  by (simp add: runUseBuilder_def useRefs_def)

lemma BuildCall_target_Done:
  assumes "BuildCall_target c call ls = Done (ce, cands) ls1"
  shows "ce = ctrlExprOf call \<and> (ce \<noteq> None \<longrightarrow> cands = ctrlExprCandidatesOf c call) \<and>
     refPositions ls1 = refPositions ls @ internalDefRefs (callTargetInternal c call) \<and>
     internalDefs ls1 = internalDefs ls @ callTargetInternal c call \<and>
     setInternalRegsDelayFree ls1 = setInternalRegsDelayFree ls"
  using assms
  by (cases "ctrlExprOf call")
     (clarsimp simp: BuildCall_target_def ctrlExprOf_def ctrlExprCandidatesOf_def
        callTargetInternal_def calleeTrashRegs_def internalDefRefs_def Let_def
        split: if_splits)+

lemma BuildCall_Done:
  assumes "BuildCall c ext call ls = Done n ls'" "internalDefs ls = []"
  shows "refPositions ls' = refPositions ls @
       internalDefRefs (callTargetInternal c call) @
       useRefs (snd (BuildCallArgUses ext call)) @
       (case ctrlExprOf call of None \<Rightarrow> []
        | Some ce \<Rightarrow> [RefUse ce (ctrlExprCandidatesOf c call)]) @
       internalUseRefs (setInternalRegsDelayFree ls) (callTargetInternal c call) @
       callDefsAndKills c call \<and>
     n = fst (BuildCallArgUses ext call) + (if ctrlExprOf call = None then 0 else 1)"
proof -
  from assms(1) obtain ce cands ls1 where
    tgt: "BuildCall_target c call ls = Done (ce, cands) ls1"
    by (cases "BuildCall_target c call ls") (auto simp: BuildCall_def Let_def)
  note t = BuildCall_target_Done [OF tgt]
  define ls2 where "ls2 = ls1\<lparr>refPositions := refPositions ls1 @ useRefs (snd (BuildCallArgUses ext call))\<rparr>"
  define ls3 where "ls3 = (case ce of Some e \<Rightarrow> BuildUse e cands ls2 | None \<Rightarrow> ls2)"
  define ls4 where "ls4 = buildInternalRegisterUses ls3"
  define ls5 where "ls5 = (if IsAsync call \<and> compIsAsync c \<and> \<not> IsFastTailCall call
                        then MarkAsyncContinuationBusyForCall call ls4 else ls4)"
  have p3: "refPositions ls3 = refPositions ls1 @ useRefs (snd (BuildCallArgUses ext call)) @
              (case ce of None \<Rightarrow> [] | Some e \<Rightarrow> [RefUse e cands])"
    "internalDefs ls3 = internalDefs ls1" "setInternalRegsDelayFree ls3 = setInternalRegsDelayFree ls1"
    by (simp_all add: ls3_def ls2_def split: option.splits)
  have p5: "refPositions ls5 = refPositions ls3 @ internalUses ls3"
    by (simp add: ls5_def ls4_def)
  have iu: "internalUses ls3 = internalUseRefs (setInternalRegsDelayFree ls) (callTargetInternal c call)"
    using t assms(2) by (simp add: internalUses_eq p3 internalUseRefs_def)
  have cuse: "(case ce of None \<Rightarrow> [] | Some e \<Rightarrow> [RefUse e cands]) =
      (case ctrlExprOf call of None \<Rightarrow> [] | Some e \<Rightarrow> [RefUse e (ctrlExprCandidatesOf c call)])"
    using t by (auto split: option.splits)
  from assms(1) tgt have res: "n = fst (BuildCallArgUses ext call) + (if ce = None then 0 else 1) \<and>
     refPositions ls' = refPositions ls5 @ callDefsAndKills c call"
    by (clarsimp simp: BuildCall_def Let_def runUseBuilder_eq ls2_def [symmetric]
        callDefsAndKills_def callDstCount_def singleDstCandidatesOf_def
        varTypeUsesFloatArgReg_def varTypeIsFloating_def
        split: if_splits option.splits;
        auto simp: ls5_def ls4_def ls3_def ls2_def)
  with t cuse show ?thesis
    by (simp add: p5 p3 iu)
qed

lemma phase_map_RefUse [simp]:
  "map phase (map (\<lambda>t. RefUse t c) xs) = replicate (length xs) 1"
  by (simp add: comp_def map_replicate_const)

lemma isUse_map_RefUse [simp]:
  "filter isUse (map (\<lambda>t. RefUse t c) xs) = map (\<lambda>t. RefUse t c) xs"
  by (simp add: filter_map comp_def)

lemma phase_comp_RefUse [simp]:
  "map (phase \<circ> (\<lambda>t. RefUse t c)) xs = replicate (length xs) 1"
  by (simp add: comp_def map_replicate_const)

lemma BuildPutArgStk_ok:
  "BuildPutArgStk argNode ls = Done n ls' \<Longrightarrow> internalDefs ls = [] \<Longrightarrow>
     countOK ls n ls' \<and> orderOK ls ls'"
  by (clarsimp simp: BuildPutArgStk_def Let_def returns_def BuildUses_def BuildOperandUses_eq
      ok_defs internalUses_eq split: if_splits option.splits outcome.splits)

lemma phase_blkAddrUseRefs [simp]:
  "map phase (blkAddrUseRefs a m) = replicate (length (blkAddrUseRefs a m)) 1"
  by (simp add: blkAddrUseRefs_def split: option.splits)

lemma isUse_blkAddrUseRefs [simp]: "filter isUse (blkAddrUseRefs a m) = blkAddrUseRefs a m"
  by (cases "isContained a"; cases "OperIsAddrMode a"; cases "gtOp1 a";
      simp add: blkAddrUseRefs_def)

lemma BuildBlockStore_kind_Done:
  assumes "BuildBlockStore_kind c blkNode dstAddr src ls = Done (srcAddrOrFill, dmask, smask) ls1"
    "internalDefs ls = []"
  shows "refPositions ls1 = refPositions ls @ internalDefRefs (blkInternal c blkNode dstAddr) \<and>
     internalDefs ls1 = blkInternal c blkNode dstAddr \<and>
     setInternalRegsDelayFree ls1 = setInternalRegsDelayFree ls"
  using assms
  by (cases "gtBlkOpKind (gt blkNode)";
      clarsimp simp: BuildBlockStore_kind_def blkInternal_def internalDefRefs_def Let_def
        replicate_2 split: if_splits option.splits)

lemma BuildBlockStore_kind_CpObj:
  assumes "BuildBlockStore_kind c blkNode dstAddr src ls = Done (srcAddrOrFill, dmask, smask) ls1"
    "gtBlkOpKind (gt blkNode) = BlkOpKindCpObjUnroll"
  shows "\<not> OperIsInitBlkOp blkNode \<and>
     srcAddrOrFill = (if OperIs src GT_IND then gtOp1 src else None) \<and>
     dmask = GetIntRegSet (RBM_WRITE_BARRIER_DST_BYREF (target c)) \<and>
     (\<forall>srcAddr. srcAddrOrFill = Some srcAddr \<longrightarrow> \<not> isContained srcAddr \<and>
          smask = GetIntRegSet (RBM_WRITE_BARRIER_SRC_BYREF (target c)))"
  using assms
  by (auto simp: BuildBlockStore_kind_def Let_def split: if_splits option.splits)

lemma BuildBlockStore_addrUses_Done:
  assumes "BuildBlockStore_addrUses addr regMask ls = Done k ls1"
  shows "refPositions ls1 = refPositions ls @ blkAddrUseRefs addr regMask \<and>
     internalDefs ls1 = internalDefs ls \<and>
     setInternalRegsDelayFree ls1 = setInternalRegsDelayFree ls \<and>
     k = int (length (blkAddrUseRefs addr regMask))"
  using assms
  by (clarsimp simp: BuildBlockStore_addrUses_def blkAddrUseRefs_def returns_def
      BuildAddrUses_def BuildOperandUses_eq split: if_splits option.splits)

lemma BuildBlockStore_Done:
  assumes "BuildBlockStore c blkNode ls = Done n ls'" "internalDefs ls = []"
  shows "\<exists>dstAddr src srcAddrOrFill dmask smask ls1.
     gtOp1 blkNode = Some dstAddr \<and> gtOp2 blkNode = Some src \<and>
     BuildBlockStore_kind c blkNode dstAddr src ls = Done (srcAddrOrFill, dmask, smask) ls1 \<and>
     refPositions ls' = refPositions ls @
       internalDefRefs (blkInternal c blkNode dstAddr) @
       blkAddrUseRefs dstAddr dmask @
       (case srcAddrOrFill of None \<Rightarrow> [] | Some srcAddr \<Rightarrow> blkAddrUseRefs srcAddr smask) @
       internalUseRefs (setInternalRegsDelayFree ls) (blkInternal c blkNode dstAddr) @
       [RefKill blkNode (getKillSetForBlockStore c blkNode)] \<and>
     n = int (length (blkAddrUseRefs dstAddr dmask)) +
         int (length (case srcAddrOrFill of None \<Rightarrow> []
                      | Some srcAddr \<Rightarrow> blkAddrUseRefs srcAddr smask))"
proof -
  from assms(1) obtain dstAddr src where ops: "gtOp1 blkNode = Some dstAddr" "gtOp2 blkNode = Some src"
    by (cases "gtOp1 blkNode"; cases "gtOp2 blkNode") (simp_all add: BuildBlockStore_def)
  from assms(1) ops obtain srcAddrOrFill dmask smask ls1 where
    kind: "BuildBlockStore_kind c blkNode dstAddr src ls = Done (srcAddrOrFill, dmask, smask) ls1"
    by (cases "BuildBlockStore_kind c blkNode dstAddr src ls") (auto simp: BuildBlockStore_def)
  note k = BuildBlockStore_kind_Done [OF kind assms(2)]
  from assms(1) ops kind obtain dstUses ls2 where
    du: "BuildBlockStore_addrUses dstAddr dmask ls1 = Done dstUses ls2"
    by (cases "BuildBlockStore_addrUses dstAddr dmask ls1") (auto simp: BuildBlockStore_def)
  note d = BuildBlockStore_addrUses_Done [OF du]
  define srcStep where "srcStep = (case srcAddrOrFill of None \<Rightarrow> Done 0 ls2
      | Some srcAddr \<Rightarrow> BuildBlockStore_addrUses srcAddr smask ls2)"
  from assms(1) ops kind du obtain srcUses ls3 where
    su: "srcStep = Done srcUses ls3"
    by (cases srcStep) (auto simp: BuildBlockStore_def srcStep_def)
  have s: "refPositions ls3 = refPositions ls2 @
        (case srcAddrOrFill of None \<Rightarrow> [] | Some srcAddr \<Rightarrow> blkAddrUseRefs srcAddr smask) \<and>
     internalDefs ls3 = internalDefs ls2 \<and>
     setInternalRegsDelayFree ls3 = setInternalRegsDelayFree ls2 \<and>
     srcUses = int (length (case srcAddrOrFill of None \<Rightarrow> []
                      | Some srcAddr \<Rightarrow> blkAddrUseRefs srcAddr smask))"
    using su by (cases srcAddrOrFill) (auto simp: srcStep_def dest: BuildBlockStore_addrUses_Done)
  from assms(1) ops kind du su have res: "n = dstUses + srcUses"
    "ls' = BuildKills blkNode (getKillSetForBlockStore c blkNode) (buildInternalRegisterUses ls3)"
    by (simp_all add: BuildBlockStore_def srcStep_def Let_def)
  have "refPositions ls' = refPositions ls @
       internalDefRefs (blkInternal c blkNode dstAddr) @
       blkAddrUseRefs dstAddr dmask @
       (case srcAddrOrFill of None \<Rightarrow> [] | Some srcAddr \<Rightarrow> blkAddrUseRefs srcAddr smask) @
       internalUseRefs (setInternalRegsDelayFree ls) (blkInternal c blkNode dstAddr) @
       [RefKill blkNode (getKillSetForBlockStore c blkNode)]"
    using k d s by (simp add: res internalUses_eq internalUseRefs_def)
  with ops kind res d s show ?thesis by simp
qed

lemma BuildBlockStore_ok:
  assumes "BuildBlockStore c blkNode ls = Done n ls'" "internalDefs ls = []"
  shows "countOK ls n ls' \<and> orderOK ls ls'"
proof -
  from BuildBlockStore_Done [OF assms] obtain dstAddr srcAddrOrFill dmask smask where
    r: "refPositions ls' = refPositions ls @
       internalDefRefs (blkInternal c blkNode dstAddr) @
       blkAddrUseRefs dstAddr dmask @
       (case srcAddrOrFill of None \<Rightarrow> [] | Some srcAddr \<Rightarrow> blkAddrUseRefs srcAddr smask) @
       internalUseRefs (setInternalRegsDelayFree ls) (blkInternal c blkNode dstAddr) @
       [RefKill blkNode (getKillSetForBlockStore c blkNode)]"
    and n: "n = int (length (blkAddrUseRefs dstAddr dmask)) +
         int (length (case srcAddrOrFill of None \<Rightarrow> []
                      | Some srcAddr \<Rightarrow> blkAddrUseRefs srcAddr smask))"
    by blast
  show ?thesis
    unfolding countOK_def orderOK_def demandOrdered_def r
    by (cases srcAddrOrFill) (auto simp: n sorted_append)
qed

lemma breakWith_simps [simp]:
  "breakWith d r = SBreak n d' ls' \<longleftrightarrow> r = Done n ls' \<and> d' = d"
  "breakWith d r \<noteq> SReturn n ls'"
  by (cases r; auto simp: breakWith_def)+

lemma assertDst_Done [simp]:
  "assertDst d k r ls = Done n ls' \<longleftrightarrow> d = k \<and> r = Done n ls'"
  by (auto simp: assertDst_def)

lemma NYI_not_Done [simp]: "NYI_LOONGARCH64 ls \<noteq> Done n ls'"
  by (simp add: NYI_LOONGARCH64_def)

lemma BuildHWIntrinsic_not_Done [simp]: "BuildHWIntrinsic t ls \<noteq> Done n ls'"
  by (simp add: BuildHWIntrinsic_def)

lemma countOK_refl [simp]: "countOK ls 0 ls"
  by (simp add: countOK_def)

lemma orderOK_refl [simp]: "orderOK ls ls"
  by (simp add: ok_defs)

lemma countOK_single [simp]:
  "countOK ls 0 (BuildKills t k ls)" "countOK ls 0 (BuildDef t m ls)"
  by (simp_all add: countOK_def)

lemma orderOK_single [simp]:
  "orderOK ls (BuildKills t k ls)" "orderOK ls (BuildDef t m ls)"
  by (simp_all add: ok_defs)

lemma RETURN_count:
  "(case runBuilder r ls of Fatal e ls1 \<Rightarrow> Fatal e ls1
    | Done srcCount ls1 \<Rightarrow> Done srcCount (BuildKills t k ls1)) = Done n ls' \<Longrightarrow>
   fst r = int (length (filter isUse (snd r))) \<Longrightarrow> countOK ls n ls'"
  by (clarsimp simp: runBuilder_def countOK_def)

lemma RETURN_order:
  "(case runBuilder r ls of Fatal e ls1 \<Rightarrow> Fatal e ls1
    | Done srcCount ls1 \<Rightarrow> Done srcCount (BuildKills t k ls1)) = Done n ls' \<Longrightarrow>
   demandOrdered (snd r) \<Longrightarrow> orderOK ls ls'"
  by (clarsimp simp: runBuilder_def ok_defs)

lemma BuildCall_ok:
  assumes "BuildCall c ext call ls = Done n ls'" "internalDefs ls = []"
  shows "(fst (BuildCallArgUses ext call) = int (length (snd (BuildCallArgUses ext call)))
          \<longrightarrow> countOK ls n ls') \<and> orderOK ls ls'"
proof -
  note r = BuildCall_Done [OF assms]
  have "sorted (map phase (callDefsAndKills c call))"
    by (simp add: callDefsAndKills_def sorted_append)
  moreover have "\<forall>r \<in> set (callDefsAndKills c call). 3 \<le> phase r"
    by (auto simp: callDefsAndKills_def BuildCallDefs_def)
  moreover have "filter isUse (callDefsAndKills c call) = []"
    by (simp add: callDefsAndKills_def)
  ultimately show ?thesis
    unfolding countOK_def orderOK_def demandOrdered_def using r
    by (cases "ctrlExprOf call") (auto simp: sorted_append)
qed

lemmas count_rules =
  LCL_FLD_ok [THEN conjunct1] CNS_INT_ok [THEN conjunct1] CNS_DBL_ok [THEN conjunct1]
  RETFILT_ok [THEN conjunct1] KEEPALIVE_ok [THEN conjunct1] SWITCH_TABLE_ok [THEN conjunct1]
  AND_ok [THEN conjunct1] ADD_ok [THEN conjunct1] MUL_ok [THEN conjunct1]
  RETURNTRAP_ok [THEN conjunct1] INTRINSIC_ok [THEN conjunct1] NEG_ok [THEN conjunct1]
  CKFINITE_ok BOUNDS_CHECK_ok [THEN conjunct1] LEA_count INDEX_ADDR_count
  BuildCast_ok [THEN conjunct1] BuildSimple_ok [THEN conjunct1] BuildCmp_ok [THEN conjunct1]
  IND_ok [THEN conjunct1] STOREIND_count BuildPutArgStk_ok [THEN conjunct1]
  BuildBlockStore_ok [THEN conjunct1] runBuilder_count RETURN_count

lemmas order_rules =
  LCL_FLD_ok [THEN conjunct2] CNS_INT_ok [THEN conjunct2] CNS_DBL_ok [THEN conjunct2]
  RETFILT_ok [THEN conjunct2] KEEPALIVE_ok [THEN conjunct2] SWITCH_TABLE_ok [THEN conjunct2]
  AND_ok [THEN conjunct2] ADD_ok [THEN conjunct2] MUL_ok [THEN conjunct2]
  RETURNTRAP_ok [THEN conjunct2] INTRINSIC_ok [THEN conjunct2] NEG_ok [THEN conjunct2]
  BOUNDS_CHECK_ok [THEN conjunct2] LCLHEAP_order
  BuildCast_ok [THEN conjunct2] BuildSimple_ok [THEN conjunct2] BuildCmp_ok [THEN conjunct2]
  IND_ok [THEN conjunct2] BuildPutArgStk_ok [THEN conjunct2]
  BuildBlockStore_ok [THEN conjunct2] BuildCall_ok [THEN conjunct2] runBuilder_order RETURN_order

lemma buildersCountUsesD:
  assumes "buildersCountUses ext"
  shows "fst (BuildStoreLoc ext t) = int (length (filter isUse (snd (BuildStoreLoc ext t))))"
    and "fst (BuildReturn ext t) = int (length (filter isUse (snd (BuildReturn ext t))))"
    and "fst (BuildPutArgReg ext t) = int (length (filter isUse (snd (BuildPutArgReg ext t))))"
    and "fst (BuildGCWriteBarrier ext t) =
           int (length (filter isUse (snd (BuildGCWriteBarrier ext t))))"
    and "fst (BuildCallArgUses ext t) = int (length (snd (BuildCallArgUses ext t)))"
  using assms by (simp_all add: buildersCountUses_def)

lemma buildersOrderedD:
  assumes "buildersOrdered ext"
  shows "demandOrdered (snd (BuildStoreLoc ext t))"
    and "demandOrdered (snd (BuildReturn ext t))"
    and "demandOrdered (snd (BuildPutArgReg ext t))"
    and "demandOrdered (snd (BuildGCWriteBarrier ext t))"
  using assms by (simp_all add: buildersOrdered_def)

lemma switch_ok:
  assumes "BuildNode_switch c ext tree d ls = SBreak n d' ls'" "internalDefs ls = []"
  shows "(buildersCountUses ext \<longrightarrow> lclHeapLowered tree \<longrightarrow> countOK ls n ls') \<and>
         (buildersOrdered ext \<longrightarrow> \<not> orderException c tree \<longrightarrow> orderOK ls ls')"
  using assms
  by (cases "OperGet tree";
      clarsimp simp: BuildNode_switch_def lclHeapLowered_def orderException_def split: if_splits;
      auto intro: count_rules LCLHEAP_count BuildCall_ok [THEN conjunct1, rule_format]
        order_rules STOREIND_wb_order buildersCountUsesD buildersOrderedD)

lemmas example_defs = exampleTarget_def exampleCompiler_def exampleBuilders_def emptyScan_def
  noData_def valueNode_def lclVarNode_def cnsPageNode_def lclHeapPage_def lclHeapDynamic_def

section \<open>The dispatcher as a whole\<close>

lemma BuildNode_Done:
  assumes "BuildNode c ext tree ls = Done n ls'"
  shows "\<not> isContained tree \<and>
     (BuildNode_switch c ext tree (if IsValue tree then 1 else 0) (clearBuildState ls) = SReturn n ls' \<or>
      (\<exists>d. BuildNode_switch c ext tree (if IsValue tree then 1 else 0) (clearBuildState ls) =
             SBreak n d ls'))"
  using assms
  by (cases "BuildNode_switch c ext tree (if IsValue tree then 1 else 0) (clearBuildState ls)")
     (auto simp: BuildNode_def Let_def split: if_splits)

lemma switch_SReturn:
  "BuildNode_switch c ext tree d ls = SReturn n ls' \<Longrightarrow>
     n = 0 \<and> ls' = ls \<and> OperGet tree = GT_LCL_VAR \<and> checkContainedOrCandidateLclVar c tree"
  by (cases "OperGet tree"; simp add: BuildNode_switch_def split: if_splits)

lemma BuildNode_SBreak:
  assumes "BuildNode c ext tree ls = Done n ls'" "OperGet tree \<noteq> GT_LCL_VAR"
  shows "\<exists>d. BuildNode_switch c ext tree (if IsValue tree then 1 else 0) (clearBuildState ls) =
           SBreak n d ls'"
  using BuildNode_Done [OF assms(1)] assms(2) by (auto dest: switch_SReturn)

lemma BuildNode_ok:
  assumes "BuildNode c ext tree ls = Done n ls'"
  shows "(buildersCountUses ext \<longrightarrow> lclHeapLowered tree \<longrightarrow> countOK ls n ls') \<and>
         (buildersOrdered ext \<longrightarrow> \<not> orderException c tree \<longrightarrow> orderOK ls ls')"
proof -
  from BuildNode_Done [OF assms] consider
    (ret) "BuildNode_switch c ext tree (if IsValue tree then 1 else 0) (clearBuildState ls) =
             SReturn n ls'"
    | (brk) d where "BuildNode_switch c ext tree (if IsValue tree then 1 else 0)
             (clearBuildState ls) = SBreak n d ls'"
    by blast
  then show ?thesis
  proof cases
    case ret
    from switch_SReturn [OF ret] show ?thesis by (simp add: ok_defs)
  next
    case brk
    from switch_ok [OF brk] show ?thesis by (simp add: ok_defs)
  qed
qed

section \<open>The claims\<close>

lemma BuildNode_LCLHEAP_body:
  assumes "BuildNode c ext tree ls = Done n ls'" "OperGet tree = GT_LCLHEAP"
  shows "BuildNode_LCLHEAP c (if IsValue tree then 1 else 0) tree (clearBuildState ls) = Done n ls'"
  using BuildNode_SBreak [OF assms(1)] assms(2) by (auto simp: BuildNode_switch_def)

text \<open>
  C1.  For a stack allocation (\<open>GT_LCLHEAP\<close>) that \<open>BuildNode\<close> builds, the
  number of internal registers requested is the entry of the table of section
  4.6 for the size operand: 0 for a constant 0, 0 for a constant whose aligned
  size is at most 64 bytes, and above that 0 when memory is initialized, 0
  when it is not and the aligned size is below one page, 2 when it is not and
  the aligned size is a page or more; for a size that is not a constant, 2 without
  initialization and 0 with it.  The source count returned is 0 for a constant
  size and 1 otherwise; a constant size (which is contained) builds no use,
  and a size that is not a constant, which lowering leaves uncontained, builds
  exactly one use, of the size operand.
\<close>

theorem lclheap_scratch_registers:
  assumes "OperGet tree = GT_LCLHEAP" and "gtOp1 tree = Some sizeOp"
    and "BuildNode compiler ext tree ls = Done srcCount ls'"
  shows "length (filter isInternalDef (appended ls ls')) =
           lclHeapScratchTable (IsCnsIntOrI sizeOp) (gtIconVal (gt sizeOp))
             (compInitMem compiler) (eeGetPageSize compiler) \<and>
         srcCount = (if IsCnsIntOrI sizeOp then 0 else 1) \<and>
         (IsCnsIntOrI sizeOp \<longrightarrow> filter isUse (appended ls ls') = []) \<and>
         (\<not> IsCnsIntOrI sizeOp \<longrightarrow> \<not> isContained sizeOp \<longrightarrow>
            filter isUse (appended ls ls') = [RefUse sizeOp RBM_NONE])"
proof -
  note body = BuildNode_LCLHEAP_body [OF assms(3,1)]
  from LCLHEAP_Done [OF body _ assms(2)]
  have c: "IsCnsIntOrI sizeOp \<longrightarrow> isContained sizeOp"
    and n: "srcCount = (if IsCnsIntOrI sizeOp then 0 else 1)"
    and r: "refPositions ls' = refPositions ls @
       replicate (lclHeapTempRegs compiler sizeOp) (RefInternalDef tree RBM_NONE) @
       (if isContained sizeOp then [] else [RefUse sizeOp RBM_NONE]) @
       replicate (lclHeapTempRegs compiler sizeOp) (RefInternalUse tree RBM_NONE False) @
       [RefDef tree RBM_NONE 0 False]"
    by simp_all
  show ?thesis
    using c n by (simp add: appended_eq [OF r] lclHeapTempRegs_def)
qed

theorem lclheap_scratch_registers_witness:
  "(\<exists>ls'. BuildNode exampleCompiler exampleBuilders lclHeapPage emptyScan = Done 0 ls' \<and>
      length (filter isInternalDef (appended emptyScan ls')) = 2 \<and>
      filter isUse (appended emptyScan ls') = []) \<and>
   (\<exists>ls'. BuildNode exampleCompiler exampleBuilders lclHeapDynamic emptyScan = Done 1 ls' \<and>
      length (filter isInternalDef (appended emptyScan ls')) = 2 \<and>
      filter isUse (appended emptyScan ls') = [RefUse lclVarNode RBM_NONE])"
proof -
  have "\<exists>n ls'. BuildNode exampleCompiler exampleBuilders lclHeapPage emptyScan = Done n ls'"
    by (simp add: example_defs BuildNode_def BuildNode_switch_def BuildNode_LCLHEAP_def Let_def
        breakWith_def AlignUp_def STACK_ALIGN_def REGSIZE_BYTES_def)
  then obtain n1 l1 where
    d1: "BuildNode exampleCompiler exampleBuilders lclHeapPage emptyScan = Done n1 l1" by blast
  have "\<exists>n ls'. BuildNode exampleCompiler exampleBuilders lclHeapDynamic emptyScan = Done n ls'"
    by (simp add: example_defs BuildNode_def BuildNode_switch_def BuildNode_LCLHEAP_def Let_def
        breakWith_def)
  then obtain n2 l2 where
    d2: "BuildNode exampleCompiler exampleBuilders lclHeapDynamic emptyScan = Done n2 l2" by blast
  have o1: "OperGet lclHeapPage = GT_LCLHEAP" "gtOp1 lclHeapPage = Some cnsPageNode"
    and o2: "OperGet lclHeapDynamic = GT_LCLHEAP" "gtOp1 lclHeapDynamic = Some lclVarNode"
    by (simp_all add: example_defs)
  have t1: "lclHeapScratchTable (IsCnsIntOrI cnsPageNode) (gtIconVal (gt cnsPageNode))
             (compInitMem exampleCompiler) (eeGetPageSize exampleCompiler) = 2"
    by (simp add: example_defs lclHeapScratchTable_def AlignUp_def STACK_ALIGN_def
        REGSIZE_BYTES_def)
  have t2: "lclHeapScratchTable (IsCnsIntOrI lclVarNode) (gtIconVal (gt lclVarNode))
             (compInitMem exampleCompiler) (eeGetPageSize exampleCompiler) = 2"
    by (simp add: example_defs lclHeapScratchTable_def)
  have k: "IsCnsIntOrI cnsPageNode" "\<not> IsCnsIntOrI lclVarNode" "\<not> isContained lclVarNode"
    by (simp_all add: example_defs)
  from lclheap_scratch_registers [OF o1 d1] lclheap_scratch_registers [OF o2 d2]
  show ?thesis
    using d1 d2 t1 t2 k by simp
qed

lemmas example_defs2 = example_defs candidateCompiler_def intrinsicsCompiler_def xaddNode_def
  hwIntrinsicNode_def cmpNode_def jtrueNode_def jcmpNode_def

lemma idef_operandUseRefs [simp]: "filter isInternalDef (operandUseRefs t) = []"
  by (simp add: operandUseRefs_def filter_map comp_def)

lemma isDef_operandUseRefs [simp]: "filter isDef (operandUseRefs t) = []"
  by (simp add: operandUseRefs_def filter_map comp_def)

lemma isDef_binaryUseRefs [simp]: "filter isDef (binaryUseRefs t) = []"
  by (simp add: binaryUseRefs_def split: option.splits)

lemma idef_optUse [simp]: "filter isInternalDef (optUse p) = []"
  by (simp add: optUse_def split: option.splits)

text \<open>
  C10.  A local-variable load (\<open>GT_LCL_VAR\<close>) that is found, after liveness, to
  be a register candidate or contained makes \<open>BuildNode\<close> return the source
  count 0 at once; the list of demand records is left as it was: no use, no
  def, no internal register and no kill is appended.
\<close>

theorem lcl_var_candidate_builds_nothing:
  assumes "OperGet tree = GT_LCL_VAR" and "checkContainedOrCandidateLclVar compiler tree"
    and "\<not> isContained tree"
  shows "BuildNode compiler ext tree ls = Done 0 (clearBuildState ls) \<and>
         refPositions (clearBuildState ls) = refPositions ls \<and>
         appended ls (clearBuildState ls) = []"
  using assms by (simp add: BuildNode_def BuildNode_switch_def appended_def)

theorem lcl_var_candidate_builds_nothing_witness:
  "BuildNode candidateCompiler exampleBuilders lclVarNode emptyScan =
     Done 0 (clearBuildState emptyScan) \<and>
   refPositions (clearBuildState emptyScan) = []"
  using lcl_var_candidate_builds_nothing [of lclVarNode candidateCompiler exampleBuilders emptyScan]
  by (simp add: example_defs2)

text \<open>
  C6.  An atomic or interlocked node (compare-and-swap, interlocked add, and,
  or, xor, exchange) and, where hardware intrinsics are compiled in, a
  hardware-intrinsic node make \<open>BuildNode\<close> stop with the fatal condition
  ``not yet implemented for this target''; the list of demand records is left
  as it was.  \<open>BuildHWIntrinsic\<close> itself always stops with that condition.
\<close>

theorem atomics_and_intrinsics_not_implemented:
  assumes "isAtomicOper (OperGet tree) \<or>
           (OperGet tree = GT_HWINTRINSIC \<and> FEATURE_HW_INTRINSICS compiler)"
    and "\<not> isContained tree"
  shows "BuildNode compiler ext tree ls = Fatal NotYetImplemented (clearBuildState ls) \<and>
         refPositions (clearBuildState ls) = refPositions ls \<and>
         BuildHWIntrinsic tree ls = Fatal NotYetImplemented ls"
  using assms
  by (auto simp: isAtomicOper_def BuildNode_def BuildNode_switch_def NYI_LOONGARCH64_def
      BuildHWIntrinsic_def breakWith_def)

theorem atomics_and_intrinsics_not_implemented_witness:
  "BuildNode exampleCompiler exampleBuilders xaddNode emptyScan =
     Fatal NotYetImplemented (clearBuildState emptyScan) \<and>
   BuildNode intrinsicsCompiler exampleBuilders hwIntrinsicNode emptyScan =
     Fatal NotYetImplemented (clearBuildState emptyScan) \<and>
   refPositions (clearBuildState emptyScan) = []"
  using atomics_and_intrinsics_not_implemented
          [of xaddNode exampleCompiler exampleBuilders emptyScan]
        atomics_and_intrinsics_not_implemented
          [of hwIntrinsicNode intrinsicsCompiler exampleBuilders emptyScan]
  by (simp add: example_defs2 isAtomicOper_def)

text \<open>
  C9, as the code has it.  A comparison (\<open>GT_EQ\<close> to \<open>GT_GT\<close>) and a
  compare-and-jump (\<open>GT_JCMP\<close>) append exactly the uses of their two operands,
  and the source count is their number; no def is appended.  A \<open>GT_JTRUE\<close>
  appends nothing at all and returns the source count 0: it builds no use,
  whatever its operand is.
\<close>

theorem compare_and_jump_records:
  assumes "BuildNode compiler ext tree ls = Done srcCount ls'"
  shows "(isCompareOper (OperGet tree) \<longrightarrow>
            appended ls ls' = binaryUseRefs tree \<and>
            srcCount = int (length (binaryUseRefs tree)) \<and>
            filter isDef (appended ls ls') = []) \<and>
         (OperGet tree = GT_JTRUE \<longrightarrow> appended ls ls' = [] \<and> srcCount = 0)"
proof (intro conjI impI)
  assume c: "isCompareOper (OperGet tree)"
  then have "OperGet tree \<noteq> GT_LCL_VAR" by (auto simp: isCompareOper_def)
  from BuildNode_SBreak [OF assms this] c
  have "returns (BuildCmp tree (clearBuildState ls)) = Done srcCount ls'"
    by (auto simp: isCompareOper_def BuildNode_switch_def)
  from BuildCmp_Done [OF this]
  have r: "refPositions ls' = refPositions ls @ binaryUseRefs tree"
    and n: "srcCount = int (length (binaryUseRefs tree))" by simp_all
  show "appended ls ls' = binaryUseRefs tree" by (rule appended_eq [OF r])
  show "srcCount = int (length (binaryUseRefs tree))" by (rule n)
  show "filter isDef (appended ls ls') = []" by (simp add: appended_eq [OF r])
next
  assume j: "OperGet tree = GT_JTRUE"
  then have "OperGet tree \<noteq> GT_LCL_VAR" by simp
  from BuildNode_SBreak [OF assms this] j
  have "srcCount = 0 \<and> ls' = clearBuildState ls"
    by (auto simp: BuildNode_switch_def assertDst_def split: if_splits)
  then show "appended ls ls' = []" "srcCount = 0" by (simp_all add: appended_def)
qed

theorem compare_and_jump_records_witness:
  "BuildNode exampleCompiler exampleBuilders jcmpNode emptyScan =
     Done 2 (emptyScan\<lparr>refPositions := [RefUse lclVarNode RBM_NONE, RefUse lclVarNode RBM_NONE]\<rparr>) \<and>
   appended emptyScan
     (emptyScan\<lparr>refPositions := [RefUse lclVarNode RBM_NONE, RefUse lclVarNode RBM_NONE]\<rparr>) =
     binaryUseRefs jcmpNode"
proof -
  have d: "BuildNode exampleCompiler exampleBuilders jcmpNode emptyScan =
     Done 2 (emptyScan\<lparr>refPositions := [RefUse lclVarNode RBM_NONE, RefUse lclVarNode RBM_NONE]\<rparr>)"
    by (simp add: example_defs2 BuildNode_def BuildNode_switch_def BuildCmp_def returns_def
        BuildBinaryUses_def BuildOperandUses_def BuildUses_def Let_def breakWith_def prims)
  have o: "isCompareOper (OperGet jcmpNode)"
    by (simp add: example_defs2 isCompareOper_def)
  from compare_and_jump_records [OF d] o d show ?thesis by simp
qed

text \<open>
  The input that separates C9 from the code: a \<open>GT_JTRUE\<close> whose operand is a
  comparison that is not contained.  \<open>BuildNode\<close> returns 0 and appends no
  record, so no use consumes the operand.
\<close>

theorem jtrue_builds_no_use:
  "gtOp1 jtrueNode = Some cmpNode \<and> \<not> isContained cmpNode \<and>
   BuildNode exampleCompiler exampleBuilders jtrueNode emptyScan = Done 0 emptyScan \<and>
   refPositions emptyScan = []"
  by (simp add: example_defs2 BuildNode_def BuildNode_switch_def assertDst_def breakWith_def
      clearBuildState_def)

lemmas example_defs3 = example_defs2 leaNode_def indNode_def

lemma needsOffsetReg_rule: "offsetScratchRule index cns (needsOffsetReg index cns)"
  by (simp add: offsetScratchRule_def needsOffsetReg_def)

lemma LEA_idefs:
  assumes "BuildNode c ext tree ls = Done n ls'" "OperGet tree = GT_LEA"
  shows "length (filter isInternalDef (appended ls ls')) =
           needsOffsetReg (gtOp2 tree) (gtOffset (gt tree))"
proof -
  from BuildNode_SBreak [OF assms(1)] assms(2)
  have "BuildNode_LEA (if IsValue tree then 1 else 0) tree (clearBuildState ls) = Done n ls'"
    by (auto simp: BuildNode_switch_def)
  from LEA_Done [OF this]
  have "refPositions ls' = refPositions ls @ optUse (gtOp1 tree) @ optUse (gtOp2 tree) @
       replicate (needsOffsetReg (gtOp2 tree) (gtOffset (gt tree))) (RefInternalDef tree RBM_NONE) @
       replicate (needsOffsetReg (gtOp2 tree) (gtOffset (gt tree)))
         (RefInternalUse tree RBM_NONE False) @
       [RefDef tree RBM_NONE 0 False]"
    by simp
  from appended_eq [OF this] show ?thesis by simp
qed

lemma BuildIndir_idefs:
  assumes "BuildIndir c tree (clearBuildState ls) = Done m ls1" "gtOp1 tree = Some addr"
    "isContained addr" "OperIs addr GT_LEA"
  shows "\<exists>new. refPositions ls1 = refPositions ls @ new \<and>
           length (filter isInternalDef new) = needsOffsetReg (gtOp2 addr) (gtOffset (gt addr))"
proof -
  from BuildIndir_Done [OF assms(1) _ assms(2)]
  have s: "\<not> (FEATURE_SIMD c \<and> TypeIs tree TYP_SIMD12 \<and> isContained addr)"
    and r: "refPositions ls1 = refPositions ls @
       replicate (indirTempRegs c tree addr) (RefInternalDef tree RBM_NONE) @ operandUseRefs addr @
       replicate (indirTempRegs c tree addr) (RefInternalUse tree RBM_NONE False) @
       (if OperIs tree GT_STOREIND \<or> OperIs tree GT_NULLCHECK then []
        else [RefDef tree RBM_NONE 0 False])"
    by simp_all
  from s assms(3,4)
  have k: "indirTempRegs c tree addr = needsOffsetReg (gtOp2 addr) (gtOffset (gt addr))"
    by (auto simp: indirTempRegs_def)
  show ?thesis
    by (rule exI [where x = "replicate (indirTempRegs c tree addr) (RefInternalDef tree RBM_NONE) @
       operandUseRefs addr @
       replicate (indirTempRegs c tree addr) (RefInternalUse tree RBM_NONE False) @
       (if OperIs tree GT_STOREIND \<or> OperIs tree GT_NULLCHECK then []
        else [RefDef tree RBM_NONE 0 False])"])
       (simp add: r k)
qed

lemma indir_idefs:
  assumes "BuildNode c ext tree ls = Done n ls'"
    "OperIs tree GT_IND \<or> OperIs tree GT_NULLCHECK \<or>
       (OperIs tree GT_STOREIND \<and> \<not> gcIsWriteBarrierStoreIndNode c tree)"
    "gtOp1 tree = Some addr" "isContained addr" "OperIs addr GT_LEA"
  shows "length (filter isInternalDef (appended ls ls')) =
           needsOffsetReg (gtOp2 addr) (gtOffset (gt addr))"
proof -
  from assms(2) have nl: "OperGet tree \<noteq> GT_LCL_VAR" by auto
  from BuildNode_SBreak [OF assms(1) nl] obtain d where
    sw: "BuildNode_switch c ext tree (if IsValue tree then 1 else 0) (clearBuildState ls) =
           SBreak n d ls'" by blast
  from assms(2) consider (ind) "OperIs tree GT_IND \<or> OperIs tree GT_NULLCHECK"
    | (st) "OperIs tree GT_STOREIND" "\<not> gcIsWriteBarrierStoreIndNode c tree" by blast
  then show ?thesis
  proof cases
    case ind
    with sw have "BuildIndir c tree (clearBuildState ls) = Done n ls'"
      by (auto simp: BuildNode_switch_def BuildNode_IND_def split: if_splits)
    from BuildIndir_idefs [OF this assms(3,4,5)] show ?thesis
      by (auto simp: appended_def)
  next
    case st
    with sw have "BuildNode_STOREIND c ext (if IsValue tree then 1 else 0) tree
        (clearBuildState ls) = Done n ls'"
      by (auto simp: BuildNode_switch_def)
    from STOREIND_Done [OF this st(2)] obtain m ls1 op2 where
      i: "BuildIndir c tree (clearBuildState ls) = Done m ls1"
      and r: "refPositions ls' = refPositions ls1 @
                (if isContained op2 then [] else [RefUse op2 RBM_NONE])"
      by blast
    from BuildIndir_idefs [OF i assms(3,4,5)] r show ?thesis
      by (auto simp: appended_def)
  qed
qed

text \<open>
  C3.  For an effective-address node, and for a load, null check or store
  without write barrier whose address is a contained address mode, the number
  of internal registers requested is decided by the index and the offset of
  the address mode alone: one when there is an index and the offset is not 0,
  whatever the size of the offset; without an index, one when the offset does
  not fit a signed 12-bit immediate and none when it does.
\<close>

theorem address_mode_scratch_register:
  assumes "BuildNode compiler ext tree ls = Done srcCount ls'"
    and "addressModeOf compiler tree = Some lea"
  shows "length (filter isInternalDef (appended ls ls')) =
           needsOffsetReg (gtOp2 lea) (gtOffset (gt lea)) \<and>
         offsetScratchRule (gtOp2 lea) (gtOffset (gt lea))
           (length (filter isInternalDef (appended ls ls')))"
proof -
  have "length (filter isInternalDef (appended ls ls')) =
           needsOffsetReg (gtOp2 lea) (gtOffset (gt lea))"
  proof (cases "OperIs tree GT_LEA")
    case True
    with assms(2) have "lea = tree" by (simp add: addressModeOf_def)
    with LEA_idefs [OF assms(1)] True show ?thesis by simp
  next
    case False
    with assms(2) have k: "OperIs tree GT_IND \<or> OperIs tree GT_NULLCHECK \<or>
       (OperIs tree GT_STOREIND \<and> \<not> gcIsWriteBarrierStoreIndNode compiler tree)"
      and a: "gtOp1 tree = Some lea" "isContained lea" "OperIs lea GT_LEA"
      by (auto simp: addressModeOf_def split: if_splits option.splits)
    from indir_idefs [OF assms(1) k a] show ?thesis .
  qed
  then show ?thesis by (simp add: needsOffsetReg_rule)
qed

lemma ev_lea_indexed:
  "\<exists>n ls'. BuildNode exampleCompiler exampleBuilders (leaNode False (Some lclVarNode) 8) emptyScan =
     Done n ls'"
  by (simp add: example_defs3 BuildNode_def BuildNode_switch_def BuildNode_LEA_def Let_def
      breakWith_def isValidSimm12_def)

lemma ev_ind_large:
  "\<exists>n ls'. BuildNode exampleCompiler exampleBuilders (indNode (leaNode True None 4096)) emptyScan =
     Done n ls'"
  by (simp add: example_defs3 BuildNode_def BuildNode_switch_def BuildNode_IND_def BuildIndir_def
      Let_def breakWith_def isValidSimm12_def BuildIndirUses_def BuildAddrUses_def
      BuildOperandUses_def BuildUses_def)

lemma ev_ind_small:
  "\<exists>n ls'. BuildNode exampleCompiler exampleBuilders (indNode (leaNode True None 16)) emptyScan =
     Done n ls'"
  by (simp add: example_defs3 BuildNode_def BuildNode_switch_def BuildNode_IND_def BuildIndir_def
      Let_def breakWith_def isValidSimm12_def BuildIndirUses_def BuildAddrUses_def
      BuildOperandUses_def BuildUses_def)

theorem address_mode_scratch_register_witness:
  "(\<exists>n ls'. BuildNode exampleCompiler exampleBuilders (leaNode False (Some lclVarNode) 8) emptyScan =
       Done n ls' \<and> length (filter isInternalDef (appended emptyScan ls')) = 1) \<and>
   (\<exists>n ls'. BuildNode exampleCompiler exampleBuilders (indNode (leaNode True None 4096)) emptyScan =
       Done n ls' \<and> length (filter isInternalDef (appended emptyScan ls')) = 1) \<and>
   (\<exists>n ls'. BuildNode exampleCompiler exampleBuilders (indNode (leaNode True None 16)) emptyScan =
       Done n ls' \<and> length (filter isInternalDef (appended emptyScan ls')) = 0)"
proof -
  from ev_lea_indexed obtain n1 l1 where d1:
    "BuildNode exampleCompiler exampleBuilders (leaNode False (Some lclVarNode) 8) emptyScan =
       Done n1 l1" by blast
  from ev_ind_large obtain n2 l2 where d2:
    "BuildNode exampleCompiler exampleBuilders (indNode (leaNode True None 4096)) emptyScan =
       Done n2 l2" by blast
  from ev_ind_small obtain n3 l3 where d3:
    "BuildNode exampleCompiler exampleBuilders (indNode (leaNode True None 16)) emptyScan =
       Done n3 l3" by blast
  have a1: "addressModeOf exampleCompiler (leaNode False (Some lclVarNode) 8) =
              Some (leaNode False (Some lclVarNode) 8)"
    and a2: "addressModeOf exampleCompiler (indNode (leaNode True None 4096)) =
              Some (leaNode True None 4096)"
    and a3: "addressModeOf exampleCompiler (indNode (leaNode True None 16)) =
              Some (leaNode True None 16)"
    by (simp_all add: addressModeOf_def example_defs3)
  have k: "needsOffsetReg (gtOp2 (leaNode False (Some lclVarNode) 8))
             (gtOffset (gt (leaNode False (Some lclVarNode) 8))) = 1"
    "needsOffsetReg (gtOp2 (leaNode True None 4096)) (gtOffset (gt (leaNode True None 4096))) = 1"
    "needsOffsetReg (gtOp2 (leaNode True None 16)) (gtOffset (gt (leaNode True None 16))) = 0"
    by (simp_all add: needsOffsetReg_def leaNode_def isValidSimm12_def)
  from address_mode_scratch_register [OF d1 a1] address_mode_scratch_register [OF d2 a2]
    address_mode_scratch_register [OF d3 a3]
  show ?thesis using d1 d2 d3 k by simp
qed

lemmas example_defs4 = example_defs3 srcAddrNode_def containedInd_def cpObjNode_def

lemma scratch_excludes_byref_regs:
  "cpObjScratchCandidates c AND writeBarrierByrefRegs c = 0"
  by (simp add: cpObjScratchCandidates_def and.assoc)

lemma internalDefRefs_replicate:
  "internalDefRefs (replicate k (t, m)) = replicate k (RefInternalDef t m)"
  by (simp add: internalDefRefs_def)

lemma internalUseRefs_replicate:
  "internalUseRefs b (replicate k (t, m)) = replicate k (RefInternalUse t m b)"
  by (simp add: internalUseRefs_def)

lemma blkInternal_CpObj:
  "\<not> OperIsInitBlkOp t \<Longrightarrow> gtBlkOpKind (gt t) = BlkOpKindCpObjUnroll \<Longrightarrow>
     blkInternal c t dstAddr = replicate (cpObjScratchCount t) (t, cpObjScratchCandidates c)"
  by (simp add: blkInternal_def cpObjScratchCount_def cpObjScratchCandidates_def)

text \<open>
  C5.  A block copy with GC references (\<open>BlkOpKindCpObjUnroll\<close>) appends, in
  this order: its scratch registers, two when the block size is at least two
  register widths and one otherwise, with neither write-barrier register among
  their candidates; the uses of the destination address with the write-barrier
  destination register as candidate, which is one use of the address itself
  when it is not contained; when the source is an indirection, one use of its
  address with the write-barrier source register as candidate; the uses of the
  scratch registers; and the kill set of the block store.  The source count is
  the number of these uses.
\<close>

theorem cpobj_block_store_records:
  assumes "BuildNode compiler ext tree ls = Done srcCount ls'"
    and "OperGet tree = GT_STORE_BLK"
    and "gtBlkOpKind (gt tree) = BlkOpKindCpObjUnroll"
  shows "\<exists>dstAddr src.
     gtOp1 tree = Some dstAddr \<and> gtOp2 tree = Some src \<and>
     appended ls ls' =
       replicate (cpObjScratchCount tree) (RefInternalDef tree (cpObjScratchCandidates compiler)) @
       blkAddrUseRefs dstAddr (GetIntRegSet (RBM_WRITE_BARRIER_DST_BYREF (target compiler))) @
       cpObjSrcUse compiler src @
       replicate (cpObjScratchCount tree)
         (RefInternalUse tree (cpObjScratchCandidates compiler) False) @
       [RefKill tree (getKillSetForBlockStore compiler tree)] \<and>
     (\<not> isContained dstAddr \<longrightarrow>
        blkAddrUseRefs dstAddr (GetIntRegSet (RBM_WRITE_BARRIER_DST_BYREF (target compiler))) =
          [RefUse dstAddr (GetIntRegSet (RBM_WRITE_BARRIER_DST_BYREF (target compiler)))]) \<and>
     cpObjScratchCandidates compiler AND writeBarrierByrefRegs compiler = 0 \<and>
     cpObjScratchCount tree =
       (if unat (gtBlkSize (gt tree)) \<ge> 2 * REGSIZE_BYTES then 2 else 1) \<and>
     srcCount =
       int (length (blkAddrUseRefs dstAddr
                      (GetIntRegSet (RBM_WRITE_BARRIER_DST_BYREF (target compiler))) @
                    cpObjSrcUse compiler src))"
proof -
  from BuildNode_SBreak [OF assms(1)] assms(2)
  have b: "BuildBlockStore compiler tree (clearBuildState ls) = Done srcCount ls'"
    by (auto simp: BuildNode_switch_def)
  from BuildBlockStore_Done [OF b] obtain dstAddr src srcAddrOrFill dmask smask ls1 where
    ops: "gtOp1 tree = Some dstAddr" "gtOp2 tree = Some src"
    and kind: "BuildBlockStore_kind compiler tree dstAddr src (clearBuildState ls) =
                 Done (srcAddrOrFill, dmask, smask) ls1"
    and r: "refPositions ls' = refPositions (clearBuildState ls) @
       internalDefRefs (blkInternal compiler tree dstAddr) @
       blkAddrUseRefs dstAddr dmask @
       (case srcAddrOrFill of None \<Rightarrow> [] | Some srcAddr \<Rightarrow> blkAddrUseRefs srcAddr smask) @
       internalUseRefs (setInternalRegsDelayFree (clearBuildState ls))
         (blkInternal compiler tree dstAddr) @
       [RefKill tree (getKillSetForBlockStore compiler tree)]"
    and n: "srcCount = int (length (blkAddrUseRefs dstAddr dmask)) +
         int (length (case srcAddrOrFill of None \<Rightarrow> []
                      | Some srcAddr \<Rightarrow> blkAddrUseRefs srcAddr smask))"
    by auto
  from BuildBlockStore_kind_CpObj [OF kind assms(3)]
  have i: "\<not> OperIsInitBlkOp tree"
    and s: "srcAddrOrFill = (if OperIs src GT_IND then gtOp1 src else None)"
    and d: "dmask = GetIntRegSet (RBM_WRITE_BARRIER_DST_BYREF (target compiler))"
    and a: "\<forall>srcAddr. srcAddrOrFill = Some srcAddr \<longrightarrow> \<not> isContained srcAddr \<and>
          smask = GetIntRegSet (RBM_WRITE_BARRIER_SRC_BYREF (target compiler))"
    by simp_all
  have su: "(case srcAddrOrFill of None \<Rightarrow> [] | Some srcAddr \<Rightarrow> blkAddrUseRefs srcAddr smask) =
              cpObjSrcUse compiler src"
  proof (cases srcAddrOrFill)
    case None
    with s show ?thesis by (simp add: cpObjSrcUse_def split: if_splits)
  next
    case (Some srcAddr)
    with a have "\<not> isContained srcAddr"
      "smask = GetIntRegSet (RBM_WRITE_BARRIER_SRC_BYREF (target compiler))" by simp_all
    with Some s show ?thesis by (simp add: cpObjSrcUse_def blkAddrUseRefs_def split: if_splits)
  qed
  have r': "refPositions ls' = refPositions ls @
       replicate (cpObjScratchCount tree) (RefInternalDef tree (cpObjScratchCandidates compiler)) @
       blkAddrUseRefs dstAddr (GetIntRegSet (RBM_WRITE_BARRIER_DST_BYREF (target compiler))) @
       cpObjSrcUse compiler src @
       replicate (cpObjScratchCount tree)
         (RefInternalUse tree (cpObjScratchCandidates compiler) False) @
       [RefKill tree (getKillSetForBlockStore compiler tree)]"
    using r by (simp add: blkInternal_CpObj [OF i assms(3)] internalDefRefs_replicate
        internalUseRefs_replicate su d)
  have n': "srcCount = int (length (blkAddrUseRefs dstAddr
                      (GetIntRegSet (RBM_WRITE_BARRIER_DST_BYREF (target compiler))) @
                    cpObjSrcUse compiler src))"
    using n by (simp add: su d)
  show ?thesis
    using ops appended_eq [OF r'] n'
    by (simp add: scratch_excludes_byref_regs blkAddrUseRefs_def cpObjScratchCount_def)
qed

lemma ev_cpobj:
  "\<exists>n ls'. BuildNode exampleCompiler exampleBuilders cpObjNode emptyScan = Done n ls'"
  by (simp add: example_defs4 BuildNode_def BuildNode_switch_def BuildBlockStore_def
      BuildBlockStore_kind_def BuildBlockStore_addrUses_def Let_def breakWith_def
      REGSIZE_BYTES_def returns_def)

theorem cpobj_block_store_records_witness:
  "\<exists>ls'. BuildNode exampleCompiler exampleBuilders cpObjNode emptyScan = Done 2 ls' \<and>
     appended emptyScan ls' =
       [RefInternalDef cpObjNode (cpObjScratchCandidates exampleCompiler),
        RefInternalDef cpObjNode (cpObjScratchCandidates exampleCompiler),
        RefUse lclVarNode 131072,
        RefUse srcAddrNode 262144,
        RefInternalUse cpObjNode (cpObjScratchCandidates exampleCompiler) False,
        RefInternalUse cpObjNode (cpObjScratchCandidates exampleCompiler) False,
        RefKill cpObjNode 2097136]"
proof -
  from ev_cpobj obtain n l where
    d: "BuildNode exampleCompiler exampleBuilders cpObjNode emptyScan = Done n l" by blast
  have o: "OperGet cpObjNode = GT_STORE_BLK" "gtBlkOpKind (gt cpObjNode) = BlkOpKindCpObjUnroll"
    by (simp_all add: example_defs4)
  have f: "gtOp1 cpObjNode = Some lclVarNode" "gtOp2 cpObjNode = Some containedInd"
    "cpObjScratchCount cpObjNode = 2"
    "blkAddrUseRefs lclVarNode (GetIntRegSet (RBM_WRITE_BARRIER_DST_BYREF (target exampleCompiler)))
       = [RefUse lclVarNode 131072]"
    "cpObjSrcUse exampleCompiler containedInd = [RefUse srcAddrNode 262144]"
    "getKillSetForBlockStore exampleCompiler cpObjNode = 2097136"
    by (simp_all add: example_defs4 cpObjScratchCount_def REGSIZE_BYTES_def blkAddrUseRefs_def
        cpObjSrcUse_def GetIntRegSet_def)
  from cpobj_block_store_records [OF d o] show ?thesis
    using d f by (auto simp: replicate_2)
qed

lemmas example_defs5 = example_defs4 ckFiniteNode_def

lemma exampleBuilders_count: "buildersCountUses exampleBuilders"
  by (simp add: buildersCountUses_def exampleBuilders_def)

lemma exampleBuilders_ordered: "buildersOrdered exampleBuilders"
  by (simp add: buildersOrdered_def exampleBuilders_def demandOrdered_def optUse_def sorted_append
      split: option.splits)

text \<open>
  C8.  The source count that \<open>BuildNode\<close> returns is the number of use records
  it appended for the node; internal-register records, defs and kills are not
  counted.  The builders that are not part of the file are taken to return the
  number of uses they build, and the size of a stack allocation is taken to be
  contained only when it is a constant, as lowering leaves it.
\<close>

theorem source_count_is_number_of_uses:
  assumes "BuildNode compiler ext tree ls = Done srcCount ls'"
    and "buildersCountUses ext" and "lclHeapLowered tree"
  shows "srcCount = int (length (filter isUse (appended ls ls')))"
proof -
  from BuildNode_ok [OF assms(1)] assms(2,3) have "countOK ls srcCount ls'" by simp
  then obtain new where "refPositions ls' = refPositions ls @ new"
    "srcCount = int (length (filter isUse new))"
    by (auto simp: countOK_def)
  then show ?thesis by (simp add: appended_def)
qed

theorem source_count_is_number_of_uses_witness:
  "(\<exists>ls'. BuildNode exampleCompiler exampleBuilders lclHeapDynamic emptyScan = Done 1 ls' \<and>
      length (filter isUse (appended emptyScan ls')) = 1) \<and>
   (\<exists>ls'. BuildNode exampleCompiler exampleBuilders cpObjNode emptyScan = Done 2 ls' \<and>
      length (filter isUse (appended emptyScan ls')) = 2)"
proof -
  have "\<exists>ls'. BuildNode exampleCompiler exampleBuilders lclHeapDynamic emptyScan = Done 1 ls'"
    by (simp add: example_defs BuildNode_def BuildNode_switch_def BuildNode_LCLHEAP_def Let_def
        breakWith_def)
  then obtain l1 where
    d1: "BuildNode exampleCompiler exampleBuilders lclHeapDynamic emptyScan = Done 1 l1" by blast
  have "\<exists>ls'. BuildNode exampleCompiler exampleBuilders cpObjNode emptyScan = Done 2 ls'"
    by (simp add: example_defs4 BuildNode_def BuildNode_switch_def BuildBlockStore_def
      BuildBlockStore_kind_def BuildBlockStore_addrUses_def Let_def breakWith_def
      REGSIZE_BYTES_def returns_def)
  then obtain l2 where
    d2: "BuildNode exampleCompiler exampleBuilders cpObjNode emptyScan = Done 2 l2" by blast
  have l: "lclHeapLowered lclHeapDynamic" "lclHeapLowered cpObjNode"
    by (simp_all add: lclHeapLowered_def example_defs4)
  from source_count_is_number_of_uses [OF d1 exampleBuilders_count l(1)]
    source_count_is_number_of_uses [OF d2 exampleBuilders_count l(2)]
  show ?thesis using d1 d2 by simp
qed

lemma CKFINITE_records:
  assumes "BuildNode c ext tree ls = Done n ls'" "OperGet tree = GT_CKFINITE"
  shows "\<exists>op1. gtOp1 tree = Some op1 \<and>
     appended ls ls' = [RefInternalDef tree RBM_NONE, RefUse op1 RBM_NONE,
                        RefDef tree RBM_NONE 0 False, RefInternalUse tree RBM_NONE False]"
proof -
  from BuildNode_SBreak [OF assms(1)] assms(2)
  have "BuildNode_CKFINITE (if IsValue tree then 1 else 0) tree (clearBuildState ls) = Done n ls'"
    by (auto simp: BuildNode_switch_def)
  from CKFINITE_Done [OF this] show ?thesis
    by (auto simp: appended_def)
qed

lemma LEA_records:
  assumes "BuildNode c ext tree ls = Done n ls'" "OperGet tree = GT_LEA"
  shows "appended ls ls' = optUse (gtOp1 tree) @ optUse (gtOp2 tree) @
       replicate (needsOffsetReg (gtOp2 tree) (gtOffset (gt tree))) (RefInternalDef tree RBM_NONE) @
       replicate (needsOffsetReg (gtOp2 tree) (gtOffset (gt tree)))
         (RefInternalUse tree RBM_NONE False) @
       [RefDef tree RBM_NONE 0 False]"
proof -
  from BuildNode_SBreak [OF assms(1)] assms(2)
  have "BuildNode_LEA (if IsValue tree then 1 else 0) tree (clearBuildState ls) = Done n ls'"
    by (auto simp: BuildNode_switch_def)
  from LEA_Done [OF this] show ?thesis
    by (simp add: appended_def)
qed

lemma INDEX_ADDR_records:
  assumes "BuildNode c ext tree ls = Done n ls'" "OperGet tree = GT_INDEX_ADDR"
  shows "appended ls ls' = binaryUseRefs tree @
       [RefInternalDef tree RBM_NONE, RefInternalUse tree RBM_NONE False,
        RefDef tree RBM_NONE 0 False]"
proof -
  from BuildNode_SBreak [OF assms(1)] assms(2)
  have "BuildNode_INDEX_ADDR (if IsValue tree then 1 else 0) tree (clearBuildState ls) = Done n ls'"
    by (auto simp: BuildNode_switch_def)
  from INDEX_ADDR_Done [OF this] show ?thesis
    by (simp add: appended_def)
qed

lemma STOREIND_records:
  assumes "BuildNode c ext tree ls = Done n ls'" "OperGet tree = GT_STOREIND"
    "\<not> gcIsWriteBarrierStoreIndNode c tree"
  shows "\<exists>addr val. gtOp1 tree = Some addr \<and> gtOp2 tree = Some val \<and>
     appended ls ls' =
       replicate (indirTempRegs c tree addr) (RefInternalDef tree RBM_NONE) @
       operandUseRefs addr @
       replicate (indirTempRegs c tree addr) (RefInternalUse tree RBM_NONE False) @
       (if isContained val then [] else [RefUse val RBM_NONE])"
proof -
  from BuildNode_SBreak [OF assms(1)] assms(2)
  have "BuildNode_STOREIND c ext (if IsValue tree then 1 else 0) tree (clearBuildState ls) =
          Done n ls'"
    by (auto simp: BuildNode_switch_def)
  from STOREIND_Done [OF this assms(3)] obtain m ls1 op2 where
    i: "BuildIndir c tree (clearBuildState ls) = Done m ls1" and o: "gtOp2 tree = Some op2"
    and r: "refPositions ls' = refPositions ls1 @
              (if isContained op2 then [] else [RefUse op2 RBM_NONE])"
    by blast
  from BuildIndir_op1 [OF i] obtain addr where a: "gtOp1 tree = Some addr" by blast
  from BuildIndir_Done [OF i _ a] assms(2)
  have "refPositions ls1 = refPositions ls @
       replicate (indirTempRegs c tree addr) (RefInternalDef tree RBM_NONE) @ operandUseRefs addr @
       replicate (indirTempRegs c tree addr) (RefInternalUse tree RBM_NONE False)"
    by simp
  with r a o show ?thesis by (simp add: appended_def)
qed

text \<open>
  C7, as the code has it.  With the builders that are not part of the file
  keeping the order, the records that \<open>BuildNode\<close> appends for a node are in
  the order internal defs, operand uses, internal uses, def, kill for every
  node except four kinds, whose sequences are these.  \<open>GT_CKFINITE\<close>: the
  internal def, the use of the operand, the def of the result, and only then
  the internal use, which is never the order of the spec.  \<open>GT_LEA\<close> and \<open>GT_INDEX_ADDR\<close>: the operand uses first,
  then the internal defs, the internal uses and the def.  \<open>GT_STOREIND\<close>
  without write barrier: the internal defs, the uses of the address, the
  internal uses, and last the use of the stored value.
\<close>

theorem demand_record_order:
  assumes "BuildNode compiler ext tree ls = Done srcCount ls'" and "buildersOrdered ext"
  shows "(\<not> orderException compiler tree \<longrightarrow> demandOrdered (appended ls ls')) \<and>
    (OperGet tree = GT_CKFINITE \<longrightarrow>
       (\<exists>op1. gtOp1 tree = Some op1 \<and>
          appended ls ls' = [RefInternalDef tree RBM_NONE, RefUse op1 RBM_NONE,
                             RefDef tree RBM_NONE 0 False, RefInternalUse tree RBM_NONE False]) \<and>
       \<not> demandOrdered (appended ls ls')) \<and>
    (OperGet tree = GT_LEA \<longrightarrow>
       appended ls ls' = optUse (gtOp1 tree) @ optUse (gtOp2 tree) @
         replicate (needsOffsetReg (gtOp2 tree) (gtOffset (gt tree)))
           (RefInternalDef tree RBM_NONE) @
         replicate (needsOffsetReg (gtOp2 tree) (gtOffset (gt tree)))
           (RefInternalUse tree RBM_NONE False) @
         [RefDef tree RBM_NONE 0 False]) \<and>
    (OperGet tree = GT_INDEX_ADDR \<longrightarrow>
       appended ls ls' = binaryUseRefs tree @
         [RefInternalDef tree RBM_NONE, RefInternalUse tree RBM_NONE False,
          RefDef tree RBM_NONE 0 False]) \<and>
    (OperGet tree = GT_STOREIND \<and> \<not> gcIsWriteBarrierStoreIndNode compiler tree \<longrightarrow>
       (\<exists>addr val. gtOp1 tree = Some addr \<and> gtOp2 tree = Some val \<and>
          appended ls ls' =
            replicate (indirTempRegs compiler tree addr) (RefInternalDef tree RBM_NONE) @
            operandUseRefs addr @
            replicate (indirTempRegs compiler tree addr) (RefInternalUse tree RBM_NONE False) @
            (if isContained val then [] else [RefUse val RBM_NONE])))"
proof (intro conjI impI)
  assume "\<not> orderException compiler tree"
  with BuildNode_ok [OF assms(1)] assms(2) have "orderOK ls ls'" by simp
  then show "demandOrdered (appended ls ls')" by (auto simp: orderOK_def appended_def)
next
  assume "OperGet tree = GT_CKFINITE"
  then have k: "\<exists>op1. gtOp1 tree = Some op1 \<and>
          appended ls ls' = [RefInternalDef tree RBM_NONE, RefUse op1 RBM_NONE,
                             RefDef tree RBM_NONE 0 False, RefInternalUse tree RBM_NONE False]"
    by (rule CKFINITE_records [OF assms(1)])
  then show "\<exists>op1. gtOp1 tree = Some op1 \<and>
          appended ls ls' = [RefInternalDef tree RBM_NONE, RefUse op1 RBM_NONE,
                             RefDef tree RBM_NONE 0 False, RefInternalUse tree RBM_NONE False]" .
  from k show "\<not> demandOrdered (appended ls ls')"
    by (auto simp: demandOrdered_def)
next
  assume "OperGet tree = GT_LEA"
  then show "appended ls ls' = optUse (gtOp1 tree) @ optUse (gtOp2 tree) @
         replicate (needsOffsetReg (gtOp2 tree) (gtOffset (gt tree)))
           (RefInternalDef tree RBM_NONE) @
         replicate (needsOffsetReg (gtOp2 tree) (gtOffset (gt tree)))
           (RefInternalUse tree RBM_NONE False) @
         [RefDef tree RBM_NONE 0 False]"
    by (rule LEA_records [OF assms(1)])
next
  assume "OperGet tree = GT_INDEX_ADDR"
  then show "appended ls ls' = binaryUseRefs tree @
         [RefInternalDef tree RBM_NONE, RefInternalUse tree RBM_NONE False,
          RefDef tree RBM_NONE 0 False]"
    by (rule INDEX_ADDR_records [OF assms(1)])
next
  assume "OperGet tree = GT_STOREIND \<and> \<not> gcIsWriteBarrierStoreIndNode compiler tree"
  then show "\<exists>addr val. gtOp1 tree = Some addr \<and> gtOp2 tree = Some val \<and>
          appended ls ls' =
            replicate (indirTempRegs compiler tree addr) (RefInternalDef tree RBM_NONE) @
            operandUseRefs addr @
            replicate (indirTempRegs compiler tree addr) (RefInternalUse tree RBM_NONE False) @
            (if isContained val then [] else [RefUse val RBM_NONE])"
    using STOREIND_records [OF assms(1)] by blast
qed

lemma ev_ckfinite:
  "BuildNode exampleCompiler exampleBuilders ckFiniteNode emptyScan =
     Done 1 (emptyScan\<lparr>refPositions :=
       [RefInternalDef ckFiniteNode RBM_NONE, RefUse lclVarNode RBM_NONE,
        RefDef ckFiniteNode RBM_NONE 0 False, RefInternalUse ckFiniteNode RBM_NONE False]\<rparr>)"
  by (simp add: example_defs5 BuildNode_def BuildNode_switch_def BuildNode_CKFINITE_def Let_def
      breakWith_def prims internalUses_def)

theorem demand_record_order_witness:
  "(\<exists>ls'. BuildNode exampleCompiler exampleBuilders lclHeapDynamic emptyScan = Done 1 ls' \<and>
      demandOrdered (appended emptyScan ls')) \<and>
   (\<exists>ls'. BuildNode exampleCompiler exampleBuilders ckFiniteNode emptyScan = Done 1 ls' \<and>
      appended emptyScan ls' =
        [RefInternalDef ckFiniteNode RBM_NONE, RefUse lclVarNode RBM_NONE,
         RefDef ckFiniteNode RBM_NONE 0 False, RefInternalUse ckFiniteNode RBM_NONE False])"
proof -
  have "\<exists>ls'. BuildNode exampleCompiler exampleBuilders lclHeapDynamic emptyScan = Done 1 ls'"
    by (simp add: example_defs BuildNode_def BuildNode_switch_def BuildNode_LCLHEAP_def Let_def
        breakWith_def)
  then obtain l1 where
    d1: "BuildNode exampleCompiler exampleBuilders lclHeapDynamic emptyScan = Done 1 l1" by blast
  have e: "\<not> orderException exampleCompiler lclHeapDynamic"
    "OperGet ckFiniteNode = GT_CKFINITE" "gtOp1 ckFiniteNode = Some lclVarNode"
    by (simp_all add: orderException_def example_defs5)
  from demand_record_order [OF d1 exampleBuilders_ordered]
    demand_record_order [OF ev_ckfinite exampleBuilders_ordered]
  show ?thesis using d1 e ev_ckfinite by simp
qed

text \<open>
  The input that separates C7 from the code: a finite check.  Its def is
  appended before the use of its internal register, so the records are not in
  the order internal defs, uses, internal uses, def, kill.
\<close>

theorem ckfinite_def_before_internal_use:
  "srcCountOf (BuildNode exampleCompiler exampleBuilders ckFiniteNode emptyScan) = Some 1 \<and>
   appended emptyScan (stateOf (BuildNode exampleCompiler exampleBuilders ckFiniteNode emptyScan)) =
     [RefInternalDef ckFiniteNode RBM_NONE, RefUse lclVarNode RBM_NONE,
      RefDef ckFiniteNode RBM_NONE 0 False, RefInternalUse ckFiniteNode RBM_NONE False] \<and>
   \<not> demandOrdered
       (appended emptyScan
          (stateOf (BuildNode exampleCompiler exampleBuilders ckFiniteNode emptyScan)))"
  unfolding ev_ckfinite
  by (simp add: srcCountOf_def stateOf_def appended_def demandOrdered_def emptyScan_def)

lemmas example_defs6 = example_defs5 gsCompiler_def multiRegCall_def voidCall_def
  r2rTailCall_def indirectTailCall_def

lemma fold_or_start:
  "(m::64 word) AND NOT m0 = 0 \<Longrightarrow> m AND NOT (fold (\<lambda>reg m. m OR f reg) xs m0) = 0"
proof (induction xs arbitrary: m0)
  case Nil
  then show ?case by simp
next
  case (Cons x xs)
  have "m AND NOT (m0 OR f x) = 0"
    using Cons.prems by (auto simp: bit_eq_iff bit_and_iff bit_not_iff bit_or_iff)
  from Cons.IH [OF this] show ?case by simp
qed

lemma fold_or_member:
  "x \<in> set xs \<Longrightarrow> (f x :: 64 word) AND NOT (fold (\<lambda>reg m. m OR f reg) xs m0) = 0"
proof (induction xs arbitrary: m0)
  case Nil
  then show ?case by simp
next
  case (Cons y ys)
  show ?case
  proof (cases "x = y")
    case True
    have "f y AND NOT (m0 OR f y) = 0"
      by (simp add: bit_eq_iff bit_and_iff bit_not_iff bit_or_iff)
    from fold_or_start [OF this] True show ?thesis by simp
  next
    case False
    with Cons.prems have "x \<in> set ys" by simp
    from Cons.IH [OF this] show ?thesis by simp
  qed
qed

lemma return_reg_within_abi:
  "i < length (gtReturnTypeDesc (gt call)) \<Longrightarrow>
     genSingleTypeRegMask (gtReturnTypeDesc (gt call) ! i) AND NOT (GetABIReturnRegs call) = 0"
  unfolding GetABIReturnRegs_def by (rule fold_or_member) simp

lemma filter_internalDefRefs [simp]:
  "filter isDef (internalDefRefs xs) = []" "filter isKill (internalDefRefs xs) = []"
  "filter isInternalDef (internalDefRefs xs) = internalDefRefs xs"
  by (induction xs) (auto simp: internalDefRefs_def)

lemma filter_internalUseRefs [simp]:
  "filter isDef (internalUseRefs b xs) = []" "filter isKill (internalUseRefs b xs) = []"
  "filter isInternalDef (internalUseRefs b xs) = []"
  by (induction xs) (auto simp: internalUseRefs_def)

lemma filter_useRefs [simp]:
  "filter isDef (useRefs xs) = []" "filter isKill (useRefs xs) = []"
  "filter isInternalDef (useRefs xs) = []"
  by (induction xs) (auto simp: useRefs_def)

lemma filter_callDefsAndKills_idef [simp]: "filter isInternalDef (callDefsAndKills c call) = []"
  by (simp add: callDefsAndKills_def BuildCallDefs_def filter_map comp_def)

lemma callDefsAndKills_multi:
  assumes "\<not> TypeIs call TYP_VOID" "HasMultiRegRetVal call"
  shows "filter isDef (callDefsAndKills c call) =
           map (\<lambda>i. RefDef call (genSingleTypeRegMask (gtReturnTypeDesc (gt call) ! i)) i False)
             [0..<length (gtReturnTypeDesc (gt call))]"
    and "filter isKill (callDefsAndKills c call) =
           [RefKill call (getKillSetForCall c call AND NOT (GetABIReturnRegs call))]"
proof -
  show "filter isDef (callDefsAndKills c call) =
           map (\<lambda>i. RefDef call (genSingleTypeRegMask (gtReturnTypeDesc (gt call) ! i)) i False)
             [0..<length (gtReturnTypeDesc (gt call))]"
    using assms
    by (simp add: callDefsAndKills_def callDstCount_def GetReturnRegCount_def BuildCallDefs_def
        filter_map comp_def)
  show "filter isKill (callDefsAndKills c call) =
           [RefKill call (getKillSetForCall c call AND NOT (GetABIReturnRegs call))]"
    using assms
    by (simp add: callDefsAndKills_def callDstCount_def GetReturnRegCount_def BuildCallDefs_def
        GetABIReturnRegs_def filter_map comp_def RBM_NONE_def)
qed

lemma callDefsAndKills_void:
  assumes "TypeIs call TYP_VOID"
  shows "filter isDef (callDefsAndKills c call) = []"
    and "filter isKill (callDefsAndKills c call) = [RefKill call (getKillSetForCall c call)]"
  using assms by (simp_all add: callDefsAndKills_def callDstCount_def)

lemma BuildNode_call_records:
  assumes "BuildNode c ext call ls = Done n ls'" "OperGet call = GT_CALL"
  shows "appended ls ls' =
       internalDefRefs (callTargetInternal c call) @
       useRefs (snd (BuildCallArgUses ext call)) @
       (case ctrlExprOf call of None \<Rightarrow> []
        | Some ce \<Rightarrow> [RefUse ce (ctrlExprCandidatesOf c call)]) @
       internalUseRefs False (callTargetInternal c call) @
       callDefsAndKills c call"
proof -
  from BuildNode_SBreak [OF assms(1)] assms(2)
  have "BuildCall c ext call (clearBuildState ls) = Done n ls'"
    by (auto simp: BuildNode_switch_def)
  from BuildCall_Done [OF this] show ?thesis
    by (simp add: appended_def)
qed

text \<open>
  C4.  A call with a multi-register return of N slots appends exactly N defs,
  the def of slot \<open>i\<close> with the return register of slot \<open>i\<close> as its only
  candidate, so each candidate mask lies within the ABI return registers of
  the call; the one kill record appended with them is the kill set of the call
  without the return registers.  A call of type void appends no def and the
  kill set of the call as it is.
\<close>

theorem call_defs_and_kill:
  assumes "BuildNode compiler ext call ls = Done srcCount ls'" and "OperGet call = GT_CALL"
  shows "(\<not> TypeIs call TYP_VOID \<and> HasMultiRegRetVal call \<longrightarrow>
            filter isDef (appended ls ls') =
              map (\<lambda>i. RefDef call (genSingleTypeRegMask (gtReturnTypeDesc (gt call) ! i)) i False)
                [0..<length (gtReturnTypeDesc (gt call))] \<and>
            int (length (filter isDef (appended ls ls'))) = GetReturnRegCount call \<and>
            (\<forall>r \<in> set (filter isDef (appended ls ls')).
               candidatesOf r AND NOT (GetABIReturnRegs call) = 0) \<and>
            filter isKill (appended ls ls') =
              [RefKill call (getKillSetForCall compiler call AND NOT (GetABIReturnRegs call))] \<and>
            (getKillSetForCall compiler call AND NOT (GetABIReturnRegs call)) AND
              GetABIReturnRegs call = 0) \<and>
         (TypeIs call TYP_VOID \<longrightarrow>
            filter isDef (appended ls ls') = [] \<and>
            filter isKill (appended ls ls') = [RefKill call (getKillSetForCall compiler call)])"
proof -
  note r = BuildNode_call_records [OF assms]
  have pre: "filter isDef (appended ls ls') = filter isDef (callDefsAndKills compiler call)"
    "filter isKill (appended ls ls') = filter isKill (callDefsAndKills compiler call)"
    by (simp_all add: r split: option.splits)
  show ?thesis
  proof (intro conjI impI)
    assume m: "\<not> TypeIs call TYP_VOID \<and> HasMultiRegRetVal call"
    then have m1: "\<not> TypeIs call TYP_VOID" and m2: "HasMultiRegRetVal call" by simp_all
    note d = callDefsAndKills_multi [OF m1 m2, of compiler]
    show "filter isDef (appended ls ls') =
              map (\<lambda>i. RefDef call (genSingleTypeRegMask (gtReturnTypeDesc (gt call) ! i)) i False)
                [0..<length (gtReturnTypeDesc (gt call))]"
      by (simp add: pre d)
    show "int (length (filter isDef (appended ls ls'))) = GetReturnRegCount call"
      by (simp add: pre d GetReturnRegCount_def)
    show "\<forall>r \<in> set (filter isDef (appended ls ls')).
               candidatesOf r AND NOT (GetABIReturnRegs call) = 0"
      unfolding pre d by (auto simp: return_reg_within_abi)
    show "filter isKill (appended ls ls') =
              [RefKill call (getKillSetForCall compiler call AND NOT (GetABIReturnRegs call))]"
      by (simp add: pre d)
    show "(getKillSetForCall compiler call AND NOT (GetABIReturnRegs call)) AND
              GetABIReturnRegs call = 0"
      by (simp add: and.assoc)
  next
    assume v: "TypeIs call TYP_VOID"
    show "filter isDef (appended ls ls') = []"
      by (simp add: pre callDefsAndKills_void [OF v])
    show "filter isKill (appended ls ls') = [RefKill call (getKillSetForCall compiler call)]"
      by (simp add: pre callDefsAndKills_void [OF v])
  qed
qed

lemmas call_eval = BuildNode_def BuildNode_switch_def BuildCall_def BuildCall_target_def
  runUseBuilder_def BuildCallDefsWithKills_def BuildDefWithKills_def GetABIReturnRegs_def
  GetReturnRegCount_def genSingleTypeRegMask_def Let_def breakWith_def prims internalUses_def
  varTypeUsesFloatArgReg_def varTypeIsFloating_def RBM_NONE_def

lemma ev_multiRegCall:
  "\<exists>ls'. BuildNode exampleCompiler exampleBuilders multiRegCall emptyScan = Done 1 ls'"
  by (simp add: example_defs6 call_eval)

lemma ev_voidCall:
  "\<exists>ls'. BuildNode exampleCompiler exampleBuilders voidCall emptyScan = Done 1 ls'"
  by (simp add: example_defs6 call_eval)

theorem call_defs_and_kill_witness:
  "(\<exists>ls'. BuildNode exampleCompiler exampleBuilders multiRegCall emptyScan = Done 1 ls' \<and>
      filter isDef (appended emptyScan ls') =
        [RefDef multiRegCall 16 0 False, RefDef multiRegCall 32 1 False] \<and>
      filter isKill (appended emptyScan ls') = [RefKill multiRegCall (2097136 AND NOT 48)]) \<and>
   (\<exists>ls'. BuildNode exampleCompiler exampleBuilders voidCall emptyScan = Done 1 ls' \<and>
      filter isDef (appended emptyScan ls') = [] \<and>
      filter isKill (appended emptyScan ls') = [RefKill voidCall 2097136])"
proof -
  from ev_multiRegCall obtain l1 where
    d1: "BuildNode exampleCompiler exampleBuilders multiRegCall emptyScan = Done 1 l1" by blast
  from ev_voidCall obtain l2 where
    d2: "BuildNode exampleCompiler exampleBuilders voidCall emptyScan = Done 1 l2" by blast
  have o: "OperGet multiRegCall = GT_CALL" "OperGet voidCall = GT_CALL"
    "\<not> TypeIs multiRegCall TYP_VOID" "HasMultiRegRetVal multiRegCall" "TypeIs voidCall TYP_VOID"
    "gtReturnTypeDesc (gt multiRegCall) = [4, 5]"
    "getKillSetForCall exampleCompiler multiRegCall = 2097136"
    "getKillSetForCall exampleCompiler voidCall = 2097136"
    by (simp_all add: example_defs6)
  have a: "GetABIReturnRegs multiRegCall = 48"
    by (simp add: GetABIReturnRegs_def o genSingleTypeRegMask_def RBM_NONE_def)
  have u: "[0..<2] = [0, 1]" by (simp add: upt_rec)
  from call_defs_and_kill [OF d1 o(1)] call_defs_and_kill [OF d2 o(2)]
  show ?thesis
    using d1 d2 o a by (simp add: genSingleTypeRegMask_def u)
qed

text \<open>
  C2, as the code has it.  For a fast tail call whose target is the control
  expression, the use of the target has the callee-trash integer registers as
  candidates, without the two cookie temporaries when the method needs a GS
  cookie.  For a fast tail call without control expression through an R2R or
  virtual-stub indirection cell, the internal register that holds the target
  has all the callee-trash integer registers as candidates, also when the
  method needs a GS cookie: the cookie temporaries are taken out of the
  candidates of the control expression, which this path never uses.
\<close>

theorem fast_tail_call_target_candidates:
  assumes "BuildNode compiler ext call ls = Done srcCount ls'" and "OperGet call = GT_CALL"
    and "IsFastTailCall call"
  shows "(\<forall>ce. ctrlExprOf call = Some ce \<longrightarrow>
            filter isInternalDef (appended ls ls') = [] \<and>
            RefUse ce (ctrlExprCandidatesOf compiler call) \<in> set (appended ls ls') \<and>
            ctrlExprCandidatesOf compiler call AND NOT (calleeTrashRegs compiler) = 0 \<and>
            (getNeedsGSSecurityCookie compiler \<longrightarrow>
               ctrlExprCandidatesOf compiler call AND gsCookieTmpRegs compiler = 0)) \<and>
         (ctrlExprOf call = None \<and> IsR2ROrVirtualStubRelativeIndir call \<longrightarrow>
            filter isInternalDef (appended ls ls') =
              [RefInternalDef call (calleeTrashRegs compiler)])"
proof -
  note r = BuildNode_call_records [OF assms(1,2)]
  have t: "ctrlExprCandidatesOf compiler call AND NOT (calleeTrashRegs compiler) = 0"
    using assms(3)
    by (auto simp: ctrlExprCandidatesOf_def bit_eq_iff bit_and_iff bit_not_iff)
  have g: "getNeedsGSSecurityCookie compiler \<Longrightarrow>
             ctrlExprCandidatesOf compiler call AND gsCookieTmpRegs compiler = 0"
    using assms(3) by (simp add: ctrlExprCandidatesOf_def and.assoc)
  have a: "\<And>ce. ctrlExprOf call = Some ce \<Longrightarrow>
            filter isInternalDef (appended ls ls') = [] \<and>
            RefUse ce (ctrlExprCandidatesOf compiler call) \<in> set (appended ls ls')"
    by (simp add: r callTargetInternal_def internalDefRefs_def internalUseRefs_def)
  have b: "ctrlExprOf call = None \<and> IsR2ROrVirtualStubRelativeIndir call \<Longrightarrow>
            filter isInternalDef (appended ls ls') =
              [RefInternalDef call (calleeTrashRegs compiler)]"
    using assms(3)
    by (simp add: r callTargetInternal_def internalDefRefs_def internalUseRefs_def)
  show ?thesis
    using a b t g by blast
qed

lemma ev_indirectTailCall:
  "\<exists>ls'. BuildNode gsCompiler exampleBuilders indirectTailCall emptyScan = Done 1 ls'"
  by (simp add: example_defs6 call_eval gsCookieTmpRegs_def allRegs_TYP_INT_def GetIntRegSet_def)

lemma ev_r2rTailCall:
  "\<exists>ls'. BuildNode gsCompiler exampleBuilders r2rTailCall emptyScan = Done 0 ls'"
  by (simp add: example_defs6 call_eval gsCookieTmpRegs_def allRegs_TYP_INT_def GetIntRegSet_def)

lemma gs_masks:
  "calleeTrashRegs gsCompiler = 2097136" "gsCookieTmpRegs gsCompiler = 12288"
  by (simp_all add: calleeTrashRegs_def gsCookieTmpRegs_def example_defs6 allRegs_TYP_INT_def
      GetIntRegSet_def genSingleTypeRegMask_def)

theorem fast_tail_call_target_candidates_witness:
  "(\<exists>ls'. BuildNode gsCompiler exampleBuilders indirectTailCall emptyScan = Done 1 ls' \<and>
      RefUse lclVarNode (2097136 AND NOT 12288) \<in> set (appended emptyScan ls')) \<and>
   (\<exists>ls'. BuildNode gsCompiler exampleBuilders r2rTailCall emptyScan = Done 0 ls' \<and>
      filter isInternalDef (appended emptyScan ls') = [RefInternalDef r2rTailCall 2097136])"
proof -
  from ev_indirectTailCall obtain l1 where
    d1: "BuildNode gsCompiler exampleBuilders indirectTailCall emptyScan = Done 1 l1" by blast
  from ev_r2rTailCall obtain l2 where
    d2: "BuildNode gsCompiler exampleBuilders r2rTailCall emptyScan = Done 0 l2" by blast
  have o: "OperGet indirectTailCall = GT_CALL" "IsFastTailCall indirectTailCall"
    "OperGet r2rTailCall = GT_CALL" "IsFastTailCall r2rTailCall"
    "ctrlExprOf indirectTailCall = Some lclVarNode" "ctrlExprOf r2rTailCall = None"
    "IsR2ROrVirtualStubRelativeIndir r2rTailCall" "getNeedsGSSecurityCookie gsCompiler"
    by (simp_all add: example_defs6 ctrlExprOf_def)
  have c: "ctrlExprCandidatesOf gsCompiler indirectTailCall = 2097136 AND NOT 12288"
    by (simp add: ctrlExprCandidatesOf_def o gs_masks)
  from fast_tail_call_target_candidates [OF d1 o(1,2)]
    fast_tail_call_target_candidates [OF d2 o(3,4)]
  show ?thesis
    using d1 d2 o c gs_masks by simp
qed

text \<open>
  The input on which the code leaves C2: a fast tail call without control
  expression through an R2R indirection cell, in a method that needs a GS
  cookie.  The internal register for the target has the candidates
  \<open>0x1FFFF0\<close>, which contain both cookie temporaries (\<open>0x3000\<close>).
\<close>

theorem r2r_tail_call_keeps_cookie_temporaries:
  "getNeedsGSSecurityCookie gsCompiler \<and> IsFastTailCall r2rTailCall \<and>
   ctrlExprOf r2rTailCall = None \<and> IsR2ROrVirtualStubRelativeIndir r2rTailCall \<and>
   srcCountOf (BuildNode gsCompiler exampleBuilders r2rTailCall emptyScan) = Some 0 \<and>
   filter isInternalDef
     (appended emptyScan (stateOf (BuildNode gsCompiler exampleBuilders r2rTailCall emptyScan))) =
     [RefInternalDef r2rTailCall 2097136] \<and>
   gsCookieTmpRegs gsCompiler = 12288 \<and>
   (2097136 :: 64 word) AND 12288 = 12288"
proof -
  have d: "BuildNode gsCompiler exampleBuilders r2rTailCall emptyScan =
     Done 0 (emptyScan\<lparr>refPositions :=
       [RefInternalDef r2rTailCall 2097136, RefInternalUse r2rTailCall 2097136 False,
        RefKill r2rTailCall 2097136]\<rparr>)"
    by (simp add: example_defs6 call_eval gsCookieTmpRegs_def allRegs_TYP_INT_def
        GetIntRegSet_def)
  have o: "getNeedsGSSecurityCookie gsCompiler" "IsFastTailCall r2rTailCall"
    "ctrlExprOf r2rTailCall = None" "IsR2ROrVirtualStubRelativeIndir r2rTailCall"
    by (simp_all add: example_defs6 ctrlExprOf_def)
  show ?thesis
    unfolding d
    by (simp add: o gs_masks srcCountOf_def stateOf_def appended_def emptyScan_def)
qed

end
